theory Spec2Isabelle
  imports Complex_Main "HOL-Library.Word"
begin

section \<open>JavaScript numbers and metric values\<close>

text \<open>
  The fetchers compute with JavaScript numbers, the values of IEEE 754 binary64: \<open>NaN\<close>,
  \<open>+Infinity\<close>, \<open>-Infinity\<close> and the finite values, each held as the rational number it
  denotes. The two zeros are identified: they compare equal and are written alike, and the
  code divides only by constants, by the length of a non-empty array and by values it has
  tested to be non-zero.
\<close>

datatype jsnum = NaN | PInf | NInf | Fin rat

text \<open>
  A metric value as the adapters hold it: a number, \<open>null\<close> (a JSON null) or
  \<open>undefined\<close> (a field that is absent).
\<close>

datatype metric = Undefined | Null | Num jsnum

text \<open>
  The result of an arithmetic operation is the exact result rounded to the nearest binary64
  value, a tie going to the value with an even significand. A positive rational is first
  brought to the form \<open>m * 2^q\<close> with \<open>2^52 \<le> m < 2^53\<close>, or with \<open>q = -1074\<close> and
  \<open>m < 2^52\<close> in the subnormal range; \<open>m\<close> is then rounded to an integer. A result of
  magnitude \<open>2^1024\<close> or more is an infinity.
\<close>

definition round_even :: "rat \<Rightarrow> int" where
  "round_even m =
     (let n = \<lfloor>m\<rfloor>; r = m - of_int n
      in if r < 1 / 2 then n else if 1 / 2 < r then n + 1 else if even n then n else n + 1)"

function scale_down :: "rat \<Rightarrow> int \<Rightarrow> rat \<times> int" where
  "scale_down m q = (if 2 ^ 53 \<le> m then scale_down (m / 2) (q + 1) else (m, q))"
  by pat_completeness auto
termination
proof (relation "measure (\<lambda>(m, q). nat \<lfloor>m\<rfloor>)")
  show "wf (measure (\<lambda>(m, q). nat \<lfloor>m\<rfloor>))" by simp
next
  fix m :: rat and q :: int
  assume h: "2 ^ 53 \<le> m"
  then have "m / 2 \<le> m - 1" by simp
  then have "\<lfloor>m / 2\<rfloor> \<le> \<lfloor>m - 1\<rfloor>" by (rule floor_mono)
  moreover have "1 \<le> \<lfloor>m\<rfloor>" using h by (simp add: le_floor_iff)
  ultimately show "((m / 2, q + 1), (m, q)) \<in> measure (\<lambda>(m, q). nat \<lfloor>m\<rfloor>)"
    by simp
qed

function scale_up :: "rat \<Rightarrow> int \<Rightarrow> rat \<times> int" where
  "scale_up m q = (if m < 2 ^ 52 \<and> - 1074 < q then scale_up (m * 2) (q - 1) else (m, q))"
  by pat_completeness auto
termination
  by (relation "measure (\<lambda>(m, q). nat (q + 1074))") auto

declare scale_down.simps [simp del] scale_up.simps [simp del]

definition normalized :: "rat \<Rightarrow> rat \<times> int" where
  "normalized a = (case scale_down a 0 of (m1, q1) \<Rightarrow> scale_up m1 q1)"

definition overflow :: rat where
  "overflow = 2 ^ 1024"

text \<open>The sign of an infinite result.\<close>

definition signed_inf :: "bool \<Rightarrow> jsnum" where
  "signed_inf positive = (if positive then PInf else NInf)"

definition fl :: "rat \<Rightarrow> jsnum" where
  "fl x =
     (if x = 0 then Fin 0
      else case normalized \<bar>x\<bar> of (m, q) \<Rightarrow>
             let r = of_int (round_even m) * 2 powi q
             in if overflow \<le> r then signed_inf (0 < x) else Fin (if 0 < x then r else - r))"

text \<open>
  A decimal literal of the source denotes the binary64 value nearest to it: \<open>0.7\<close> is
  \<open>fl (7 / 10)\<close>. Integers of moderate size and binary fractions such as \<open>0.5\<close> and \<open>1.5\<close>
  denote themselves.
\<close>

fun js_add :: "jsnum \<Rightarrow> jsnum \<Rightarrow> jsnum" where
  "js_add NaN _ = NaN"
| "js_add _ NaN = NaN"
| "js_add PInf NInf = NaN"
| "js_add NInf PInf = NaN"
| "js_add PInf _ = PInf"
| "js_add _ PInf = PInf"
| "js_add NInf _ = NInf"
| "js_add _ NInf = NInf"
| "js_add (Fin a) (Fin b) = fl (a + b)"

fun js_sub :: "jsnum \<Rightarrow> jsnum \<Rightarrow> jsnum" where
  "js_sub NaN _ = NaN"
| "js_sub _ NaN = NaN"
| "js_sub PInf PInf = NaN"
| "js_sub NInf NInf = NaN"
| "js_sub PInf _ = PInf"
| "js_sub _ PInf = NInf"
| "js_sub NInf _ = NInf"
| "js_sub _ NInf = PInf"
| "js_sub (Fin a) (Fin b) = fl (a - b)"

fun js_mul :: "jsnum \<Rightarrow> jsnum \<Rightarrow> jsnum" where
  "js_mul NaN _ = NaN"
| "js_mul _ NaN = NaN"
| "js_mul PInf PInf = PInf"
| "js_mul PInf NInf = NInf"
| "js_mul NInf PInf = NInf"
| "js_mul NInf NInf = PInf"
| "js_mul PInf (Fin b) = (if b = 0 then NaN else signed_inf (0 < b))"
| "js_mul NInf (Fin b) = (if b = 0 then NaN else signed_inf (b < 0))"
| "js_mul (Fin a) PInf = (if a = 0 then NaN else signed_inf (0 < a))"
| "js_mul (Fin a) NInf = (if a = 0 then NaN else signed_inf (a < 0))"
| "js_mul (Fin a) (Fin b) = fl (a * b)"

text \<open>
  Division never throws in JavaScript: a zero divisor gives \<open>NaN\<close> (for \<open>0/0\<close>) or an
  infinity.
\<close>

fun js_div :: "jsnum \<Rightarrow> jsnum \<Rightarrow> jsnum" where
  "js_div NaN _ = NaN"
| "js_div _ NaN = NaN"
| "js_div PInf PInf = NaN"
| "js_div PInf NInf = NaN"
| "js_div NInf PInf = NaN"
| "js_div NInf NInf = NaN"
| "js_div PInf (Fin b) = signed_inf (0 \<le> b)"
| "js_div NInf (Fin b) = signed_inf (b < 0)"
| "js_div (Fin a) PInf = Fin 0"
| "js_div (Fin a) NInf = Fin 0"
| "js_div (Fin a) (Fin b) =
     (if b = 0 then (if a = 0 then NaN else signed_inf (0 < a)) else fl (a / b))"

text \<open>\<open>a < b\<close> on numbers: false as soon as one side is \<open>NaN\<close>.\<close>

fun js_lt :: "jsnum \<Rightarrow> jsnum \<Rightarrow> bool" where
  "js_lt NaN _ = False"
| "js_lt _ NaN = False"
| "js_lt PInf _ = False"
| "js_lt _ PInf = True"
| "js_lt _ NInf = False"
| "js_lt NInf _ = True"
| "js_lt (Fin a) (Fin b) = (a < b)"

definition js_gt :: "jsnum \<Rightarrow> jsnum \<Rightarrow> bool" where
  "js_gt a b = js_lt b a"

text \<open>
  \<open>Math.round\<close>: the nearest integer, a tie going towards \<open>+Infinity\<close>
  (\<open>Math.round(2.5) = 3\<close>, \<open>Math.round(-2.5) = -2\<close>). The nearest integer of a binary64
  value is a binary64 value, so nothing is rounded a second time.
\<close>

fun Math_round :: "jsnum \<Rightarrow> jsnum" where
  "Math_round (Fin x) = Fin (of_int \<lfloor>x + 1 / 2\<rfloor>)"
| "Math_round n = n"

text \<open>
  \<open>Math.pow(10, decimals)\<close> for an integer \<open>decimals\<close>, taken as the binary64 value
  nearest to the power: \<open>10\<close> and \<open>100\<close> for the counts 1 and 2 that the adapters pass,
  \<open>Infinity\<close> from 309 on and 0 below -323.
\<close>

definition Math_pow10 :: "int \<Rightarrow> jsnum" where
  "Math_pow10 decimals = fl (10 powi decimals)"

text \<open>\<open>ToNumber\<close>, truthiness and \<open>===\<close> on metric values.\<close>

fun to_number :: "metric \<Rightarrow> jsnum" where
  "to_number Undefined = NaN"
| "to_number Null = Fin 0"
| "to_number (Num n) = n"

fun truthy :: "metric \<Rightarrow> bool" where
  "truthy Undefined = False"
| "truthy Null = False"
| "truthy (Num NaN) = False"
| "truthy (Num (Fin x)) = (x \<noteq> 0)"
| "truthy (Num _) = True"

fun strict_eq :: "metric \<Rightarrow> metric \<Rightarrow> bool" where
  "strict_eq Undefined Undefined = True"
| "strict_eq Null Null = True"
| "strict_eq (Num NaN) (Num _) = False"
| "strict_eq (Num _) (Num NaN) = False"
| "strict_eq (Num a) (Num b) = (a = b)"
| "strict_eq _ _ = False"

text \<open>The relational operators convert both sides with \<open>ToNumber\<close>.\<close>

definition metric_gt :: "metric \<Rightarrow> metric \<Rightarrow> bool" where
  "metric_gt a b = js_gt (to_number a) (to_number b)"

definition metric_lt :: "metric \<Rightarrow> metric \<Rightarrow> bool" where
  "metric_lt a b = js_lt (to_number a) (to_number b)"

text \<open>\<open>a ?? b\<close>\<close>

definition coalesce :: "metric \<Rightarrow> metric \<Rightarrow> metric" where
  "coalesce a b = (if a = Undefined \<or> a = Null then b else a)"

section \<open>JavaScript values\<close>

text \<open>
  Documents that the program only moves around (the adapters' snapshots, the generator's
  parsed report, the artifact) are JavaScript values. An object is the list of its own
  properties in insertion order. A string inside a document is only copied, measured or
  tested for being empty, and is kept as a list of characters.
\<close>

datatype jsval =
    JUndefined
  | JNull
  | JBool bool
  | JNum jsnum
  | JStr string
  | JArr "jsval list"
  | JObj "(string \<times> jsval) list"

text \<open>
  What is thrown, and what a promise rejects with, is an \<open>Error\<close> object: one made by
  \<open>new Error(...)\<close> (or by a client library), a \<open>TypeError\<close> or a \<open>SyntaxError\<close> of the
  runtime, each with its \<open>message\<close>.
\<close>

datatype error = Error string | TypeError string | SyntaxError string

fun message :: "error \<Rightarrow> string" where
  "message (Error m) = m"
| "message (TypeError m) = m"
| "message (SyntaxError m) = m"

section \<open>The delta helper \<open>pct\<close>\<close>

text \<open>
  \<^verbatim>\<open>
  function pct(current, previous) {
    if (!previous || previous === 0) return null;
    return Math.round(((current - previous) / previous) * 1000) / 10;
  }
  \<close>
  The same text stands in ga4.js, youtube.js, meta.js, unbounce.js and vimeo.js; each copy
  is embedded under its own name.
\<close>

definition ga4_pct :: "metric \<Rightarrow> metric \<Rightarrow> metric" where
  "ga4_pct current previous =
     (if \<not> truthy previous \<or> strict_eq previous (Num (Fin 0)) then Null
      else Num (js_div (Math_round (js_mul
             (js_div (js_sub (to_number current) (to_number previous)) (to_number previous))
             (Fin 1000))) (Fin 10)))"

definition youtube_pct :: "metric \<Rightarrow> metric \<Rightarrow> metric" where
  "youtube_pct current previous =
     (if \<not> truthy previous \<or> strict_eq previous (Num (Fin 0)) then Null
      else Num (js_div (Math_round (js_mul
             (js_div (js_sub (to_number current) (to_number previous)) (to_number previous))
             (Fin 1000))) (Fin 10)))"

definition meta_pct :: "metric \<Rightarrow> metric \<Rightarrow> metric" where
  "meta_pct current previous =
     (if \<not> truthy previous \<or> strict_eq previous (Num (Fin 0)) then Null
      else Num (js_div (Math_round (js_mul
             (js_div (js_sub (to_number current) (to_number previous)) (to_number previous))
             (Fin 1000))) (Fin 10)))"

definition unbounce_pct :: "metric \<Rightarrow> metric \<Rightarrow> metric" where
  "unbounce_pct current previous =
     (if \<not> truthy previous \<or> strict_eq previous (Num (Fin 0)) then Null
      else Num (js_div (Math_round (js_mul
             (js_div (js_sub (to_number current) (to_number previous)) (to_number previous))
             (Fin 1000))) (Fin 10)))"

definition vimeo_pct :: "metric \<Rightarrow> metric \<Rightarrow> metric" where
  "vimeo_pct current previous =
     (if \<not> truthy previous \<or> strict_eq previous (Num (Fin 0)) then Null
      else Num (js_div (Math_round (js_mul
             (js_div (js_sub (to_number current) (to_number previous)) (to_number previous))
             (Fin 1000))) (Fin 10)))"

section \<open>The rounding helper \<open>round\<close>\<close>

text \<open>
  \<^verbatim>\<open>
  function round(val, decimals = 2) {     // meta.js; the default is 1 in the others
    const factor = Math.pow(10, decimals);
    return Math.round(val * factor) / factor;
  }
  \<close>
  The helper stands in meta.js, unbounce.js, vimeo.js and kit.js. An omitted second
  argument is \<open>None\<close>.
\<close>

definition meta_round :: "jsnum \<Rightarrow> int option \<Rightarrow> jsnum" where
  "meta_round val decimals =
     (let factor = Math_pow10 (case decimals of None \<Rightarrow> 2 | Some d \<Rightarrow> d)
      in js_div (Math_round (js_mul val factor)) factor)"

definition unbounce_round :: "jsnum \<Rightarrow> int option \<Rightarrow> jsnum" where
  "unbounce_round val decimals =
     (let factor = Math_pow10 (case decimals of None \<Rightarrow> 1 | Some d \<Rightarrow> d)
      in js_div (Math_round (js_mul val factor)) factor)"

definition vimeo_round :: "jsnum \<Rightarrow> int option \<Rightarrow> jsnum" where
  "vimeo_round val decimals =
     (let factor = Math_pow10 (case decimals of None \<Rightarrow> 1 | Some d \<Rightarrow> d)
      in js_div (Math_round (js_mul val factor)) factor)"

definition kit_round :: "jsnum \<Rightarrow> int option \<Rightarrow> jsnum" where
  "kit_round val decimals =
     (let factor = Math_pow10 (case decimals of None \<Rightarrow> 1 | Some d \<Rightarrow> d)
      in js_div (Math_round (js_mul val factor)) factor)"

text \<open>
  The convention the specification names: round half away from zero on \<open>v * 10^n\<close>, then
  divide back. This definition follows the specification's words, for comparison with the
  helpers above.
\<close>

definition round_half_away :: "rat \<Rightarrow> int" where
  "round_half_away x = (if 0 \<le> x then \<lfloor>x + 1 / 2\<rfloor> else - \<lfloor>- x + 1 / 2\<rfloor>)"

definition spec_round :: "rat \<Rightarrow> nat \<Rightarrow> rat" where
  "spec_round v n = of_int (round_half_away (v * 10 ^ n)) / 10 ^ n"

section \<open>Vimeo: \<open>parseAnalytics\<close> and the low-finish-rate selection\<close>

text \<open>
  An analytics row as the Vimeo API returns it: each metric is a number, \<open>null\<close> or absent.
  The response \<open>res\<close> is an object that may carry a \<open>data\<close> array of rows (an entry may be
  \<open>null\<close>) and may carry the metrics itself. \<open>parseAnalytics\<close> receives \<open>None\<close> when the
  parsed response body is \<open>null\<close>; reading \<open>res.data\<close> then raises a TypeError.
\<close>

record vrow =
  row_plays :: metric
  row_finishes :: metric
  row_impressions :: metric
  row_watch_time :: metric

record vres = vrow +
  res_data :: "vrow option list option"

record analytics =
  plays :: metric
  finishes :: metric
  impressions :: metric
  watchMinutes :: metric
  playRate :: metric
  finishRate :: metric

text \<open>\<open>res.data?.[0] ?? res\<close>\<close>

definition first_row :: "vres \<Rightarrow> vrow" where
  "first_row res =
     (case res_data res of
        Some (Some row # _) \<Rightarrow> row
      | _ \<Rightarrow> vrow.truncate res)"

text \<open>
  \<^verbatim>\<open>
  function parseAnalytics(res) {
    const row = res.data?.[0] ?? res;
    return {
      plays:        row.plays        ?? row.impressions ?? 0,
      finishes:     row.finishes     ?? 0,
      impressions:  row.impressions  ?? 0,
      watchMinutes: round((row.watch_time ?? 0) / 60, 1),
      playRate:     row.impressions > 0
        ? round((row.plays / row.impressions) * 100, 1)
        : null,
      finishRate:   row.plays > 0
        ? round((row.finishes / row.plays) * 100, 1)
        : null,
    };
  }
  \<close>
\<close>

definition parseAnalytics :: "vres option \<Rightarrow> error + analytics" where
  "parseAnalytics res =
     (case res of
        None \<Rightarrow> Inl (TypeError ''Cannot read properties of null (reading 'data')'')
      | Some r \<Rightarrow>
          (let row = first_row r in
           Inr \<lparr> plays = coalesce (row_plays row) (coalesce (row_impressions row) (Num (Fin 0))),
                 finishes = coalesce (row_finishes row) (Num (Fin 0)),
                 impressions = coalesce (row_impressions row) (Num (Fin 0)),
                 watchMinutes =
                   Num (vimeo_round
                     (js_div (to_number (coalesce (row_watch_time row) (Num (Fin 0)))) (Fin 60))
                     (Some 1)),
                 playRate =
                   (if metric_gt (row_impressions row) (Num (Fin 0))
                    then Num (vimeo_round
                      (js_mul (js_div (to_number (row_plays row)) (to_number (row_impressions row)))
                         (Fin 100))
                      (Some 1))
                    else Null),
                 finishRate =
                   (if metric_gt (row_plays row) (Num (Fin 0))
                    then Num (vimeo_round
                      (js_mul (js_div (to_number (row_finishes row)) (to_number (row_plays row)))
                         (Fin 100))
                      (Some 1))
                    else Null) \<rparr>))"

text \<open>
  A video as \<open>fetchVimeoData\<close> holds it after the per-video step: the listing's fields,
  and either the statistics or an \<open>error\<close> message. A property that the object does not have
  is \<open>None\<close> (for the two statistics records and the message) or \<open>Undefined\<close>.
\<close>

record video =
  v_id :: string
  v_uri :: string
  v_title :: string
  v_duration :: metric
  v_totalPlays :: metric
  v_createdAt :: string

record video_stats = video +
  thisWeek :: "analytics option"
  lastWeek :: "analytics option"
  playsDelta :: metric
  finishRateDelta :: metric
  engagement :: jsval
  v_error :: "string option"

text \<open>Truthiness of an optional string property: absent and the empty string are falsy.\<close>

definition truthy_str :: "string option \<Rightarrow> bool" where
  "truthy_str s = (case s of None \<Rightarrow> False | Some t \<Rightarrow> t \<noteq> [])"

text \<open>\<open>v.thisWeek?.plays\<close> and \<open>v.thisWeek?.finishRate\<close>\<close>

definition thisWeek_plays :: "video_stats \<Rightarrow> metric" where
  "thisWeek_plays v = (case thisWeek v of None \<Rightarrow> Undefined | Some a \<Rightarrow> plays a)"

definition thisWeek_finishRate :: "video_stats \<Rightarrow> metric" where
  "thisWeek_finishRate v = (case thisWeek v of None \<Rightarrow> Undefined | Some a \<Rightarrow> finishRate a)"

text \<open>
  \<^verbatim>\<open>
  function avg(arr) {                                       // vimeo.js
    const valid = arr.filter(v => v != null && !isNaN(v));
    if (!valid.length) return 0;
    return valid.reduce((a, b) => a + b, 0) / valid.length;
  }
  \<close>
\<close>

definition isNaN :: "metric \<Rightarrow> bool" where
  "isNaN v = (to_number v = NaN)"

definition vimeo_avg :: "metric list \<Rightarrow> jsnum" where
  "vimeo_avg arr =
     (let valid = filter (\<lambda>v. \<not> (v = Undefined \<or> v = Null) \<and> \<not> isNaN v) arr
      in if length valid = 0 then Fin 0
         else js_div (foldl (\<lambda>a b. js_add a (to_number b)) (Fin 0) valid)
                (Fin (of_nat (length valid))))"

text \<open>
  \<^verbatim>\<open>
  const validVideos  = videosWithStats.filter(v => !v.error);
  const avgFinishRate = avg(validVideos.map(v => v.thisWeek?.finishRate).filter(Boolean));
  const lowFinishRate = validVideos.filter(v =>
    v.thisWeek?.plays > 10 &&
    v.thisWeek?.finishRate < avgFinishRate * 0.7
  );
  \<close>
\<close>

definition validVideos :: "video_stats list \<Rightarrow> video_stats list" where
  "validVideos videosWithStats = filter (\<lambda>v. \<not> truthy_str (v_error v)) videosWithStats"

definition avgFinishRate :: "video_stats list \<Rightarrow> jsnum" where
  "avgFinishRate videosWithStats =
     vimeo_avg (filter truthy (map thisWeek_finishRate (validVideos videosWithStats)))"

definition lowFinishRate :: "video_stats list \<Rightarrow> video_stats list" where
  "lowFinishRate videosWithStats =
     filter (\<lambda>v. metric_gt (thisWeek_plays v) (Num (Fin 10)) \<and>
                 metric_lt (thisWeek_finishRate v)
                   (Num (js_mul (avgFinishRate videosWithStats) (fl (7 / 10)))))
       (validVideos videosWithStats)"

section \<open>Unbounce: the problem-page selection\<close>

record pstats =
  visitors :: metric
  conversions :: metric
  conversionRate :: metric

record page_stats =
  pageId :: string
  pageName :: string
  url :: string
  state :: string
  p_thisWeek :: "pstats option"
  p_lastWeek :: "pstats option"
  conversionDelta :: metric
  visitorsDelta :: metric
  p_error :: "string option"

text \<open>\<open>p.thisWeek?.visitors\<close> and \<open>p.thisWeek?.conversionRate\<close>\<close>

definition thisWeek_visitors :: "page_stats \<Rightarrow> metric" where
  "thisWeek_visitors p = (case p_thisWeek p of None \<Rightarrow> Undefined | Some t \<Rightarrow> visitors t)"

definition thisWeek_conversionRate :: "page_stats \<Rightarrow> metric" where
  "thisWeek_conversionRate p =
     (case p_thisWeek p of None \<Rightarrow> Undefined | Some t \<Rightarrow> conversionRate t)"

text \<open>
  \<^verbatim>\<open>
  function avg(arr) {                                       // unbounce.js
    if (!arr.length) return 0;
    return arr.reduce((a, b) => a + b, 0) / arr.length;
  }
  \<close>
\<close>

definition unbounce_avg :: "metric list \<Rightarrow> jsnum" where
  "unbounce_avg arr =
     (if length arr = 0 then Fin 0
      else js_div (foldl (\<lambda>a b. js_add a (to_number b)) (Fin 0) arr)
             (Fin (of_nat (length arr))))"

text \<open>
  \<^verbatim>\<open>
  const publishedPages = pageStats.filter(p => p.state === 'published' && !p.error);
  const avgConvRate = avg(publishedPages.map(p => p.thisWeek?.conversionRate).filter(Boolean));
  const problemPages = publishedPages.filter(p =>
    p.thisWeek?.visitors > 50 &&
    p.thisWeek?.conversionRate < avgConvRate * 0.5
  );
  \<close>
\<close>

definition publishedPages :: "page_stats list \<Rightarrow> page_stats list" where
  "publishedPages pageStats =
     filter (\<lambda>p. state p = ''published'' \<and> \<not> truthy_str (p_error p)) pageStats"

definition avgConvRate :: "page_stats list \<Rightarrow> jsnum" where
  "avgConvRate pageStats =
     unbounce_avg (filter truthy (map thisWeek_conversionRate (publishedPages pageStats)))"

definition problemPages :: "page_stats list \<Rightarrow> page_stats list" where
  "problemPages pageStats =
     filter (\<lambda>p. metric_gt (thisWeek_visitors p) (Num (Fin 50)) \<and>
                 metric_lt (thisWeek_conversionRate p)
                   (Num (js_mul (avgConvRate pageStats) (Fin (1 / 2)))))
       (publishedPages pageStats)"

section \<open>Meta: the underperforming-campaign selection\<close>

text \<open>
  A campaign as \<open>parseInsight\<close> leaves it: numbers from \<open>parseFloat\<close> and \<open>parseInt\<close>
  (possibly \<open>NaN\<close>), and a cost per lead that is a number or \<open>null\<close>.
\<close>

record campaign =
  campaignName :: string
  spend :: metric
  c_impressions :: metric
  reach :: metric
  clicks :: metric
  ctr :: metric
  cpm :: metric
  cpc :: metric
  leads :: metric
  costPerLead :: metric
  linkClicks :: metric

text \<open>
  \<^verbatim>\<open>
  // Flag underperforming campaigns (CPL > 50% above account average, or CTR < 0.5%)
  const avgCPL = thisWeekSummary.costPerLead;
  const underperforming = campaigns.filter(c =>
    (avgCPL && c.costPerLead && c.costPerLead > avgCPL * 1.5) ||
    (c.ctr < 0.5 && c.spend > 50)
  );
  \<close>
\<close>

definition underperforming :: "metric \<Rightarrow> campaign list \<Rightarrow> campaign list" where
  "underperforming avgCPL campaigns =
     filter (\<lambda>c.
        (truthy avgCPL \<and> truthy (costPerLead c) \<and>
         metric_gt (costPerLead c) (Num (js_mul (to_number avgCPL) (Fin (3 / 2)))))
        \<or> (metric_lt (ctr c) (Num (Fin (1 / 2))) \<and> metric_gt (spend c) (Num (Fin 50))))
       campaigns"

section \<open>The weekly script \<open>generate-report.js\<close>\<close>

subsection \<open>Objects, truthiness and serialisation\<close>

text \<open>Reading and assigning an own property of an object.\<close>

definition get_prop :: "(string \<times> jsval) list \<Rightarrow> string \<Rightarrow> jsval" where
  "get_prop ps k = (case map_of ps k of None \<Rightarrow> JUndefined | Some v \<Rightarrow> v)"

fun set_prop :: "(string \<times> jsval) list \<Rightarrow> string \<Rightarrow> jsval \<Rightarrow> (string \<times> jsval) list" where
  "set_prop [] k v = [(k, v)]"
| "set_prop ((k', v') # ps) k v = (if k' = k then (k, v) # ps else (k', v') # set_prop ps k v)"

fun js_truthy :: "jsval \<Rightarrow> bool" where
  "js_truthy JUndefined = False"
| "js_truthy JNull = False"
| "js_truthy (JBool b) = b"
| "js_truthy (JNum NaN) = False"
| "js_truthy (JNum (Fin x)) = (x \<noteq> 0)"
| "js_truthy (JNum _) = True"
| "js_truthy (JStr s) = (s \<noteq> [])"
| "js_truthy (JArr _) = True"
| "js_truthy (JObj _) = True"

text \<open>
  What \<open>JSON.stringify\<close> writes, as the value a reader parses back: a property whose value
  is \<open>undefined\<close> is left out, \<open>undefined\<close> in an array and the numbers \<open>NaN\<close> and
  \<open>\<plusminus>Infinity\<close> become \<open>null\<close>. Only the elements of an array are written, not
  properties assigned to it.
\<close>

fun serialized :: "jsval \<Rightarrow> jsval" where
  "serialized JUndefined = JUndefined"
| "serialized JNull = JNull"
| "serialized (JBool b) = JBool b"
| "serialized (JNum (Fin x)) = JNum (Fin x)"
| "serialized (JNum _) = JNull"
| "serialized (JStr s) = JStr s"
| "serialized (JArr xs) =
     JArr (map (\<lambda>x. if serialized x = JUndefined then JNull else serialized x) xs)"
| "serialized (JObj ps) =
     JObj (filter (\<lambda>(k, v). v \<noteq> JUndefined) (map (\<lambda>(k, v). (k, serialized v)) ps))"

text \<open>
  The values \<open>JSON.parse\<close> returns: no \<open>undefined\<close>, no \<open>NaN\<close> or infinity, and each
  property of an object once.
\<close>

fun is_json :: "jsval \<Rightarrow> bool" where
  "is_json JUndefined = False"
| "is_json JNull = True"
| "is_json (JBool b) = True"
| "is_json (JNum (Fin x)) = True"
| "is_json (JNum _) = False"
| "is_json (JStr s) = True"
| "is_json (JArr xs) = (\<forall>x \<in> set xs. is_json x)"
| "is_json (JObj ps) = (distinct (map fst ps) \<and> (\<forall>kv \<in> set ps. is_json (snd kv)))"

subsection \<open>Strings and dates\<close>

text \<open>
  The text of a message (the prompt, the generator's reply) is a JavaScript string: a
  sequence of 16-bit code units. \<open>units\<close> gives the code units of a string of the source
  that is plain ASCII.
\<close>

type_synonym jstring = "16 word list"

definition units :: "string \<Rightarrow> jstring" where
  "units s = map (\<lambda>c. of_nat (of_char c)) s"

text \<open>
  The white space that \<open>\s\<close> matches and \<open>trim\<close> removes: the code points of
  \<open>WhiteSpace\<close> (tab, vertical tab, form feed, the byte order mark \<open>U+FEFF\<close> and the
  space separators) and of \<open>LineTerminator\<close> (line feed, carriage return, \<open>U+2028\<close>,
  \<open>U+2029\<close>).
\<close>

definition is_space :: "16 word \<Rightarrow> bool" where
  "is_space c =
     (c \<in> set [0x0009, 0x000A, 0x000B, 0x000C, 0x000D, 0x0020, 0x00A0, 0x1680,
                0x2000, 0x2001, 0x2002, 0x2003, 0x2004, 0x2005, 0x2006, 0x2007, 0x2008,
                0x2009, 0x200A, 0x2028, 0x2029, 0x202F, 0x205F, 0x3000, 0xFEFF])"

definition trim :: "jstring \<Rightarrow> jstring" where
  "trim s = rev (dropWhile is_space (rev (dropWhile is_space s)))"

text \<open>
  The flag \<open>i\<close> of a regular expression without the flag \<open>u\<close> folds the case of the
  ASCII letters only: a character beyond \<open>U+007F\<close> never matches an ASCII letter.
\<close>

definition to_lower :: "16 word \<Rightarrow> 16 word" where
  "to_lower c = (if 0x41 \<le> c \<and> c \<le> 0x5A then c + 0x20 else c)"

text \<open>\<open>.replace(/^```json\s*/i, '')\<close>\<close>

definition strip_open_fence :: "jstring \<Rightarrow> jstring" where
  "strip_open_fence s =
     (if map to_lower (take 7 s) = units ''```json'' then dropWhile is_space (drop 7 s) else s)"

text \<open>
  \<open>.replace(/\s*```$/, '')\<close>: the match is the three backticks that end the string
  together with all the white space before them.
\<close>

definition strip_close_fence :: "jstring \<Rightarrow> jstring" where
  "strip_close_fence s =
     (if 3 \<le> length s \<and> drop (length s - 3) s = units ''```''
      then rev (dropWhile is_space (rev (take (length s - 3) s)))
      else s)"

definition cleaned :: "jstring \<Rightarrow> jstring" where
  "cleaned rawResponse = trim (strip_close_fence (strip_open_fence rawResponse))"

text \<open>
  A \<open>Date\<close> by its UTC fields (years from 0), and \<open>toISOString\<close>:
  \<open>YYYY-MM-DDTHH:mm:ss.sssZ\<close>, with a sign and six digits for a year beyond 9999.
\<close>

record date =
  year :: nat
  month :: nat
  day :: nat
  hours :: nat
  minutes :: nat
  seconds :: nat
  milliseconds :: nat

definition digit :: "nat \<Rightarrow> char" where
  "digit n = char_of (48 + n mod 10)"

definition pad2 :: "nat \<Rightarrow> string" where
  "pad2 n = [digit (n div 10), digit n]"

definition pad3 :: "nat \<Rightarrow> string" where
  "pad3 n = [digit (n div 100), digit (n div 10), digit n]"

definition pad4 :: "nat \<Rightarrow> string" where
  "pad4 n = [digit (n div 1000), digit (n div 100), digit (n div 10), digit n]"

definition pad6 :: "nat \<Rightarrow> string" where
  "pad6 n = [digit (n div 100000), digit (n div 10000), digit (n div 1000), digit (n div 100),
             digit (n div 10), digit n]"

definition toISOString :: "date \<Rightarrow> string" where
  "toISOString d =
     (if year d \<le> 9999 then pad4 (year d) else CHR ''+'' # pad6 (year d))
     @ ''-'' @ pad2 (month d) @ ''-'' @ pad2 (day d)
     @ ''T'' @ pad2 (hours d) @ '':'' @ pad2 (minutes d) @ '':'' @ pad2 (seconds d)
     @ ''.'' @ pad3 (milliseconds d) @ ''Z''"

text \<open>\<open>.split('T')[0]\<close>\<close>

definition split_T_first :: "string \<Rightarrow> string" where
  "split_T_first s = takeWhile (\<lambda>c. c \<noteq> CHR ''T'') s"

subsection \<open>Step 1: the seven fetchers, settled\<close>

text \<open>
  What each fetcher's promise settles to. Every rejection in this program is an \<open>Error\<close>
  object, so \<open>reason?.message\<close> is its message.
\<close>

record fetches =
  ga4_fetch :: "error + jsval"
  gsc_fetch :: "error + jsval"
  youtube_fetch :: "error + jsval"
  kit_fetch :: "error + jsval"
  meta_fetch :: "error + jsval"
  unbounce_fetch :: "error + jsval"
  vimeo_fetch :: "error + jsval"

datatype settled = Fulfilled jsval | Rejected error

definition Promise_allSettled :: "(error + jsval) list \<Rightarrow> settled list" where
  "Promise_allSettled promises =
     map (\<lambda>p. case p of Inl reason \<Rightarrow> Rejected reason | Inr v \<Rightarrow> Fulfilled v) promises"

text \<open>
  \<^verbatim>\<open>
  const data = {
    ga4: ga4Result.status === 'fulfilled' ? ga4Result.value : { error: ga4Result.reason?.message },
    ...
    vimeo: vimeoResult.status === 'fulfilled' ? vimeoResult.value : { error: vimeoResult.reason?.message },
  };
  \<close>
\<close>

definition value_or_error :: "settled \<Rightarrow> jsval" where
  "value_or_error r =
     (case r of Fulfilled v \<Rightarrow> v | Rejected reason \<Rightarrow> JObj [(''error'', JStr (message reason))])"

definition combined :: "fetches \<Rightarrow> jsval" where
  "combined f =
     (case Promise_allSettled
             [ga4_fetch f, gsc_fetch f, youtube_fetch f, kit_fetch f, meta_fetch f,
              unbounce_fetch f, vimeo_fetch f] of
        [ga4Result, gscResult, youtubeResult, kitResult, metaResult, unbounceResult,
         vimeoResult] \<Rightarrow>
          JObj [(''ga4'', value_or_error ga4Result),
                (''gsc'', value_or_error gscResult),
                (''youtube'', value_or_error youtubeResult),
                (''kit'', value_or_error kitResult),
                (''meta'', value_or_error metaResult),
                (''unbounce'', value_or_error unbounceResult),
                (''vimeo'', value_or_error vimeoResult)]
      | _ \<Rightarrow> JUndefined)"

text \<open>\<open>data.ga4\<close>, \<open>data.kit\<close>, ...: a property of a value that is an object.\<close>

definition member :: "jsval \<Rightarrow> string \<Rightarrow> jsval" where
  "member v k = (case v of JObj ps \<Rightarrow> get_prop ps k | _ \<Rightarrow> JUndefined)"

subsection \<open>Step 2: the narrative, with one retry\<close>

text \<open>
  \<open>anthropic.messages.create\<close> is a parameter: from the \<open>messages\<close> of the request to
  the error it rejects with, or to the content blocks of the reply (a block may have no
  \<open>text\<close>). \<open>JSON.parse\<close> is a parameter too: the parsed value, or the message of the
  SyntaxError it throws. \<open>buildPrompt\<close>, a text template around the snapshot, is a parameter
  of \<open>main\<close>.
\<close>

datatype role = User | Assistant

type_synonym messages = "(role \<times> jstring) list"

definition correction :: jstring where
  "correction = units ''Your response was not valid JSON. Return ONLY the JSON object with no markdown, no backticks, no commentary. Start your response with { and end with }.''"

text \<open>
  The \<open>try\<close> block, with the value \<open>rawResponse\<close> has when control leaves it:
  \<^verbatim>\<open>
    const message = await anthropic.messages.create({ ..., messages: [{ role: 'user', content: buildPrompt(data) }] });
    rawResponse = message.content[0].text;
    const cleaned = rawResponse.replace(/^```json\s*/i, '').replace(/\s*```$/, '').trim();
    insights = JSON.parse(cleaned);
  \<close>
\<close>

definition first_attempt ::
  "(messages \<Rightarrow> error + jstring option list) \<Rightarrow> (jstring \<Rightarrow> string + jsval) \<Rightarrow> jstring
     \<Rightarrow> jstring option \<times> (error + jsval)" where
  "first_attempt create JSON_parse prompt =
     (case create [(User, prompt)] of
        Inl err \<Rightarrow> (None, Inl err)
      | Inr content \<Rightarrow>
          (case content of
             [] \<Rightarrow> (None, Inl (TypeError ''Cannot read properties of undefined (reading 'text')''))
           | None # _ \<Rightarrow>
               (None, Inl (TypeError ''Cannot read properties of undefined (reading 'replace')''))
           | Some text # _ \<Rightarrow>
               (Some text,
                case JSON_parse (cleaned text) of
                  Inl m \<Rightarrow> Inl (SyntaxError m)
                | Inr v \<Rightarrow> Inr v)))"

fun is_SyntaxError :: "error \<Rightarrow> bool" where
  "is_SyntaxError (SyntaxError _) = True"
| "is_SyntaxError _ = False"

text \<open>
  The \<open>catch\<close> block:
  \<^verbatim>\<open>
    if (err instanceof SyntaxError) {
      const retryMessage = await anthropic.messages.create({ ..., messages: [
          { role: 'user',      content: buildPrompt(data) },
          { role: 'assistant', content: rawResponse ?? '' },
          { role: 'user',      content: 'Your response was not valid JSON. ...' } ] });
      const retryText = retryMessage.content[0].text.trim();
      insights = JSON.parse(retryText);
    } else {
      throw err;
    }
  \<close>
  The result is the list of requests issued and the parsed \<open>insights\<close>, or the error that
  leaves the block.
\<close>

definition narrative ::
  "(messages \<Rightarrow> error + jstring option list) \<Rightarrow> (jstring \<Rightarrow> string + jsval) \<Rightarrow> jstring
     \<Rightarrow> messages list \<times> (error + jsval)" where
  "narrative create JSON_parse prompt =
     (case first_attempt create JSON_parse prompt of
        (rawResponse, Inr insights) \<Rightarrow> ([[(User, prompt)]], Inr insights)
      | (rawResponse, Inl err) \<Rightarrow>
          if is_SyntaxError err then
            (let retry = [(User, prompt),
                          (Assistant, case rawResponse of None \<Rightarrow> [] | Some text \<Rightarrow> text),
                          (User, correction)]
             in ([[(User, prompt)], retry],
                 case create retry of
                   Inl err' \<Rightarrow> Inl err'
                 | Inr content \<Rightarrow>
                     (case content of
                        [] \<Rightarrow> Inl (TypeError ''Cannot read properties of undefined (reading 'text')'')
                      | None # _ \<Rightarrow>
                          Inl (TypeError ''Cannot read properties of undefined (reading 'trim')'')
                      | Some text # _ \<Rightarrow>
                          (case JSON_parse (trim text) of
                             Inl m \<Rightarrow> Inl (SyntaxError m)
                           | Inr v \<Rightarrow> Inr v))))
          else ([[(User, prompt)]], Inl err))"

subsection \<open>Steps 3 and 4: stamping and writing the artifact\<close>

text \<open>
  \<^verbatim>\<open>
  insights.weekOf      = insights.weekOf || new Date().toISOString().split('T')[0];
  insights.generatedAt = new Date().toISOString();
  insights.rawData     = data;
  ...
  fs.writeFileSync(OUTPUT_PATH, JSON.stringify(insights, null, 2));
  \<close>
  The script is an ES module, hence strict: reading a property of \<open>null\<close> throws, and so
  does assigning a property to a boolean, number or string. An array accepts the three
  assignments, but \<open>JSON.stringify\<close> writes only its elements, so they do not reach the file.
  \<open>stamped\<close> is the value handed to \<open>JSON.stringify\<close>, as far as it is written. The
  message of the TypeError for a boolean, number or string also quotes the value; that part
  of the message is left out.
\<close>

definition stamped :: "jsval \<Rightarrow> jsval \<Rightarrow> date \<Rightarrow> date \<Rightarrow> error + jsval" where
  "stamped insights data now_weekOf now_generatedAt =
     (case insights of
        JObj ps \<Rightarrow>
          Inr (JObj
            (set_prop
              (set_prop
                (set_prop ps ''weekOf''
                   (if js_truthy (get_prop ps ''weekOf'') then get_prop ps ''weekOf''
                    else JStr (split_T_first (toISOString now_weekOf))))
                ''generatedAt'' (JStr (toISOString now_generatedAt)))
              ''rawData'' data))
      | JArr xs \<Rightarrow> Inr (JArr xs)
      | JUndefined \<Rightarrow> Inl (TypeError ''Cannot read properties of undefined (reading 'weekOf')'')
      | JNull \<Rightarrow> Inl (TypeError ''Cannot read properties of null (reading 'weekOf')'')
      | _ \<Rightarrow> Inl (TypeError ''Cannot create property weekOf on a primitive value''))"

text \<open>
  After the write, \<open>main\<close> prints a summary:
  \<^verbatim>\<open>
  console.log(`\n... Weekly Verdict: ${insights.weeklyVerdict}`);
  console.log(`\n... Urgent Actions: ${insights.urgentActions?.length ?? 0}`);
  console.log(`... Insights: ${insights.insights?.length ?? 0}`);
  console.log(`... Do Not Touch: ${insights.doNotTouch?.length ?? 0}`);
  console.log(`... Watch Next Week: ${insights.watchNextWeek?.length ?? 0}`);
  \<close>
  A template literal converts its value to a string, and the conversion of an object can
  throw: an object made by \<open>JSON.parse\<close> has no callable property of its own, so an own
  property \<open>toString\<close> hides \<open>Object.prototype.toString\<close>, \<open>valueOf\<close> (own or
  inherited) yields no primitive value, and the conversion ends in a TypeError. An array is
  converted by joining the conversions of its elements, \<open>null\<close> and \<open>undefined\<close> counting
  as the empty string. What is printed is not part of the model, only whether the conversion
  throws.
\<close>

fun ToString_throws :: "jsval \<Rightarrow> bool" where
  "ToString_throws (JObj ps) = (''toString'' \<in> set (map fst ps))"
| "ToString_throws (JArr xs) = (\<exists>x \<in> set xs. ToString_throws x)"
| "ToString_throws _ = False"

text \<open>\<open>x?.length\<close> and \<open>a ?? b\<close>\<close>

definition optional_length :: "jsval \<Rightarrow> jsval" where
  "optional_length x =
     (case x of
        JStr s \<Rightarrow> JNum (Fin (of_nat (length s)))
      | JArr xs \<Rightarrow> JNum (Fin (of_nat (length xs)))
      | JObj ps \<Rightarrow> get_prop ps ''length''
      | _ \<Rightarrow> JUndefined)"

definition nullish :: "jsval \<Rightarrow> jsval \<Rightarrow> jsval" where
  "nullish a b = (if a = JUndefined \<or> a = JNull then b else a)"

text \<open>The values the five lines convert, in order, and the error of the summary, if any.\<close>

definition summary_values :: "jsval \<Rightarrow> jsval list" where
  "summary_values insights =
     [member insights ''weeklyVerdict'',
      nullish (optional_length (member insights ''urgentActions'')) (JNum (Fin 0)),
      nullish (optional_length (member insights ''insights'')) (JNum (Fin 0)),
      nullish (optional_length (member insights ''doNotTouch'')) (JNum (Fin 0)),
      nullish (optional_length (member insights ''watchNextWeek'')) (JNum (Fin 0))]"

definition summary :: "jsval \<Rightarrow> error option" where
  "summary insights =
     (if \<exists>v \<in> set (summary_values insights). ToString_throws v
      then Some (TypeError ''Cannot convert object to primitive value'')
      else None)"

text \<open>
  A run of \<open>main\<close>: the text-generation requests it issued, the document written to
  \<open>insights.json\<close> if one was written, and the error \<open>main()\<close> rejected with, if any. The
  file system is a parameter: \<open>fs_fault\<close> is the error thrown by \<open>existsSync\<close>,
  \<open>mkdirSync\<close> or \<open>writeFileSync\<close>, if one of them throws.
\<close>

record run =
  requests :: "messages list"
  written :: "jsval option"
  failure :: "error option"

definition main ::
  "fetches \<Rightarrow> (jsval \<Rightarrow> jstring) \<Rightarrow> (messages \<Rightarrow> error + jstring option list)
     \<Rightarrow> (jstring \<Rightarrow> string + jsval) \<Rightarrow> date \<Rightarrow> date \<Rightarrow> error option \<Rightarrow> run" where
  "main f buildPrompt create JSON_parse now_weekOf now_generatedAt fs_fault =
     (let data = combined f in
      case narrative create JSON_parse (buildPrompt data) of
        (reqs, Inl err) \<Rightarrow> \<lparr> requests = reqs, written = None, failure = Some err \<rparr>
      | (reqs, Inr insights) \<Rightarrow>
          (case stamped insights data now_weekOf now_generatedAt of
             Inl err \<Rightarrow> \<lparr> requests = reqs, written = None, failure = Some err \<rparr>
           | Inr artifact \<Rightarrow>
               (case fs_fault of
                  Some err \<Rightarrow> \<lparr> requests = reqs, written = None, failure = Some err \<rparr>
                | None \<Rightarrow>
                    \<lparr> requests = reqs, written = Some (serialized artifact),
                      failure = summary artifact \<rparr>)))"

text \<open>
  \<^verbatim>\<open>
  main().catch(err => { console.error(...); process.exit(1); });
  \<close>
\<close>

definition exit_code :: "run \<Rightarrow> nat" where
  "exit_code r = (case failure r of None \<Rightarrow> 0 | Some err \<Rightarrow> 1)"

section \<open>The adapters: credentials, requests and per-item failures\<close>

subsection \<open>Environment, HTTP and promises\<close>

text \<open>
  \<open>process.env\<close> is a map from names to strings. \<open>!x\<close> on the value of a variable holds
  when the variable is unset or empty.
\<close>

type_synonym env = "string \<Rightarrow> string option"

definition absent :: "string option \<Rightarrow> bool" where
  "absent x = (case x of None \<Rightarrow> True | Some s \<Rightarrow> s = [])"

text \<open>
  What \<open>fetch\<close> resolves to, as far as the helpers read it: \<open>res.ok\<close>, \<open>res.status\<close>,
  the body as \<open>res.text()\<close> gives it and the outcome of \<open>res.json()\<close>. A \<open>fetch\<close> that
  rejects (no connection) is an \<open>Inl\<close>. Each helper returns the requests it issued together
  with its outcome; a request is its path and its query parameters.
\<close>

record 'a response =
  res_ok :: bool
  res_status :: nat
  res_text :: string
  res_json :: "error + 'a"

type_synonym request = "string \<times> (string \<times> string) list"

text \<open>A number in a template string.\<close>

function decimal :: "nat \<Rightarrow> string" where
  "decimal n = (if n < 10 then [digit n] else decimal (n div 10) @ [digit n])"
  by pat_completeness auto
termination
  by (relation "measure id") auto

text \<open>
  \<open>Promise.all\<close> of two promises: both values, or the rejection that arrived first
  (\<open>second_first\<close> tells whether the second promise settled before the first).
\<close>

definition Promise_all2 :: "bool \<Rightarrow> error + 'a \<Rightarrow> error + 'b \<Rightarrow> error + ('a \<times> 'b)" where
  "Promise_all2 second_first p q =
     (case (p, q) of
        (Inr a, Inr b) \<Rightarrow> Inr (a, b)
      | (Inl e, Inr b) \<Rightarrow> Inl e
      | (Inr a, Inl e) \<Rightarrow> Inl e
      | (Inl e1, Inl e2) \<Rightarrow> Inl (if second_first then e2 else e1))"

text \<open>
  \<open>Array.prototype.sort\<close> with a comparator is stable: an element moves behind another
  only when the comparator is positive. (For a comparator that is not a consistent ordering
  the language leaves the order open; this is the order for a consistent one.)
\<close>

fun insert_by :: "('a \<Rightarrow> 'a \<Rightarrow> jsnum) \<Rightarrow> 'a \<Rightarrow> 'a list \<Rightarrow> 'a list" where
  "insert_by cmp x [] = [x]"
| "insert_by cmp x (y # ys) =
     (if js_lt (Fin 0) (cmp x y) then y # insert_by cmp x ys else x # y # ys)"

definition sort_by :: "('a \<Rightarrow> 'a \<Rightarrow> jsnum) \<Rightarrow> 'a list \<Rightarrow> 'a list" where
  "sort_by cmp xs = foldr (insert_by cmp) xs []"

subsection \<open>Vimeo\<close>

text \<open>
  \<^verbatim>\<open>
  function headers() {
    const token = process.env.VIMEO_ACCESS_TOKEN;
    if (!token) throw new Error('VIMEO_ACCESS_TOKEN env var is missing');
    return { 'Authorization': `Bearer ${token}`, ... };
  }
  \<close>
\<close>

definition vimeo_headers :: "env \<Rightarrow> error + string" where
  "vimeo_headers env =
     (let token = env ''VIMEO_ACCESS_TOKEN'' in
      if absent token then Inl (Error ''VIMEO_ACCESS_TOKEN env var is missing'')
      else Inr (''Bearer '' @ the token))"

text \<open>
  \<^verbatim>\<open>
  async function vimeoGet(path, params = {}) {
    const url = new URL(`${VIMEO_BASE}${path}`);
    for (const [k, v] of Object.entries(params)) url.searchParams.set(k, v);
    const res = await fetch(url.toString(), { headers: headers() });
    if (!res.ok) {
      const body = await res.text();
      if (res.status === 403) throw new Error('Vimeo 403: Analytics data requires Vimeo Pro or higher plan');
      throw new Error(`Vimeo API error ${res.status} on ${path}: ${body}`);
    }
    return res.json();
  }
  \<close>
  The arguments of \<open>fetch\<close> are evaluated before the call, so \<open>headers()\<close> throws before
  any request is issued. The parameter \<open>fetch\<close> is what the request resolves to.
\<close>

definition vimeoGet ::
  "env \<Rightarrow> (error + 'a response) \<Rightarrow> string \<Rightarrow> (string \<times> string) list
     \<Rightarrow> request list \<times> (error + 'a)" where
  "vimeoGet env fetch path params =
     (case vimeo_headers env of
        Inl err \<Rightarrow> ([], Inl err)
      | Inr h \<Rightarrow>
          ([(path, params)],
           case fetch of
             Inl err \<Rightarrow> Inl err
           | Inr res \<Rightarrow>
               if \<not> res_ok res then
                 (if res_status res = 403
                  then Inl (Error ''Vimeo 403: Analytics data requires Vimeo Pro or higher plan'')
                  else Inl (Error (''Vimeo API error '' @ decimal (res_status res) @ '' on ''
                                   @ path @ '': '' @ res_text res)))
               else res_json res))"

text \<open>
  The account as the API shows it: the listing, the two analytics answers and the segment
  answer of each video (by its id), and for each video whether its last-week answer settles
  before its this-week answer. In every body of an answer, here and in the other adapters,
  the outer \<open>None\<close> is a body that is \<open>null\<close> (reading a property of it throws) and
  an inner \<open>None\<close> is a property that the body does not have. The body of a segment answer is not looked into:
  \<open>parseEngagement\<close> is a parameter, from that body and the video's duration to the
  engagement object or to the error it throws.
\<close>

record raw_video =
  rv_uri :: "string option"
  rv_name :: string
  rv_duration :: metric
  rv_stats_plays :: metric
  rv_created_time :: string

record 's vimeo_world =
  vw_videos :: "error + raw_video list option option response"
  vw_thisWeek :: "string \<Rightarrow> error + vres option response"
  vw_lastWeek :: "string \<Rightarrow> error + vres option response"
  vw_segments :: "string \<Rightarrow> error + 's response"
  vw_lastWeek_first :: "string \<Rightarrow> bool"

text \<open>The dates of the two windows, as \<open>daysAgo\<close> and \<open>new Date().toISOString()\<close> give them.\<close>

record vimeo_window =
  startThisWeek :: string
  startLastWeek :: string
  endLastWeek :: string
  now :: string

text \<open>\<open>v.uri.replace('/videos/', '')\<close>: the first occurrence is removed.\<close>

fun remove_first :: "string \<Rightarrow> string \<Rightarrow> string" where
  "remove_first pat [] = []"
| "remove_first pat (c # cs) =
     (if take (length pat) (c # cs) = pat then drop (length pat) (c # cs)
      else c # remove_first pat cs)"

text \<open>
  \<^verbatim>\<open>
  const videos = (videosRes.data ?? []).map(v => ({
    id: v.uri.replace('/videos/', ''), uri: v.uri, title: v.name, duration: v.duration,
    totalPlays: v.stats?.plays ?? 0, createdAt: v.created_time }));
  \<close>
\<close>

fun to_videos :: "raw_video list \<Rightarrow> error + video list" where
  "to_videos [] = Inr []"
| "to_videos (v # vs) =
     (case rv_uri v of
        None \<Rightarrow> Inl (TypeError ''Cannot read properties of undefined (reading 'replace')'')
      | Some uri \<Rightarrow>
          (case to_videos vs of
             Inl err \<Rightarrow> Inl err
           | Inr rest \<Rightarrow>
               Inr (\<lparr> v_id = remove_first ''/videos/'' uri, v_uri = uri, v_title = rv_name v,
                      v_duration = rv_duration v,
                      v_totalPlays = coalesce (rv_stats_plays v) (Num (Fin 0)),
                      v_createdAt = rv_created_time v \<rparr> # rest)))"

text \<open>
  The callback of \<open>videos.slice(0, 15).map(async (video) => { try { ... } catch (err) { ... } })\<close>:
  \<^verbatim>\<open>
      try {
        const [thisWeekStats, lastWeekStats] = await Promise.all([
          vimeoGet(`/videos/${video.id}/analytics`, { dimension: 'total', from: startThisWeek, to: now }),
          vimeoGet(`/videos/${video.id}/analytics`, { dimension: 'total', from: startLastWeek, to: endLastWeek }),
        ]);
        const tw = parseAnalytics(thisWeekStats);
        const lw = parseAnalytics(lastWeekStats);
        let engagementData = null;
        try {
          const engagementRes = await vimeoGet(`/videos/${video.id}/analytics`,
            { dimension: 'video_segment', from: startThisWeek, to: now });
          engagementData = parseEngagement(engagementRes, video.duration);
        } catch { }
        return { ...video, thisWeek: tw, lastWeek: lw, playsDelta: pct(tw.plays, lw.plays),
                 finishRateDelta: pct(tw.finishRate, lw.finishRate), engagement: engagementData };
      } catch (err) {
        return { ...video, error: err.message };
      }
  \<close>
\<close>

definition video_with_error :: "video \<Rightarrow> error \<Rightarrow> video_stats" where
  "video_with_error video err =
     video.extend video
       \<lparr> thisWeek = None, lastWeek = None, playsDelta = Undefined, finishRateDelta = Undefined,
         engagement = JUndefined, v_error = Some (message err) \<rparr>"

definition video_with_stats ::
  "env \<Rightarrow> 's vimeo_world \<Rightarrow> ('s \<Rightarrow> metric \<Rightarrow> error + jsval) \<Rightarrow> vimeo_window \<Rightarrow> video
     \<Rightarrow> request list \<times> video_stats" where
  "video_with_stats env world parseEngagement window video =
     (let path = ''/videos/'' @ v_id video @ ''/analytics'';
          (req1, thisWeekStats) =
             vimeoGet env (vw_thisWeek world (v_id video)) path
               [(''dimension'', ''total''), (''from'', startThisWeek window), (''to'', now window)];
          (req2, lastWeekStats) =
             vimeoGet env (vw_lastWeek world (v_id video)) path
               [(''dimension'', ''total''), (''from'', startLastWeek window),
                (''to'', endLastWeek window)]
      in case Promise_all2 (vw_lastWeek_first world (v_id video)) thisWeekStats lastWeekStats of
           Inl err \<Rightarrow> (req1 @ req2, video_with_error video err)
         | Inr (thisWeekStats, lastWeekStats) \<Rightarrow>
             (case parseAnalytics thisWeekStats of
                Inl err \<Rightarrow> (req1 @ req2, video_with_error video err)
              | Inr tw \<Rightarrow>
                  (case parseAnalytics lastWeekStats of
                     Inl err \<Rightarrow> (req1 @ req2, video_with_error video err)
                   | Inr lw \<Rightarrow>
                       (let (req3, engagementRes) =
                              vimeoGet env (vw_segments world (v_id video)) path
                                [(''dimension'', ''video_segment''),
                                 (''from'', startThisWeek window), (''to'', now window)];
                            engagementData =
                              (case engagementRes of
                                 Inl err \<Rightarrow> JNull
                               | Inr body \<Rightarrow>
                                   (case parseEngagement body (v_duration video) of
                                      Inl err \<Rightarrow> JNull
                                    | Inr e \<Rightarrow> e))
                        in (req1 @ req2 @ req3,
                            video.extend video
                              \<lparr> thisWeek = Some tw, lastWeek = Some lw,
                                playsDelta = vimeo_pct (plays tw) (plays lw),
                                finishRateDelta = vimeo_pct (finishRate tw) (finishRate lw),
                                engagement = engagementData, v_error = None \<rparr>)))))"

text \<open>
  \<open>await Promise.all(videos.slice(0, 15).map(...))\<close>: no callback rejects, so the result is
  the list of the callbacks' values. The requests are listed video by video.
\<close>

definition videosWithStats ::
  "env \<Rightarrow> 's vimeo_world \<Rightarrow> ('s \<Rightarrow> metric \<Rightarrow> error + jsval) \<Rightarrow> vimeo_window \<Rightarrow> video list
     \<Rightarrow> request list \<times> video_stats list" where
  "videosWithStats env world parseEngagement window videos =
     (let results = map (video_with_stats env world parseEngagement window) (take 15 videos)
      in (concat (map fst results), map snd results))"

text \<open>
  \<^verbatim>\<open>
  function sum(arr, fn) { return arr.reduce((acc, v) => acc + fn(v), 0); }
  \<close>
\<close>

definition sum_by :: "'a list \<Rightarrow> ('a \<Rightarrow> metric) \<Rightarrow> jsnum" where
  "sum_by arr fn = foldl (\<lambda>acc v. js_add acc (to_number (fn v))) (Fin 0) arr"

record vimeo_totals =
  totalPlays :: jsnum
  totalWatchMinutes :: jsnum
  totals_avgFinishRate :: jsnum

record vimeo_report =
  r_videos :: "video_stats list"
  r_topVideos :: "video_stats list"
  r_lowFinishRateVideos :: "video_stats list"
  r_totals :: vimeo_totals
  r_errors :: "(string \<times> string option) list option"
  r_fetchedAt :: string

datatype vimeo_data = NoVideos string | Report vimeo_report

text \<open>
  \<^verbatim>\<open>
  export async function fetchVimeoData() {
    const videosRes = await vimeoGet('/me/videos', { fields: ..., per_page: 25, sort: 'date', direction: 'desc' });
    const videos = ...;
    if (videos.length === 0) return { videos: [], fetchedAt: new Date().toISOString() };
    ...
    const videosWithStats = await Promise.all(...);
    const validVideos  = videosWithStats.filter(v => !v.error);
    const errorVideos  = videosWithStats.filter(v => v.error);
    const byPlays = [...validVideos].sort((a, b) => (b.thisWeek?.plays ?? 0) - (a.thisWeek?.plays ?? 0));
    ...
    const totals = {
      totalPlays:        sum(validVideos, v => v.thisWeek?.plays ?? 0),
      totalWatchMinutes: sum(validVideos, v => v.thisWeek?.watchMinutes ?? 0),
      avgFinishRate:     round(avgFinishRate, 1),
    };
    return { videos: byPlays, topVideos: byPlays.slice(0, 5), lowFinishRateVideos: lowFinishRate, totals,
             errors: errorVideos.length > 0 ? errorVideos.map(v => ({ title: v.title, error: v.error })) : undefined,
             fetchedAt: new Date().toISOString() };
  }
  \<close>
\<close>

definition thisWeek_watchMinutes :: "video_stats \<Rightarrow> metric" where
  "thisWeek_watchMinutes v = (case thisWeek v of None \<Rightarrow> Undefined | Some a \<Rightarrow> watchMinutes a)"

definition fetchVimeoData ::
  "env \<Rightarrow> 's vimeo_world \<Rightarrow> ('s \<Rightarrow> metric \<Rightarrow> error + jsval) \<Rightarrow> vimeo_window \<Rightarrow> string
     \<Rightarrow> request list \<times> (error + vimeo_data)" where
  "fetchVimeoData env world parseEngagement window fetched =
     (case vimeoGet env (vw_videos world) ''/me/videos''
             [(''fields'', ''uri,name,duration,created_time,pictures,stats''),
              (''per_page'', ''25''), (''sort'', ''date''), (''direction'', ''desc'')] of
        (req0, Inl err) \<Rightarrow> (req0, Inl err)
      | (req0, Inr videosRes) \<Rightarrow>
          (case videosRes of
             None \<Rightarrow>
               (req0, Inl (TypeError ''Cannot read properties of null (reading 'data')''))
           | Some body \<Rightarrow>
               (case to_videos (case body of None \<Rightarrow> [] | Some data \<Rightarrow> data) of
                  Inl err \<Rightarrow> (req0, Inl err)
                | Inr videos \<Rightarrow>
                    if length videos = 0 then (req0, Inr (NoVideos fetched))
                    else
                      (let (reqs, stats) =
                             videosWithStats env world parseEngagement window videos;
                           errorVideos = filter (\<lambda>v. truthy_str (v_error v)) stats;
                           byPlays =
                             sort_by (\<lambda>a b.
                                js_sub (to_number (coalesce (thisWeek_plays b) (Num (Fin 0))))
                                       (to_number (coalesce (thisWeek_plays a) (Num (Fin 0)))))
                               (validVideos stats)
                       in (req0 @ reqs,
                           Inr (Report
                             \<lparr> r_videos = byPlays,
                               r_topVideos = take 5 byPlays,
                               r_lowFinishRateVideos = lowFinishRate stats,
                               r_totals =
                                 \<lparr> totalPlays =
                                     sum_by (validVideos stats)
                                       (\<lambda>v. coalesce (thisWeek_plays v) (Num (Fin 0))),
                                   totalWatchMinutes =
                                     sum_by (validVideos stats)
                                       (\<lambda>v. coalesce (thisWeek_watchMinutes v) (Num (Fin 0))),
                                   totals_avgFinishRate =
                                     vimeo_round (avgFinishRate stats) (Some 1) \<rparr>,
                               r_errors =
                                 (if length errorVideos > 0
                                  then Some (map (\<lambda>v. (v_title v, v_error v)) errorVideos)
                                  else None),
                               r_fetchedAt = fetched \<rparr>))))))"

subsection \<open>Unbounce\<close>

text \<open>
  \<^verbatim>\<open>
  async function getAccessToken() {
    let token = process.env.UNBOUNCE_ACCESS_TOKEN;
    // If we have a refresh token, always get a fresh access token
    const refreshToken  = process.env.UNBOUNCE_REFRESH_TOKEN;
    const clientId      = process.env.UNBOUNCE_CLIENT_ID;
    const clientSecret  = process.env.UNBOUNCE_CLIENT_SECRET;
    if (refreshToken && clientId && clientSecret) {
      const res = await fetch(`${UNBOUNCE_BASE}/0.1/oauth/token`, { method: 'POST', ... });
      if (res.ok) {
        const data = await res.json();
        token = data.access_token;
      } else {
        console.warn('Token refresh failed - falling back to stored access token');
      }
    }
    if (!token) throw new Error('UNBOUNCE_ACCESS_TOKEN env var is missing');
    return token;
  }
  \<close>
  The body of the token answer is read for its \<open>access_token\<close> only.
\<close>

definition getAccessToken ::
  "env \<Rightarrow> (error + string option option response) \<Rightarrow> request list \<times> (error + string)"
  where
  "getAccessToken env fetch =
     (let token = env ''UNBOUNCE_ACCESS_TOKEN'';
          refreshToken = env ''UNBOUNCE_REFRESH_TOKEN'';
          clientId = env ''UNBOUNCE_CLIENT_ID'';
          clientSecret = env ''UNBOUNCE_CLIENT_SECRET''
      in if \<not> absent refreshToken \<and> \<not> absent clientId \<and> \<not> absent clientSecret then
           (case fetch of
              Inl err \<Rightarrow> ([(''/0.1/oauth/token'', [])], Inl err)
            | Inr res \<Rightarrow>
                if res_ok res then
                  (case res_json res of
                     Inl err \<Rightarrow> ([(''/0.1/oauth/token'', [])], Inl err)
                   | Inr None \<Rightarrow>
                       ([(''/0.1/oauth/token'', [])],
                        Inl (TypeError
                               ''Cannot read properties of null (reading 'access_token')''))
                   | Inr (Some access_token) \<Rightarrow>
                       ([(''/0.1/oauth/token'', [])],
                        if absent access_token
                        then Inl (Error ''UNBOUNCE_ACCESS_TOKEN env var is missing'')
                        else Inr (the access_token)))
                else
                  ([(''/0.1/oauth/token'', [])],
                   if absent token then Inl (Error ''UNBOUNCE_ACCESS_TOKEN env var is missing'')
                   else Inr (the token)))
         else
           ([], if absent token then Inl (Error ''UNBOUNCE_ACCESS_TOKEN env var is missing'')
                else Inr (the token)))"

text \<open>
  \<^verbatim>\<open>
  async function unbounceGet(path, token) {
    const res = await fetch(`${UNBOUNCE_BASE}${path}`, { headers: { 'Authorization': `Bearer ${token}`, ... } });
    if (!res.ok) {
      const body = await res.text();
      throw new Error(`Unbounce API error ${res.status} on ${path}: ${body}`);
    }
    return res.json();
  }
  \<close>
\<close>

definition unbounceGet ::
  "(error + 'a response) \<Rightarrow> string \<Rightarrow> string \<Rightarrow> request list \<times> (error + 'a)" where
  "unbounceGet fetch path token =
     ([(path, [])],
      case fetch of
        Inl err \<Rightarrow> Inl err
      | Inr res \<Rightarrow>
          if \<not> res_ok res
          then Inl (Error (''Unbounce API error '' @ decimal (res_status res) @ '' on '' @ path
                           @ '': '' @ res_text res))
          else res_json res)"

text \<open>
  \<^verbatim>\<open>
  function parsePageStats(res) {
    const stats = res.page_group_stats?.[0] ?? res;
    return {
      visitors:       stats.visitors       ?? 0,
      conversions:    stats.conversions    ?? 0,
      conversionRate: round((stats.conversion_rate ?? 0) * 100, 1),
    };
  }
  \<close>
\<close>

record ustats =
  us_visitors :: metric
  us_conversions :: metric
  us_conversion_rate :: metric

record ures = ustats +
  page_group_stats :: "ustats option list option"

definition parsePageStats :: "ures option \<Rightarrow> error + pstats" where
  "parsePageStats res =
     (case res of
        None \<Rightarrow> Inl (TypeError ''Cannot read properties of null (reading 'page_group_stats')'')
      | Some r \<Rightarrow>
          (let stats = (case page_group_stats r of
                          Some (Some first # _) \<Rightarrow> first
                        | _ \<Rightarrow> ustats.truncate r)
           in Inr \<lparr> visitors = coalesce (us_visitors stats) (Num (Fin 0)),
                    conversions = coalesce (us_conversions stats) (Num (Fin 0)),
                    conversionRate =
                      Num (unbounce_round
                        (js_mul (to_number (coalesce (us_conversion_rate stats) (Num (Fin 0))))
                           (Fin 100))
                        (Some 1)) \<rparr>))"

record upage =
  up_id :: string
  up_name :: string
  up_url :: string
  up_state :: string

record uvariant =
  uv_id :: string
  uv_visitors :: metric
  uv_conversion_rate :: metric
  uv_conversions :: metric

record variant_stats =
  variantId :: string
  vs_visitors :: metric
  vs_conversionRate :: jsnum
  vs_conversions :: metric

text \<open>
  The account as the API shows it: the token answer, the accounts (their ids), the pages of
  an account, and for each page (by its id) the two statistics answers, which of them settles
  first, and the answer with the variants.
\<close>

record unbounce_world =
  uw_token :: "error + string option option response"
  uw_accounts :: "error + string list option option response"
  uw_pages :: "string \<Rightarrow> error + upage list option option response"
  uw_thisWeek :: "string \<Rightarrow> error + ures option response"
  uw_lastWeek :: "string \<Rightarrow> error + ures option response"
  uw_lastWeek_first :: "string \<Rightarrow> bool"
  uw_variants :: "string \<Rightarrow> error + uvariant list option option response"

record unbounce_window =
  thisWeekStart :: string
  thisWeekEnd :: string
  lastWeekStart :: string
  lastWeekEnd :: string

text \<open>
  The callback of \<open>pages.map(async (page) => { try { ... } catch { ... } })\<close>:
  \<^verbatim>\<open>
      try {
        const [thisWeekStats, lastWeekStats] = await Promise.all([
          unbounceGet(`/0.1/pages/${page.id}/page_group_stats?from=${thisWeekStart}&to=${thisWeekEnd}`, token),
          unbounceGet(`/0.1/pages/${page.id}/page_group_stats?from=${lastWeekStart}&to=${lastWeekEnd}`, token),
        ]);
        const tw = parsePageStats(thisWeekStats);
        const lw = parsePageStats(lastWeekStats);
        return { pageId: page.id, pageName: page.name, url: page.url, state: page.state,
                 thisWeek: tw, lastWeek: lw,
                 conversionDelta: pct(tw.conversionRate, lw.conversionRate),
                 visitorsDelta:   pct(tw.visitors, lw.visitors) };
      } catch {
        return { pageId: page.id, pageName: page.name, url: page.url, state: page.state,
                 error: 'Stats unavailable' };
      }
  \<close>
\<close>

definition page_unavailable :: "upage \<Rightarrow> page_stats" where
  "page_unavailable page =
     \<lparr> pageId = up_id page, pageName = up_name page, url = up_url page, state = up_state page,
       p_thisWeek = None, p_lastWeek = None, conversionDelta = Undefined,
       visitorsDelta = Undefined, p_error = Some ''Stats unavailable'' \<rparr>"

definition page_with_stats ::
  "unbounce_world \<Rightarrow> unbounce_window \<Rightarrow> string \<Rightarrow> upage \<Rightarrow> request list \<times> page_stats" where
  "page_with_stats world window token page =
     (let (req1, thisWeekStats) =
             unbounceGet (uw_thisWeek world (up_id page))
               (''/0.1/pages/'' @ up_id page @ ''/page_group_stats?from='' @ thisWeekStart window
                  @ ''&to='' @ thisWeekEnd window) token;
          (req2, lastWeekStats) =
             unbounceGet (uw_lastWeek world (up_id page))
               (''/0.1/pages/'' @ up_id page @ ''/page_group_stats?from='' @ lastWeekStart window
                  @ ''&to='' @ lastWeekEnd window) token
      in (req1 @ req2,
          case Promise_all2 (uw_lastWeek_first world (up_id page)) thisWeekStats lastWeekStats of
            Inl err \<Rightarrow> page_unavailable page
          | Inr (thisWeekStats, lastWeekStats) \<Rightarrow>
              (case parsePageStats thisWeekStats of
                 Inl err \<Rightarrow> page_unavailable page
               | Inr tw \<Rightarrow>
                   (case parsePageStats lastWeekStats of
                      Inl err \<Rightarrow> page_unavailable page
                    | Inr lw \<Rightarrow>
                        \<lparr> pageId = up_id page, pageName = up_name page, url = up_url page,
                          state = up_state page, p_thisWeek = Some tw, p_lastWeek = Some lw,
                          conversionDelta = unbounce_pct (conversionRate tw) (conversionRate lw),
                          visitorsDelta = unbounce_pct (visitors tw) (visitors lw),
                          p_error = None \<rparr>))))"

definition pageStats ::
  "unbounce_world \<Rightarrow> unbounce_window \<Rightarrow> string \<Rightarrow> upage list
     \<Rightarrow> request list \<times> page_stats list" where
  "pageStats world window token pages =
     (let results = map (page_with_stats world window token) pages
      in (concat (map fst results), map snd results))"

text \<open>
  The callback of \<open>pages.slice(0, 10).map(async (page) => { try { ... } catch { return null; } })\<close>:
  \<^verbatim>\<open>
        const variantsRes = await unbounceGet(`/0.1/pages/${page.id}/page_group_stats?from=...&include_sub_pages=true`, token);
        const variants    = variantsRes.page_group_stats ?? [];
        if (variants.length > 1) {
          return { pageName: page.name,
                   variants: variants.map(v => ({ variantId: v.id, visitors: v.visitors,
                       conversionRate: round(v.conversion_rate * 100, 1), conversions: v.conversions }))
                     .sort((a, b) => b.conversionRate - a.conversionRate) };
        }
        return null;
  \<close>
\<close>

definition page_variants ::
  "unbounce_world \<Rightarrow> unbounce_window \<Rightarrow> string \<Rightarrow> upage
     \<Rightarrow> request list \<times> (string \<times> variant_stats list) option" where
  "page_variants world window token page =
     (case unbounceGet (uw_variants world (up_id page))
             (''/0.1/pages/'' @ up_id page @ ''/page_group_stats?from='' @ thisWeekStart window
                @ ''&to='' @ thisWeekEnd window @ ''&include_sub_pages=true'') token of
        (req, Inl err) \<Rightarrow> (req, None)
      | (req, Inr None) \<Rightarrow> (req, None)
      | (req, Inr (Some variantsRes)) \<Rightarrow>
          (let variants = (case variantsRes of None \<Rightarrow> [] | Some vs \<Rightarrow> vs)
           in if length variants > 1
              then (req,
                    Some (up_name page,
                          sort_by (\<lambda>a b. js_sub (vs_conversionRate b) (vs_conversionRate a))
                            (map (\<lambda>v. \<lparr> variantId = uv_id v, vs_visitors = uv_visitors v,
                                         vs_conversionRate =
                                           unbounce_round
                                             (js_mul (to_number (uv_conversion_rate v)) (Fin 100))
                                             (Some 1),
                                         vs_conversions = uv_conversions v \<rparr>)
                               variants)))
              else (req, None)))"

record unbounce_data =
  topPages :: "page_stats list"
  bestPages :: "page_stats list"
  u_problemPages :: "page_stats list"
  activeABTests :: "(string \<times> variant_stats list) list"
  averageConversionRate :: jsnum
  u_fetchedAt :: string

text \<open>
  \<^verbatim>\<open>
  export async function fetchUnbounceData() {
    const token = await getAccessToken();
    const accountsRes = await unbounceGet('/0.1/accounts', token);
    const accounts    = accountsRes.accounts ?? [];
    if (accounts.length === 0) throw new Error('No Unbounce accounts found');
    const accountId = accounts[0].id;
    const pagesRes = await unbounceGet(`/0.1/accounts/${accountId}/pages?count=50&include_sub_pages=true`, token);
    const pages = pagesRes.pages ?? [];
    ...
    const pageStats = await Promise.all(pages.map(...));
    const publishedPages = ...;
    const byVisitors = [...publishedPages].sort((a, b) => (b.thisWeek?.visitors ?? 0) - (a.thisWeek?.visitors ?? 0));
    ...
    const bestPages = [...publishedPages]
      .sort((a, b) => (b.thisWeek?.conversionRate ?? 0) - (a.thisWeek?.conversionRate ?? 0)).slice(0, 5);
    const pagesWithVariants = await Promise.all(pages.slice(0, 10).map(...));
    const activeABTests = pagesWithVariants.filter(Boolean);
    return { topPages: byVisitors.slice(0, 10), bestPages, problemPages, activeABTests,
             averageConversionRate: round(avgConvRate, 1), fetchedAt: new Date().toISOString() };
  }
  \<close>
\<close>

definition fetchUnbounceData ::
  "env \<Rightarrow> unbounce_world \<Rightarrow> unbounce_window \<Rightarrow> string
     \<Rightarrow> request list \<times> (error + unbounce_data)" where
  "fetchUnbounceData env world window fetched =
     (case getAccessToken env (uw_token world) of
        (req0, Inl err) \<Rightarrow> (req0, Inl err)
      | (req0, Inr token) \<Rightarrow>
          (case unbounceGet (uw_accounts world) ''/0.1/accounts'' token of
             (req1, Inl err) \<Rightarrow> (req0 @ req1, Inl err)
           | (req1, Inr None) \<Rightarrow>
               (req0 @ req1, Inl (TypeError ''Cannot read properties of null (reading 'accounts')''))
           | (req1, Inr (Some accountsRes)) \<Rightarrow>
               (case (case accountsRes of None \<Rightarrow> [] | Some ids \<Rightarrow> ids) of
                  [] \<Rightarrow> (req0 @ req1, Inl (Error ''No Unbounce accounts found''))
                | accountId # _ \<Rightarrow>
                    (case unbounceGet (uw_pages world accountId)
                            (''/0.1/accounts/'' @ accountId
                               @ ''/pages?count=50&include_sub_pages=true'') token of
                       (req2, Inl err) \<Rightarrow> (req0 @ req1 @ req2, Inl err)
                     | (req2, Inr None) \<Rightarrow>
                         (req0 @ req1 @ req2,
                          Inl (TypeError ''Cannot read properties of null (reading 'pages')''))
                     | (req2, Inr (Some pagesRes)) \<Rightarrow>
                         (let pages = (case pagesRes of None \<Rightarrow> [] | Some ps \<Rightarrow> ps);
                              (req3, stats) = pageStats world window token pages;
                              byVisitors =
                                sort_by (\<lambda>a b.
                                   js_sub
                                     (to_number (coalesce (thisWeek_visitors b) (Num (Fin 0))))
                                     (to_number (coalesce (thisWeek_visitors a) (Num (Fin 0)))))
                                  (publishedPages stats);
                              best =
                                take 5 (sort_by (\<lambda>a b.
                                   js_sub
                                     (to_number
                                        (coalesce (thisWeek_conversionRate b) (Num (Fin 0))))
                                     (to_number
                                        (coalesce (thisWeek_conversionRate a) (Num (Fin 0)))))
                                  (publishedPages stats));
                              pagesWithVariants =
                                map (page_variants world window token) (take 10 pages)
                          in (req0 @ req1 @ req2 @ req3 @ concat (map fst pagesWithVariants),
                              Inr \<lparr> topPages = take 10 byVisitors,
                                    bestPages = best,
                                    u_problemPages = problemPages stats,
                                    activeABTests =
                                      concat (map (\<lambda>r. case snd r of None \<Rightarrow> [] | Some t \<Rightarrow> [t])
                                                pagesWithVariants),
                                    averageConversionRate =
                                      unbounce_round (avgConvRate stats) (Some 1),
                                    u_fetchedAt = fetched \<rparr>))))))"

subsection \<open>Kit\<close>

text \<open>
  \<^verbatim>\<open>
  function headers() {
    const secret = process.env.KIT_API_SECRET;
    if (!secret) throw new Error('KIT_API_SECRET env var is missing');
    return { 'Authorization': `Bearer ${secret}`, 'Content-Type': 'application/json' };
  }

  async function kitGet(path) {
    const res = await fetch(`${KIT_BASE}${path}`, { headers: headers() });
    if (!res.ok) {
      const body = await res.text();
      throw new Error(`Kit API error ${res.status} on ${path}: ${body}`);
    }
    return res.json();
  }
  \<close>
\<close>

definition kit_headers :: "env \<Rightarrow> error + string" where
  "kit_headers env =
     (let secret = env ''KIT_API_SECRET'' in
      if absent secret then Inl (Error ''KIT_API_SECRET env var is missing'')
      else Inr (''Bearer '' @ the secret))"

definition kitGet ::
  "env \<Rightarrow> (error + 'a response) \<Rightarrow> string \<Rightarrow> request list \<times> (error + 'a)" where
  "kitGet env fetch path =
     (case kit_headers env of
        Inl err \<Rightarrow> ([], Inl err)
      | Inr h \<Rightarrow>
          ([(path, [])],
           case fetch of
             Inl err \<Rightarrow> Inl err
           | Inr res \<Rightarrow>
               if \<not> res_ok res
               then Inl (Error (''Kit API error '' @ decimal (res_status res) @ '' on '' @ path
                                @ '': '' @ res_text res))
               else res_json res))"

record kbroadcast =
  kb_id :: string
  kb_template_name :: "string option"
  kb_subject :: "string option"
  kb_published_at :: "string option"
  kb_send_at :: "string option"

record kstats =
  ks_recipients :: metric
  ks_open_rate :: metric
  ks_click_rate :: metric
  ks_unsubscribe_rate :: metric
  ks_opens :: metric
  ks_clicks :: metric
  ks_unsubscribes :: metric

record stats_body =
  sb_broadcast_stats :: "kstats option"
  sb_stats :: "kstats option"

record list_body =
  lb_broadcasts :: "kbroadcast list option"
  lb_data :: "kbroadcast list option"

record count_body =
  pagination_total_count :: metric
  meta_total_count :: metric

record kit_world =
  kw_broadcasts :: "error + list_body option response"
  kw_stats :: "string \<Rightarrow> error + stats_body option response"
  kw_active :: "error + count_body option response"
  kw_total :: "error + count_body option response"
  kw_total_first :: bool
  kw_new :: "error + count_body option response"

text \<open>
  A broadcast after the per-broadcast step. One whose statistics request failed has
  \<open>statsAvailable: false\<close> and none of the statistics properties. Neither kind of object
  has an \<open>error\<close> property: \<open>bs_error\<close> is \<open>None\<close> in both.
\<close>

record broadcast_stats =
  bs_id :: string
  bs_subject :: string
  bs_publishedAt :: "string option"
  recipientCount :: metric
  openRate :: metric
  clickRate :: metric
  unsubscribeRate :: metric
  opens :: metric
  bs_clicks :: metric
  unsubscribes :: metric
  statsAvailable :: "bool option"
  bs_error :: "string option"

text \<open>\<open>a ?? b\<close> on optional strings.\<close>

definition or_else :: "'a option \<Rightarrow> 'a option \<Rightarrow> 'a option" where
  "or_else a b = (case a of None \<Rightarrow> b | Some x \<Rightarrow> Some x)"

text \<open>
  The callback of \<open>broadcasts.slice(0, 8).map(async (b) => { try { ... } catch { ... } })\<close>:
  \<^verbatim>\<open>
      try {
        const statsRes = await kitGet(`/broadcasts/${b.id}/stats`);
        const stats    = statsRes.broadcast?.stats ?? statsRes.stats ?? {};
        return {
          id: b.id, subject: b.email_template?.name ?? b.subject ?? 'Untitled',
          publishedAt: b.published_at ?? b.send_at,
          recipientCount: stats.recipients ?? 0,
          openRate: round(stats.open_rate ?? 0, 1), clickRate: round(stats.click_rate ?? 0, 1),
          unsubscribeRate: round(stats.unsubscribe_rate ?? 0, 2),
          opens: stats.opens ?? 0, clicks: stats.clicks ?? 0, unsubscribes: stats.unsubscribes ?? 0,
        };
      } catch {
        // Stats not yet available (broadcast too recent)
        return { id: b.id, subject: b.subject ?? 'Untitled',
                 publishedAt: b.published_at ?? b.send_at, statsAvailable: false };
      }
  \<close>
\<close>

definition broadcast_pending :: "kbroadcast \<Rightarrow> broadcast_stats" where
  "broadcast_pending b =
     \<lparr> bs_id = kb_id b,
       bs_subject = (case kb_subject b of None \<Rightarrow> ''Untitled'' | Some t \<Rightarrow> t),
       bs_publishedAt = or_else (kb_published_at b) (kb_send_at b),
       recipientCount = Undefined, openRate = Undefined, clickRate = Undefined,
       unsubscribeRate = Undefined, opens = Undefined, bs_clicks = Undefined,
       unsubscribes = Undefined, statsAvailable = Some False, bs_error = None \<rparr>"

definition broadcast_with_stats ::
  "env \<Rightarrow> kit_world \<Rightarrow> kbroadcast \<Rightarrow> request list \<times> broadcast_stats" where
  "broadcast_with_stats env world b =
     (case kitGet env (kw_stats world (kb_id b)) (''/broadcasts/'' @ kb_id b @ ''/stats'') of
        (req, Inl err) \<Rightarrow> (req, broadcast_pending b)
      | (req, Inr None) \<Rightarrow> (req, broadcast_pending b)
      | (req, Inr (Some statsRes)) \<Rightarrow>
          (let stats =
                 (case or_else (sb_broadcast_stats statsRes) (sb_stats statsRes) of
                    None \<Rightarrow>
                      \<lparr> ks_recipients = Undefined, ks_open_rate = Undefined,
                        ks_click_rate = Undefined, ks_unsubscribe_rate = Undefined,
                        ks_opens = Undefined, ks_clicks = Undefined,
                        ks_unsubscribes = Undefined \<rparr>
                  | Some st \<Rightarrow> st)
           in (req,
               \<lparr> bs_id = kb_id b,
                 bs_subject =
                   (case or_else (kb_template_name b) (kb_subject b) of
                      None \<Rightarrow> ''Untitled'' | Some t \<Rightarrow> t),
                 bs_publishedAt = or_else (kb_published_at b) (kb_send_at b),
                 recipientCount = coalesce (ks_recipients stats) (Num (Fin 0)),
                 openRate =
                   Num (kit_round (to_number (coalesce (ks_open_rate stats) (Num (Fin 0))))
                          (Some 1)),
                 clickRate =
                   Num (kit_round (to_number (coalesce (ks_click_rate stats) (Num (Fin 0))))
                          (Some 1)),
                 unsubscribeRate =
                   Num (kit_round
                          (to_number (coalesce (ks_unsubscribe_rate stats) (Num (Fin 0))))
                          (Some 2)),
                 opens = coalesce (ks_opens stats) (Num (Fin 0)),
                 bs_clicks = coalesce (ks_clicks stats) (Num (Fin 0)),
                 unsubscribes = coalesce (ks_unsubscribes stats) (Num (Fin 0)),
                 statsAvailable = None, bs_error = None \<rparr>)))"

definition broadcastsWithStats ::
  "env \<Rightarrow> kit_world \<Rightarrow> kbroadcast list \<Rightarrow> request list \<times> broadcast_stats list" where
  "broadcastsWithStats env world broadcasts =
     (let results = map (broadcast_with_stats env world) (take 8 broadcasts)
      in (concat (map fst results), map snd results))"

text \<open>
  \<^verbatim>\<open>
  function avg(arr, key) {
    const vals = arr.map(b => b[key]).filter(v => v != null && !isNaN(v));
    return vals.length ? round(vals.reduce((a, b) => a + b, 0) / vals.length, 1) : null;
  }
  \<close>
\<close>

definition kit_avg :: "broadcast_stats list \<Rightarrow> (broadcast_stats \<Rightarrow> metric) \<Rightarrow> metric" where
  "kit_avg arr key =
     (let vals = filter (\<lambda>v. \<not> (v = Undefined \<or> v = Null) \<and> \<not> isNaN v) (map key arr)
      in if length vals \<noteq> 0
         then Num (kit_round
                (js_div (foldl (\<lambda>a b. js_add a (to_number b)) (Fin 0) vals)
                   (Fin (of_nat (length vals))))
                (Some 1))
         else Null)"

text \<open>\<open>res.pagination?.total_count ?? res.meta?.total_count ?? 0\<close>\<close>

definition total_count :: "count_body option \<Rightarrow> error + metric" where
  "total_count res =
     (case res of
        None \<Rightarrow> Inl (TypeError ''Cannot read properties of null (reading 'pagination')'')
      | Some r \<Rightarrow>
          Inr (coalesce (pagination_total_count r) (coalesce (meta_total_count r) (Num (Fin 0)))))"

record kit_data =
  subscribers_active :: metric
  subscribers_total :: metric
  subscribers_newThisWeek :: metric
  recentBroadcasts :: "broadcast_stats list"
  allBroadcasts :: "broadcast_stats list"
  averages_openRate :: metric
  averages_clickRate :: metric
  averages_unsubscribeRate :: metric
  bestBroadcast :: "broadcast_stats option"
  worstBroadcast :: "broadcast_stats option"
  k_fetchedAt :: string

text \<open>
  \<^verbatim>\<open>
  export async function fetchKitData() {
    const broadcastsRes = await kitGet('/broadcasts?per_page=8&sort_field=published_at&sort_order=desc');
    const broadcasts    = broadcastsRes.broadcasts ?? broadcastsRes.data ?? [];
    const broadcastsWithStats = await Promise.all(broadcasts.slice(0, 8).map(...));
    const completedBroadcasts = broadcastsWithStats.filter(b => b.statsAvailable !== false);
    const recentBroadcasts    = completedBroadcasts.slice(0, 4);
    const [activeRes, totalRes] = await Promise.all([
      kitGet('/subscribers?status=active&per_page=1'), kitGet('/subscribers?per_page=1') ]);
    ...
    const newThisWeekRes = await kitGet(`/subscribers?status=active&created_after=${isoDate}&per_page=1`);
    ...
    const sorted          = [...recentBroadcasts].sort((a, b) => b.openRate - a.openRate);
    const bestBroadcast   = sorted[0]  ?? null;
    const worstBroadcast  = sorted[sorted.length - 1] ?? null;
    return { subscribers: { active, total, newThisWeek }, recentBroadcasts,
             allBroadcasts: completedBroadcasts, averages, bestBroadcast, worstBroadcast,
             fetchedAt: new Date().toISOString() };
  }
  \<close>
\<close>

definition fetchKitData ::
  "env \<Rightarrow> kit_world \<Rightarrow> string \<Rightarrow> string \<Rightarrow> request list \<times> (error + kit_data)" where
  "fetchKitData env world isoDate fetched =
     (case kitGet env (kw_broadcasts world)
             ''/broadcasts?per_page=8&sort_field=published_at&sort_order=desc'' of
        (req0, Inl err) \<Rightarrow> (req0, Inl err)
      | (req0, Inr None) \<Rightarrow>
          (req0, Inl (TypeError ''Cannot read properties of null (reading 'broadcasts')''))
      | (req0, Inr (Some broadcastsRes)) \<Rightarrow>
          (let broadcasts =
                 (case or_else (lb_broadcasts broadcastsRes) (lb_data broadcastsRes) of
                    None \<Rightarrow> [] | Some bs \<Rightarrow> bs);
               (req1, withStats) = broadcastsWithStats env world broadcasts;
               completedBroadcasts = filter (\<lambda>b. statsAvailable b \<noteq> Some False) withStats;
               recent = take 4 completedBroadcasts;
               (req2, activeRes) =
                  kitGet env (kw_active world) ''/subscribers?status=active&per_page=1'';
               (req3, totalRes) = kitGet env (kw_total world) ''/subscribers?per_page=1''
           in case Promise_all2 (kw_total_first world) activeRes totalRes of
                Inl err \<Rightarrow> (req0 @ req1 @ req2 @ req3, Inl err)
              | Inr (activeRes, totalRes) \<Rightarrow>
                  (case total_count activeRes of
                     Inl err \<Rightarrow> (req0 @ req1 @ req2 @ req3, Inl err)
                   | Inr activeSubscribers \<Rightarrow>
                       (case total_count totalRes of
                          Inl err \<Rightarrow> (req0 @ req1 @ req2 @ req3, Inl err)
                        | Inr totalSubscribers \<Rightarrow>
                            (case kitGet env (kw_new world)
                                    (''/subscribers?status=active&created_after='' @ isoDate
                                       @ ''&per_page=1'') of
                               (req4, Inl err) \<Rightarrow> (req0 @ req1 @ req2 @ req3 @ req4, Inl err)
                             | (req4, Inr newThisWeekRes) \<Rightarrow>
                                 (case total_count newThisWeekRes of
                                    Inl err \<Rightarrow> (req0 @ req1 @ req2 @ req3 @ req4, Inl err)
                                  | Inr newThisWeek \<Rightarrow>
                                      (let sorted =
                                             sort_by (\<lambda>a b.
                                                js_sub (to_number (openRate b))
                                                       (to_number (openRate a))) recent
                                       in (req0 @ req1 @ req2 @ req3 @ req4,
                                           Inr \<lparr> subscribers_active = activeSubscribers,
                                                 subscribers_total = totalSubscribers,
                                                 subscribers_newThisWeek = newThisWeek,
                                                 recentBroadcasts = recent,
                                                 allBroadcasts = completedBroadcasts,
                                                 averages_openRate = kit_avg recent openRate,
                                                 averages_clickRate = kit_avg recent clickRate,
                                                 averages_unsubscribeRate =
                                                   kit_avg recent unsubscribeRate,
                                                 bestBroadcast =
                                                   (case sorted of [] \<Rightarrow> None
                                                    | first # _ \<Rightarrow> Some first),
                                                 worstBroadcast =
                                                   (if sorted = [] then None
                                                    else Some (last sorted)),
                                                 k_fetchedAt = fetched \<rparr>))))))))"

subsection \<open>Meta\<close>

text \<open>
  \<^verbatim>\<open>
  const AD_ACCOUNT   = () => {
    const id = process.env.META_AD_ACCOUNT_ID;
    if (!id) throw new Error('META_AD_ACCOUNT_ID env var is missing');
    return id;
  };
  const ACCESS_TOKEN = () => {
    const t = process.env.META_ACCESS_TOKEN;
    if (!t) throw new Error('META_ACCESS_TOKEN env var is missing');
    return t;
  };
  \<close>
\<close>

definition AD_ACCOUNT :: "env \<Rightarrow> error + string" where
  "AD_ACCOUNT env =
     (let id = env ''META_AD_ACCOUNT_ID'' in
      if absent id then Inl (Error ''META_AD_ACCOUNT_ID env var is missing'') else Inr (the id))"

definition ACCESS_TOKEN :: "env \<Rightarrow> error + string" where
  "ACCESS_TOKEN env =
     (let t = env ''META_ACCESS_TOKEN'' in
      if absent t then Inl (Error ''META_ACCESS_TOKEN env var is missing'') else Inr (the t))"

text \<open>
  \<^verbatim>\<open>
  async function metaGet(path, params = {}) {
    const url = new URL(`${META_BASE}${path}`);
    url.searchParams.set('access_token', ACCESS_TOKEN());
    for (const [k, v] of Object.entries(params)) { url.searchParams.set(k, ...); }
    const res = await fetch(url.toString());
    const json = await res.json();
    if (json.error) throw new Error(`Meta API error: ${json.error.message}`);
    return json;
  }
  \<close>
  A body is an error payload with its message, or data.
\<close>

datatype 'a meta_body = MetaError string | MetaData 'a

definition metaGet ::
  "env \<Rightarrow> (error + 'a meta_body response) \<Rightarrow> string \<Rightarrow> (string \<times> string) list
     \<Rightarrow> request list \<times> (error + 'a)" where
  "metaGet env fetch path params =
     (case ACCESS_TOKEN env of
        Inl err \<Rightarrow> ([], Inl err)
      | Inr t \<Rightarrow>
          ([(path, (''access_token'', t) # params)],
           case fetch of
             Inl err \<Rightarrow> Inl err
           | Inr res \<Rightarrow>
               (case res_json res of
                  Inl err \<Rightarrow> Inl err
                | Inr (MetaError m) \<Rightarrow> Inl (Error (''Meta API error: '' @ m))
                | Inr (MetaData d) \<Rightarrow> Inr d)))"

record 'a meta_world =
  mw_thisWeek :: "error + 'a meta_body response"
  mw_lastWeek :: "error + 'a meta_body response"
  mw_lastWeek_first :: bool
  mw_campaigns :: "error + 'a meta_body response"
  mw_ads :: "error + 'a meta_body response"

text \<open>
  \<open>fetchMetaData\<close>: the account id, the two account summaries together, the campaigns, the
  ads. What follows the four answers (\<open>parseInsight\<close>, the deltas, the selection) is the
  parameter \<open>assemble\<close>; the query parameters other than the level are left out.
  \<^verbatim>\<open>
  export async function fetchMetaData() {
    const accountId = AD_ACCOUNT();
    ...
    const [thisWeekAccount, lastWeekAccount] = await Promise.all([
      metaGet(`/${accountId}/insights`, { ..., level: 'account' }),
      metaGet(`/${accountId}/insights`, { ..., level: 'account' }) ]);
    const campaignsRes = await metaGet(`/${accountId}/insights`, { ..., level: 'campaign', limit: 20 });
    const adsRes = await metaGet(`/${accountId}/insights`, { ..., level: 'ad', ... });
    ...
  }
  \<close>
\<close>

definition fetchMetaData ::
  "env \<Rightarrow> 'a meta_world \<Rightarrow> ('a \<Rightarrow> 'a \<Rightarrow> 'a \<Rightarrow> 'a \<Rightarrow> error + 'd)
     \<Rightarrow> request list \<times> (error + 'd)" where
  "fetchMetaData env world assemble =
     (case AD_ACCOUNT env of
        Inl err \<Rightarrow> ([], Inl err)
      | Inr accountId \<Rightarrow>
          (let path = ''/'' @ accountId @ ''/insights'';
               (req1, thisWeekAccount) =
                  metaGet env (mw_thisWeek world) path [(''level'', ''account'')];
               (req2, lastWeekAccount) =
                  metaGet env (mw_lastWeek world) path [(''level'', ''account'')]
           in case Promise_all2 (mw_lastWeek_first world) thisWeekAccount lastWeekAccount of
                Inl err \<Rightarrow> (req1 @ req2, Inl err)
              | Inr (thisWeekAccount, lastWeekAccount) \<Rightarrow>
                  (case metaGet env (mw_campaigns world) path [(''level'', ''campaign'')] of
                     (req3, Inl err) \<Rightarrow> (req1 @ req2 @ req3, Inl err)
                   | (req3, Inr campaignsRes) \<Rightarrow>
                       (case metaGet env (mw_ads world) path [(''level'', ''ad'')] of
                          (req4, Inl err) \<Rightarrow> (req1 @ req2 @ req3 @ req4, Inl err)
                        | (req4, Inr adsRes) \<Rightarrow>
                            (req1 @ req2 @ req3 @ req4,
                             assemble thisWeekAccount lastWeekAccount campaignsRes adsRes)))))"

subsection \<open>GA4, Search Console and YouTube\<close>

text \<open>
  \<^verbatim>\<open>
  function getGoogleAuth() {
    const raw = process.env.GOOGLE_SERVICE_ACCOUNT;
    if (!raw) throw new Error('GOOGLE_SERVICE_ACCOUNT env var is missing');
    const credentials = JSON.parse(raw);
    return { credentials };       // gsc.js, youtube.js: new google.auth.GoogleAuth({ credentials, scopes })
  }
  \<close>
  The function stands in ga4.js, gsc.js and youtube.js. Building the client objects issues no
  request. What each fetcher does with its client (the reports and their parsing) is the
  parameter \<open>reports\<close>.
\<close>

definition getGoogleAuth :: "env \<Rightarrow> (string \<Rightarrow> string + jsval) \<Rightarrow> error + jsval" where
  "getGoogleAuth env JSON_parse =
     (let raw = env ''GOOGLE_SERVICE_ACCOUNT'' in
      if absent raw then Inl (Error ''GOOGLE_SERVICE_ACCOUNT env var is missing'')
      else (case JSON_parse (the raw) of
              Inl m \<Rightarrow> Inl (SyntaxError m)
            | Inr credentials \<Rightarrow> Inr credentials))"

text \<open>
  \<^verbatim>\<open>
  export async function fetchGA4Data() {
    const propertyId = process.env.GA4_PROPERTY_ID;
    if (!propertyId) throw new Error('GA4_PROPERTY_ID env var is missing');
    const client = new BetaAnalyticsDataClient(getGoogleAuth());
    ...
  \<close>
\<close>

definition fetchGA4Data ::
  "env \<Rightarrow> (string \<Rightarrow> string + jsval) \<Rightarrow> (string \<Rightarrow> jsval \<Rightarrow> request list \<times> (error + 'd))
     \<Rightarrow> request list \<times> (error + 'd)" where
  "fetchGA4Data env JSON_parse reports =
     (let propertyId = env ''GA4_PROPERTY_ID'' in
      if absent propertyId then ([], Inl (Error ''GA4_PROPERTY_ID env var is missing''))
      else (case getGoogleAuth env JSON_parse of
              Inl err \<Rightarrow> ([], Inl err)
            | Inr auth \<Rightarrow> reports (the propertyId) auth))"

text \<open>
  \<^verbatim>\<open>
  export async function fetchGSCData() {
    const siteUrl = process.env.GSC_SITE_URL;
    if (!siteUrl) throw new Error('GSC_SITE_URL env var is missing');
    const auth = getGoogleAuth();
    ...
  \<close>
\<close>

definition fetchGSCData ::
  "env \<Rightarrow> (string \<Rightarrow> string + jsval) \<Rightarrow> (string \<Rightarrow> jsval \<Rightarrow> request list \<times> (error + 'd))
     \<Rightarrow> request list \<times> (error + 'd)" where
  "fetchGSCData env JSON_parse reports =
     (let siteUrl = env ''GSC_SITE_URL'' in
      if absent siteUrl then ([], Inl (Error ''GSC_SITE_URL env var is missing''))
      else (case getGoogleAuth env JSON_parse of
              Inl err \<Rightarrow> ([], Inl err)
            | Inr auth \<Rightarrow> reports (the siteUrl) auth))"

text \<open>
  \<^verbatim>\<open>
  export async function fetchYouTubeData() {
    const auth      = getGoogleAuth();
    ...
  \<close>
\<close>

definition fetchYouTubeData ::
  "env \<Rightarrow> (string \<Rightarrow> string + jsval) \<Rightarrow> (jsval \<Rightarrow> request list \<times> (error + 'd))
     \<Rightarrow> request list \<times> (error + 'd)" where
  "fetchYouTubeData env JSON_parse reports =
     (case getGoogleAuth env JSON_parse of
        Inl err \<Rightarrow> ([], Inl err)
      | Inr auth \<Rightarrow> reports auth)"

section \<open>Properties of binary64 rounding\<close>

lemma powi2_pos: "0 < (2::rat) powi q"
  by (simp add: zero_less_power_int)

lemma powi2_succ: "(2::rat) powi (q + 1) = 2 * 2 powi q"
  by (simp add: power_int_add)

lemma powi2_pred: "(2::rat) powi (q - 1) = 2 powi q / 2"
  by (simp add: power_int_diff)

lemma scale_down_props:
  "0 < m \<Longrightarrow> scale_down m q = (m', q') \<Longrightarrow>
     m' * 2 powi q' = m * 2 powi q \<and> 0 < m' \<and> m' < 2 ^ 53 \<and> q \<le> q'
     \<and> (m < 2 ^ 53 \<longrightarrow> m' = m \<and> q' = q) \<and> (2 ^ 53 \<le> m \<longrightarrow> 2 ^ 52 \<le> m')"
proof (induction m q arbitrary: m' q' rule: scale_down.induct)
  case (1 m q)
  show ?case
  proof (cases "2 ^ 53 \<le> m")
    case True
    then have r: "scale_down (m / 2) (q + 1) = (m', q')"
      using "1.prems"(2) by (simp add: scale_down.simps[of m q])
    have pos: "0 < m / 2" using "1.prems"(1) by simp
    note IH = "1.IH"[OF True pos r]
    have e: "m' * 2 powi q' = m * 2 powi q"
      using IH by (simp add: powi2_succ)
    have lo: "2 ^ 52 \<le> m'"
    proof (cases "2 ^ 53 \<le> m / 2")
      case True
      with IH show ?thesis by simp
    next
      case False
      with IH have "m' = m / 2" by simp
      with \<open>2 ^ 53 \<le> m\<close> show ?thesis by simp
    qed
    show ?thesis using e lo IH True by simp
  next
    case False
    then have "m' = m" "q' = q"
      using "1.prems"(2) by (simp_all add: scale_down.simps[of m q])
    then show ?thesis using False "1.prems"(1) by simp
  qed
qed

lemma scale_up_props:
  "0 < m \<Longrightarrow> m < 2 ^ 53 \<Longrightarrow> - 1074 \<le> q \<Longrightarrow> scale_up m q = (m', q') \<Longrightarrow>
     m' * 2 powi q' = m * 2 powi q \<and> 0 < m' \<and> m' < 2 ^ 53 \<and> - 1074 \<le> q' \<and> q' \<le> q
     \<and> (2 ^ 52 \<le> m' \<or> q' = - 1074)"
proof (induction m q arbitrary: m' q' rule: scale_up.induct)
  case (1 m q)
  show ?case
  proof (cases "m < 2 ^ 52 \<and> - 1074 < q")
    case True
    then have r: "scale_up (m * 2) (q - 1) = (m', q')"
      using "1.prems"(4) by (simp add: scale_up.simps[of m q])
    have pos: "0 < m * 2" using "1.prems"(1) by simp
    have hi: "m * 2 < 2 ^ 53" using True by simp
    have q: "- 1074 \<le> q - 1" using True by simp
    note IH = "1.IH"[OF True pos hi q r]
    have e: "m' * 2 powi q' = m * 2 powi q"
      using IH by (simp add: powi2_pred)
    show ?thesis using e IH by simp
  next
    case False
    then have "scale_up m q = (m, q)"
      by (subst scale_up.simps) auto
    then have "m' = m" "q' = q"
      using "1.prems"(4) by simp_all
    then show ?thesis using False "1.prems" by auto
  qed
qed

lemma normalized_props:
  assumes "0 < a" "normalized a = (m, q)"
  shows "m * 2 powi q = a \<and> 0 < m \<and> m < 2 ^ 53 \<and> - 1074 \<le> q \<and> (2 ^ 52 \<le> m \<or> q = - 1074)"
proof -
  obtain m1 q1 where d: "scale_down a 0 = (m1, q1)" by (cases "scale_down a 0")
  with assms have u: "scale_up m1 q1 = (m, q)" by (simp add: normalized_def)
  from scale_down_props[OF assms(1) d]
  have p1: "m1 * 2 powi q1 = a" "0 < m1" "m1 < 2 ^ 53" "0 \<le> q1" by simp_all
  from p1 have q1: "- 1074 \<le> q1" by simp
  from scale_up_props[OF p1(2) p1(3) q1 u] p1(1) show ?thesis by simp
qed


lemma round_even_err: "\<bar>of_int (round_even m) - m\<bar> \<le> 1 / 2"
proof -
  have lo: "of_int \<lfloor>m\<rfloor> \<le> m" and hi: "m < of_int \<lfloor>m\<rfloor> + 1" by linarith+
  consider "m - of_int \<lfloor>m\<rfloor> < 1 / 2" | "1 / 2 < m - of_int \<lfloor>m\<rfloor>"
    | "m - of_int \<lfloor>m\<rfloor> = 1 / 2" by linarith
  then show ?thesis
  proof cases
    case 1
    then have "round_even m = \<lfloor>m\<rfloor>" by (simp add: round_even_def Let_def)
    then show ?thesis using 1 lo by simp
  next
    case 2
    then have "round_even m = \<lfloor>m\<rfloor> + 1" by (simp add: round_even_def Let_def)
    then show ?thesis using 2 hi by simp
  next
    case 3
    then have "round_even m = \<lfloor>m\<rfloor> \<or> round_even m = \<lfloor>m\<rfloor> + 1"
      by (simp add: round_even_def Let_def)
    then show ?thesis using 3 by auto
  qed
qed

lemma round_even_int: "round_even (of_int k) = k"
  by (simp add: round_even_def)

lemma round_even_le: "m \<le> of_int k \<Longrightarrow> round_even m \<le> k"
proof -
  assume h: "m \<le> of_int k"
  then have f: "\<lfloor>m\<rfloor> \<le> k" by (simp add: floor_le_iff) 
  show ?thesis
  proof (cases "\<lfloor>m\<rfloor> = k")
    case True
    then have "of_int k \<le> m" by (metis of_int_floor_le)
    with h have "m = of_int k" by simp
    then show ?thesis by (simp add: round_even_int)
  next
    case False
    with f have "\<lfloor>m\<rfloor> + 1 \<le> k" by simp
    then show ?thesis unfolding round_even_def Let_def by auto
  qed
qed

lemma round_even_ge: "of_int k \<le> m \<Longrightarrow> k \<le> round_even m"
proof -
  assume "of_int k \<le> m"
  then have "k \<le> \<lfloor>m\<rfloor>" by (simp add: le_floor_iff)
  then show ?thesis unfolding round_even_def Let_def by auto
qed

lemma round_even_near: "\<bar>m - of_int n\<bar> < 1 / 2 \<Longrightarrow> round_even m = n"
proof -
  assume h: "\<bar>m - of_int n\<bar> < 1 / 2"
  have "\<lfloor>m\<rfloor> = n \<or> \<lfloor>m\<rfloor> = n - 1" using h by linarith
  then show ?thesis
  proof
    assume f: "\<lfloor>m\<rfloor> = n"
    then have "m - of_int \<lfloor>m\<rfloor> < 1 / 2" using h by linarith
    then show ?thesis using f by (simp add: round_even_def Let_def)
  next
    assume f: "\<lfloor>m\<rfloor> = n - 1"
    then have "1 / 2 < m - of_int \<lfloor>m\<rfloor>" using h by (simp; linarith)
    then have "\<not> m - of_int \<lfloor>m\<rfloor> < 1 / 2" by linarith
    then show ?thesis using f \<open>1 / 2 < m - of_int \<lfloor>m\<rfloor>\<close>
      by (simp add: round_even_def Let_def)
  qed
qed

lemma round_even_tie:
  "m = of_int n + 1 / 2 \<Longrightarrow> round_even m = (if even n then n else n + 1)"
proof -
  assume h: "m = of_int n + 1 / 2"
  have "\<lfloor>m\<rfloor> = n" unfolding h by linarith
  then show ?thesis using h by (simp add: round_even_def Let_def)
qed

lemma fl_zero: "fl 0 = Fin 0"
  by (simp add: fl_def)

lemma fl_nonzero:
  assumes "x \<noteq> 0" "normalized \<bar>x\<bar> = (m, q)"
  shows "fl x = (if overflow \<le> of_int (round_even m) * 2 powi q then signed_inf (0 < x)
                 else Fin (if 0 < x then of_int (round_even m) * 2 powi q
                           else - (of_int (round_even m) * 2 powi q)))"
  using assms by (simp add: fl_def Let_def)


lemma powi2_ge2: "1 \<le> k \<Longrightarrow> 2 \<le> (2::rat) powi k"
  using power_int_increasing[of 1 k "2::rat"] by simp

lemma powi2_split: "(2::rat) powi a = 2 powi (a - b) * 2 powi b"
  using power_int_add[of "2::rat" "a - b" b] by simp

lemma normalized_eq:
  assumes lo: "2 ^ 52 \<le> m" and hi: "m < 2 ^ 53" and q: "- 1074 \<le> q"
  shows "normalized (m * 2 powi q) = (m, q)"
proof -
  obtain m' q' where n: "normalized (m * 2 powi q) = (m', q')"
    by (cases "normalized (m * 2 powi q)")
  have pos: "0 < m * 2 powi q" using lo by (simp add: powi2_pos)
  from normalized_props[OF pos n]
  have e: "m' * 2 powi q' = m * 2 powi q" and m'pos: "0 < m'" and m'hi: "m' < 2 ^ 53"
    and q': "- 1074 \<le> q'" and d: "2 ^ 52 \<le> m' \<or> q' = - 1074" by simp_all
  have "q' = q"
  proof (rule ccontr)
    assume "q' \<noteq> q"
    then consider "q' < q" | "q < q'" by linarith
    then show False
    proof cases
      case 1
      have "m' * 2 powi q' = m * (2 powi (q - q') * 2 powi q')"
        using e powi2_split[of q q'] by simp
      then have "m' = m * 2 powi (q - q')" using powi2_pos[of q'] by simp
      moreover have "2 \<le> (2::rat) powi (q - q')" using 1 by (intro powi2_ge2) simp
      ultimately have "m * 2 \<le> m'" using lo by (simp add: mult_left_mono)
      with lo m'hi show False by simp
    next
      case 2
      have "m * 2 powi q = m' * (2 powi (q' - q) * 2 powi q)"
        using e powi2_split[of q' q] by simp
      then have m: "m = m' * 2 powi (q' - q)" using powi2_pos[of q] by simp
      have "2 \<le> (2::rat) powi (q' - q)" using 2 by (intro powi2_ge2) simp
      then have "m' * 2 \<le> m" using m'pos m by (simp add: mult_left_mono)
      moreover have "2 ^ 52 \<le> m'" using d 2 q by auto
      ultimately show False using hi by simp
    qed
  qed
  with e have "m' = m" using powi2_pos[of q] by simp
  with \<open>q' = q\<close> n show ?thesis by simp
qed

lemma normalized_subnormal:
  assumes pos: "0 < m" and hi: "m < 2 ^ 52"
  shows "normalized (m * 2 powi (- 1074)) = (m, - 1074)"
proof -
  obtain m' q' where n: "normalized (m * 2 powi (- 1074)) = (m', q')"
    by (cases "normalized (m * 2 powi (- 1074))")
  have p: "0 < m * 2 powi (- 1074)" using pos by (simp add: powi2_pos)
  from normalized_props[OF p n]
  have e: "m' * 2 powi q' = m * 2 powi (- 1074)" and m'pos: "0 < m'" and m'hi: "m' < 2 ^ 53"
    and q': "- 1074 \<le> q'" and d: "2 ^ 52 \<le> m' \<or> q' = - 1074" by simp_all
  have "q' = - 1074"
  proof (rule ccontr)
    assume ne: "q' \<noteq> - 1074"
    with q' have gt: "- 1074 < q'" by simp
    from ne d have lo: "2 ^ 52 \<le> m'" by simp
    have "m * 2 powi (- 1074) = m' * (2 powi (q' - (- 1074)) * 2 powi (- 1074))"
      using e powi2_split[of q' "- 1074"] by simp
    then have m: "m = m' * 2 powi (q' - (- 1074))" using powi2_pos[of "- 1074"] by simp
    have "2 \<le> (2::rat) powi (q' - (- 1074))" using gt by (intro powi2_ge2) simp
    then have "m' * 2 \<le> m" using m'pos m by (simp add: mult_left_mono)
    with lo hi show False by simp
  qed
  with e have "m' = m" using powi2_pos[of "- 1074"] by simp
  with \<open>q' = - 1074\<close> n show ?thesis by simp
qed


lemma overflow_bound: "(2 ^ 53 :: rat) * 2 powi 970 < overflow"
  by (simp add: overflow_def)

lemma round_even_le_53: "m < 2 ^ 53 \<Longrightarrow> rat_of_int (round_even m) \<le> 2 ^ 53"
proof -
  assume "m < 2 ^ 53"
  then have "m \<le> rat_of_int (2 ^ 53)" by simp
  then have "round_even m \<le> 2 ^ 53" by (rule round_even_le)
  then have "rat_of_int (round_even m) \<le> rat_of_int (2 ^ 53)" by (simp only: of_int_le_iff)
  then show ?thesis by simp
qed

lemma round_even_nonneg: "0 \<le> m \<Longrightarrow> 0 \<le> round_even m"
  using round_even_ge[of 0 m] by simp

lemma no_overflow:
  assumes "0 \<le> m" "m < 2 ^ 53" "q \<le> 970"
  shows "\<not> overflow \<le> rat_of_int (round_even m) * 2 powi q"
proof -
  have "(2::rat) powi q \<le> 2 powi 970" using assms(3) by (intro power_int_increasing) simp_all
  moreover have "0 \<le> rat_of_int (round_even m)" using round_even_nonneg[OF assms(1)] by simp
  ultimately have "rat_of_int (round_even m) * 2 powi q \<le> 2 ^ 53 * 2 powi 970"
    using round_even_le_53[OF assms(2)] powi2_pos[of q]
    by (intro mult_mono) simp_all
  with overflow_bound show ?thesis by simp
qed

lemma fl_normal:
  assumes lo: "2 ^ 52 \<le> m" and hi: "m < 2 ^ 53" and q: "- 1074 \<le> q" "q \<le> 970"
  shows "fl (m * 2 powi q) = Fin (of_int (round_even m) * 2 powi q)"
    and "fl (- (m * 2 powi q)) = Fin (- (of_int (round_even m) * 2 powi q))"
proof -
  have pos: "0 < m * 2 powi q" using lo by (simp add: powi2_pos)
  have n: "normalized \<bar>m * 2 powi q\<bar> = (m, q)" "normalized \<bar>- (m * 2 powi q)\<bar> = (m, q)"
    using pos normalized_eq[OF lo hi q(1)] by simp_all
  have o: "\<not> overflow \<le> rat_of_int (round_even m) * 2 powi q"
    using lo hi q(2) by (intro no_overflow) simp_all
  have nz: "m * 2 powi q \<noteq> 0" using lo by auto
  show "fl (m * 2 powi q) = Fin (of_int (round_even m) * 2 powi q)"
    using fl_nonzero[OF nz n(1)] pos o by simp
  have neg: "- (m * 2 powi q) \<noteq> 0" "\<not> 0 < - (m * 2 powi q)"
    using pos by linarith+
  show "fl (- (m * 2 powi q)) = Fin (- (of_int (round_even m) * 2 powi q))"
    using fl_nonzero[OF neg(1) n(2)] neg(2) o by simp
qed

lemma fl_eval:
  assumes "- 1074 \<le> q" "q \<le> 970" "2 ^ 52 \<le> \<bar>x\<bar> / 2 powi q" "\<bar>x\<bar> / 2 powi q < 2 ^ 53"
    and "round_even (\<bar>x\<bar> / 2 powi q) = n"
  shows "fl x = Fin (sgn x * (of_int n * 2 powi q))"
proof -
  define m where "m = \<bar>x\<bar> / 2 powi q"
  have a: "\<bar>x\<bar> = m * 2 powi q" using powi2_pos[of q] by (simp add: m_def)
  have f: "fl (m * 2 powi q) = Fin (of_int n * 2 powi q)"
    "fl (- (m * 2 powi q)) = Fin (- (of_int n * 2 powi q))"
    using fl_normal[of m q] assms unfolding m_def by simp_all
  show ?thesis
  proof (cases "0 \<le> x")
    case True
    have "0 < m" using assms(3) unfolding m_def by simp
    then have "0 < m * 2 powi q" by (simp add: powi2_pos)
    with True have "0 < x" "x = m * 2 powi q" using a by simp_all
    then have "sgn x = 1" "x = m * 2 powi q" by simp_all
    then show ?thesis using f(1) by simp
  next
    case False
    then have "sgn x = - 1" "x = - (m * 2 powi q)" using a by simp_all
    then show ?thesis using f(2) by simp
  qed
qed


lemma fl_near:
  assumes "- 1074 \<le> q" "q \<le> 970" "2 ^ 52 \<le> \<bar>x\<bar> / 2 powi q" "\<bar>x\<bar> / 2 powi q < 2 ^ 53"
    and "\<bar>\<bar>x\<bar> / 2 powi q - of_int n\<bar> < 1 / 2"
  shows "fl x = Fin (sgn x * (of_int n * 2 powi q))"
  using assms(1-4) round_even_near[OF assms(5)] by (rule fl_eval)

lemma fl_exact:
  assumes x: "x = of_int n * 2 powi q" and n: "\<bar>n\<bar> < 2 ^ 53" and q: "- 1074 \<le> q" "q \<le> 971"
  shows "fl x = Fin x"
proof (cases "x = 0")
  case True
  then show ?thesis by (simp add: fl_zero)
next
  case False
  obtain m' q' where nm: "normalized \<bar>x\<bar> = (m', q')" by (cases "normalized \<bar>x\<bar>")
  have ax: "\<bar>x\<bar> = of_int \<bar>n\<bar> * 2 powi q" using x powi2_pos[of q] by (simp add: abs_mult)
  have pos: "0 < \<bar>x\<bar>" using False by simp
  from normalized_props[OF pos nm]
  have e: "m' * 2 powi q' = \<bar>x\<bar>" and m'pos: "0 < m'" and m'hi: "m' < 2 ^ 53"
    and q': "- 1074 \<le> q'" and d: "2 ^ 52 \<le> m' \<or> q' = - 1074" by simp_all
  have le: "q' \<le> q"
  proof (rule ccontr)
    assume "\<not> q' \<le> q"
    then have gt: "q < q'" by simp
    with q(1) d have lo: "2 ^ 52 \<le> m'" by auto
    have "of_int \<bar>n\<bar> * 2 powi q = m' * (2 powi (q' - q) * 2 powi q)"
      using e ax powi2_split[of q' q] by simp
    then have m: "of_int \<bar>n\<bar> = m' * 2 powi (q' - q)" using powi2_pos[of q] by simp
    have "2 \<le> (2::rat) powi (q' - q)" using gt by (intro powi2_ge2) simp
    then have "m' * 2 \<le> of_int \<bar>n\<bar>" using m'pos m by (simp add: mult_left_mono)
    with lo have "rat_of_int (2 ^ 53) \<le> of_int \<bar>n\<bar>" by simp
    then have "(2 ^ 53 :: int) \<le> \<bar>n\<bar>" by (simp only: of_int_le_iff)
    with n show False by simp
  qed
  have "m' * 2 powi q' = of_int \<bar>n\<bar> * (2 powi (q - q') * 2 powi q')"
    using e ax powi2_split[of q q'] by simp
  then have "m' = of_int \<bar>n\<bar> * 2 powi (q - q')" using powi2_pos[of q'] by simp
  also have "(2::rat) powi (q - q') = 2 ^ nat (q - q')"
    using le by (simp add: power_int_nonneg_exp)
  finally have m': "m' = of_int (\<bar>n\<bar> * 2 ^ nat (q - q'))" by simp
  have r: "of_int (round_even m') * 2 powi q' = \<bar>x\<bar>"
    unfolding m' round_even_int using e m' by simp
  have "(2::rat) powi q \<le> 2 powi 971" using q(2) by (intro power_int_increasing) simp_all
  moreover have "rat_of_int \<bar>n\<bar> < 2 ^ 53"
  proof -
    from n have "rat_of_int \<bar>n\<bar> < rat_of_int (2 ^ 53)" by (simp only: of_int_less_iff)
    then show ?thesis by simp
  qed
  ultimately have "rat_of_int \<bar>n\<bar> * 2 powi q < 2 ^ 53 * 2 powi 971"
    using powi2_pos[of q] by (intro mult_less_le_imp_less) simp_all
  also have "(2 ^ 53 :: rat) * 2 powi 971 = overflow" by (simp add: overflow_def)
  finally have o: "\<not> overflow \<le> \<bar>x\<bar>" using ax by simp
  show ?thesis
    using fl_nonzero[OF False nm] o unfolding r by auto
qed


lemma fl_error:
  assumes b: "\<bar>x\<bar> * 2 < overflow"
  shows "\<exists>y. fl x = Fin y \<and> \<bar>y - x\<bar> \<le> \<bar>x\<bar> / 2 ^ 53 + 2 powi (- 1075)
           \<and> (2 powi (- 1022) \<le> \<bar>x\<bar> \<longrightarrow> \<bar>y - x\<bar> \<le> \<bar>x\<bar> / 2 ^ 53)"
proof (cases "x = 0")
  case True
  then show ?thesis by (simp add: fl_zero)
next
  case False
  obtain m q where nm: "normalized \<bar>x\<bar> = (m, q)" by (cases "normalized \<bar>x\<bar>")
  have pos: "0 < \<bar>x\<bar>" using False by simp
  from normalized_props[OF pos nm]
  have e: "m * 2 powi q = \<bar>x\<bar>" and mpos: "0 < m" and mhi: "m < 2 ^ 53"
    and q: "- 1074 \<le> q" and d: "2 ^ 52 \<le> m \<or> q = - 1074" by simp_all
  define r where "r = rat_of_int (round_even m) * 2 powi q"
  have "r - \<bar>x\<bar> = (of_int (round_even m) - m) * 2 powi q"
    unfolding r_def e[symmetric] by (simp add: algebra_simps)
  then have "\<bar>r - \<bar>x\<bar>\<bar> = \<bar>of_int (round_even m) - m\<bar> * 2 powi q"
    using powi2_pos[of q] by (simp add: abs_mult)
  also have "\<dots> \<le> 1 / 2 * 2 powi q"
    using round_even_err[of m] powi2_pos[of q] by (intro mult_right_mono) simp_all
  finally have err: "\<bar>r - \<bar>x\<bar>\<bar> \<le> 2 powi q / 2" by simp
  have rle: "r \<le> 2 ^ 53 * 2 powi q"
    unfolding r_def using round_even_le_53[OF mhi] powi2_pos[of q]
    by (intro mult_right_mono) simp_all
  have A: "2 powi q / 2 \<le> \<bar>x\<bar> / 2 ^ 53 \<and> r < overflow" if lo: "2 ^ 52 \<le> m"
  proof -
    have "2 ^ 52 * 2 powi q \<le> m * 2 powi q"
      using lo powi2_pos[of q] by (intro mult_right_mono) simp_all
    then have p: "2 ^ 52 * 2 powi q \<le> \<bar>x\<bar>" using e by simp
    then have "2 powi q / 2 \<le> \<bar>x\<bar> / 2 ^ 53" by simp
    moreover have "r \<le> \<bar>x\<bar> * 2" using rle p by simp
    ultimately show ?thesis using b by simp
  qed
  have B: "2 powi q / 2 = (2::rat) powi (- 1075) \<and> r < overflow \<and> \<bar>x\<bar> < 2 powi (- 1022)"
    if s: "q = - 1074" "m < 2 ^ 52"
  proof -
    have "m * 2 powi q < 2 ^ 52 * 2 powi q"
      using s(2) powi2_pos[of q] by (intro mult_strict_right_mono) simp_all
    then have "\<bar>x\<bar> < 2 ^ 52 * 2 powi (- 1074)" using e s(1) by simp
    also have "(2 ^ 52 :: rat) * 2 powi (- 1074) = 2 powi (- 1022)"
      using power_int_add[of "2::rat" 52 "- 1074"] by simp
    finally have x: "\<bar>x\<bar> < 2 powi (- 1022)" .
    have h: "2 powi q / 2 = (2::rat) powi (- 1075)"
      using powi2_pred[of "- 1074"] s(1) by simp
    have "(2 ^ 53 :: rat) * 2 powi (- 1074) = 2 powi (- 1021)"
      using power_int_add[of "2::rat" 53 "- 1074"] by simp
    also have "\<dots> \<le> 2 powi 0" by (intro power_int_increasing) simp_all
    finally have "r \<le> 1" using rle s(1) by simp
    moreover have "1 < overflow" by (simp add: overflow_def)
    ultimately show ?thesis using x h by simp
  qed
  have o: "\<not> overflow \<le> r" using A B d by (cases "2 ^ 52 \<le> m") auto
  define y where "y = (if 0 < x then r else - r)"
  have f: "fl x = Fin y"
    using fl_nonzero[OF False nm] o unfolding r_def y_def by simp
  have "\<bar>y - x\<bar> = \<bar>r - \<bar>x\<bar>\<bar>" unfolding y_def by auto
  with err have err': "\<bar>y - x\<bar> \<le> 2 powi q / 2" by simp
  have n: "2 powi (- 1022) \<le> \<bar>x\<bar> \<longrightarrow> \<bar>y - x\<bar> \<le> \<bar>x\<bar> / 2 ^ 53"
    using A B d err' by (cases "2 ^ 52 \<le> m") auto
  have g: "\<bar>y - x\<bar> \<le> \<bar>x\<bar> / 2 ^ 53 + 2 powi (- 1075)"
  proof (cases "2 ^ 52 \<le> m")
    case True
    have "0 \<le> (2::rat) powi (- 1075)" by (rule zero_le_power_int) simp
    with A[OF True] err' show ?thesis by linarith
  next
    case False
    then have "q = - 1074" "m < 2 ^ 52" using d by auto
    from B[OF this] err' have "\<bar>y - x\<bar> \<le> 2 powi (- 1075)" by simp
    moreover have "0 \<le> \<bar>x\<bar> / 2 ^ 53" by simp
    ultimately show ?thesis by linarith
  qed
  show ?thesis using f g n by blast
qed

lemma fl_tie:
  assumes "- 1074 \<le> q" "q \<le> 970" "2 ^ 52 \<le> \<bar>x\<bar> / 2 powi q" "\<bar>x\<bar> / 2 powi q < 2 ^ 53"
    and "\<bar>x\<bar> / 2 powi q = of_int k + 1 / 2"
  shows "fl x = Fin (sgn x * (of_int (if even k then k else k + 1) * 2 powi q))"
  using assms(1-4) round_even_tie[OF assms(5)] by (rule fl_eval)

lemma fl_Ints: "x \<in> \<int> \<Longrightarrow> \<bar>x\<bar> < 2 ^ 53 \<Longrightarrow> fl x = Fin x"
proof -
  assume "x \<in> \<int>" and b: "\<bar>x\<bar> < 2 ^ 53"
  then obtain k where x: "x = of_int k" by (auto elim: Ints_cases)
  from b have "rat_of_int \<bar>k\<bar> < rat_of_int (2 ^ 53)" unfolding x by simp
  then have "\<bar>k\<bar> < 2 ^ 53" by (simp only: of_int_less_iff)
  then show ?thesis using fl_exact[of x k 0] x by simp
qed

lemma fl_not_NaN: "fl x \<noteq> NaN"
  by (simp add: fl_def signed_inf_def Let_def split: prod.splits)

lemma fl_overflow:
  assumes "overflow \<le> \<bar>x\<bar>"
  shows "fl x = signed_inf (0 < x)"
proof -
  have op: "0 < overflow" by (simp add: overflow_def)
  with assms have nz: "x \<noteq> 0" by auto
  obtain m q where nm: "normalized \<bar>x\<bar> = (m, q)" by (cases "normalized \<bar>x\<bar>")
  have pos: "0 < \<bar>x\<bar>" using nz by simp
  from normalized_props[OF pos nm]
  have e: "m * 2 powi q = \<bar>x\<bar>" and mpos: "0 < m" and mhi: "m < 2 ^ 53"
    and d: "2 ^ 52 \<le> m \<or> q = - 1074" by simp_all
  have q: "972 \<le> q"
  proof (rule ccontr)
    assume "\<not> 972 \<le> q"
    then have "q \<le> 971" by simp
    then have "(2::rat) powi q \<le> 2 powi 971" by (intro power_int_increasing) simp_all
    then have "m * 2 powi q < 2 ^ 53 * 2 powi 971"
      using mhi mpos powi2_pos[of q] by (intro mult_less_le_imp_less) simp_all
    also have "(2 ^ 53 :: rat) * 2 powi 971 = overflow" by (simp add: overflow_def)
    finally show False using e assms by simp
  qed
  with d have lo: "2 ^ 52 \<le> m" by auto
  then have "rat_of_int (2 ^ 52) \<le> m" by simp
  then have "2 ^ 52 \<le> round_even m" by (rule round_even_ge)
  then have "rat_of_int (2 ^ 52) \<le> rat_of_int (round_even m)" by (simp only: of_int_le_iff)
  then have n: "2 ^ 52 \<le> rat_of_int (round_even m)" by simp
  have "(2::rat) powi 972 \<le> 2 powi q" using q by (intro power_int_increasing) simp_all
  then have "2 ^ 52 * 2 powi 972 \<le> rat_of_int (round_even m) * 2 powi q"
    using n by (intro mult_mono) simp_all
  moreover have "(2 ^ 52 :: rat) * 2 powi 972 = overflow" by (simp add: overflow_def)
  ultimately have "overflow \<le> rat_of_int (round_even m) * 2 powi q" by simp
  then show ?thesis using fl_nonzero[OF nz nm] by simp
qed

lemma fl_underflow:
  assumes "\<bar>x\<bar> * 2 ^ 1075 < 1"
  shows "fl x = Fin 0"
proof (cases "x = 0")
  case True
  then show ?thesis by (simp add: fl_zero)
next
  case False
  define m where "m = \<bar>x\<bar> * 2 ^ 1074"
  have mpos: "0 < m" using False by (simp add: m_def)
  have "m * 2 = \<bar>x\<bar> * 2 ^ 1075" by (simp add: m_def)
  with assms have half: "m < 1 / 2" by simp
  then have mhi: "m < 2 ^ 52" by simp
  have x: "\<bar>x\<bar> = m * 2 powi (- 1074)" by (simp add: m_def power_int_minus)
  have nm: "normalized \<bar>x\<bar> = (m, - 1074)"
    unfolding x by (rule normalized_subnormal[OF mpos mhi])
  have "\<bar>m - rat_of_int 0\<bar> < 1 / 2" using mpos half by simp
  then have r: "round_even m = 0" by (rule round_even_near)
  have "0 < overflow" by (simp add: overflow_def)
  then show ?thesis using fl_nonzero[OF False nm] r by simp
qed

text \<open>
  The literals \<open>0.7\<close>, \<open>5.6\<close>, \<open>-0.2\<close> and their like are not binary64 values;
  \<open>fl_near\<close> and \<open>fl_tie\<close> compute the value a literal or a result denotes from its
  exponent.
\<close>

section \<open>Properties of the numeric helpers\<close>

lemma Math_round_eval:
  "rat_of_int k \<le> x + 1 / 2 \<Longrightarrow> x + 1 / 2 < rat_of_int k + 1 \<Longrightarrow>
   Math_round (Fin x) = Fin (of_int k)"
proof -
  assume "rat_of_int k \<le> x + 1 / 2" "x + 1 / 2 < rat_of_int k + 1"
  then have "\<lfloor>x + 1 / 2\<rfloor> = k" by linarith
  then show ?thesis by simp
qed

lemma Math_round_int: "Math_round (Fin (of_int k)) = Fin (of_int k)"
  by (rule Math_round_eval) simp_all

lemma pct_copies:
  "youtube_pct = ga4_pct" "meta_pct = ga4_pct" "unbounce_pct = ga4_pct" "vimeo_pct = ga4_pct"
  by (simp_all add: fun_eq_iff ga4_pct_def youtube_pct_def meta_pct_def unbounce_pct_def vimeo_pct_def)

lemma gt_zero_iff:
  "metric_gt m (Num (Fin 0)) \<longleftrightarrow> m = Num PInf \<or> (\<exists>x. m = Num (Fin x) \<and> 0 < x)"
  by (cases m rule: to_number.cases) (auto simp add: metric_gt_def js_gt_def elim: js_lt.elims)

lemma pct_positive:
  "metric_gt p (Num (Fin 0)) \<Longrightarrow>
   ga4_pct c p = Num (js_div (Math_round (js_mul
             (js_div (js_sub (to_number c) (to_number p)) (to_number p)) (Fin 1000))) (Fin 10))"
  by (auto simp add: gt_zero_iff ga4_pct_def)

lemma pct_divisor_nonzero: "ga4_pct c p \<noteq> Null \<Longrightarrow> to_number p \<noteq> Fin 0"
  by (cases p) (auto simp add: ga4_pct_def split: if_splits)

lemma div_not_NaN: "a \<noteq> NaN \<Longrightarrow> b \<noteq> 0 \<Longrightarrow> js_div a (Fin b) \<noteq> NaN"
  by (cases a) (simp_all add: signed_inf_def fl_not_NaN)

lemma mul_not_NaN: "a \<noteq> NaN \<Longrightarrow> b \<noteq> 0 \<Longrightarrow> js_mul a (Fin b) \<noteq> NaN"
  by (cases a) (simp_all add: signed_inf_def fl_not_NaN)

lemma div10_shape:
  assumes "v \<noteq> NaN"
  shows "js_div (Math_round v) (Fin 10) = PInf \<or> js_div (Math_round v) (Fin 10) = NInf
         \<or> (\<exists>k. js_div (Math_round v) (Fin 10) = fl (rat_of_int k / 10))"
  using assms by (cases v) (auto simp add: signed_inf_def)

lemma pct_shape:
  "ga4_pct (Num (Fin c)) (Num (Fin p)) = Null
   \<or> ga4_pct (Num (Fin c)) (Num (Fin p)) = Num PInf
   \<or> ga4_pct (Num (Fin c)) (Num (Fin p)) = Num NInf
   \<or> (\<exists>k. ga4_pct (Num (Fin c)) (Num (Fin p)) = Num (fl (rat_of_int k / 10)))"
proof (cases "p = 0")
  case True
  then show ?thesis by (simp add: ga4_pct_def)
next
  case False
  define m where "m = js_mul (js_div (js_sub (Fin c) (Fin p)) (Fin p)) (Fin 1000)"
  have "js_sub (Fin c) (Fin p) \<noteq> NaN" by (simp add: fl_not_NaN)
  then have "js_div (js_sub (Fin c) (Fin p)) (Fin p) \<noteq> NaN" using False by (rule div_not_NaN)
  then have m: "m \<noteq> NaN" unfolding m_def by (rule mul_not_NaN) simp
  have "ga4_pct (Num (Fin c)) (Num (Fin p)) = Num (js_div (Math_round m) (Fin 10))"
    using False by (simp add: ga4_pct_def m_def)
  with div10_shape[OF m] show ?thesis by auto
qed

lemma pct_example_1: "ga4_pct (Num (Fin 120)) (Num (Fin 100)) = Num (Fin 20)"
proof -
  have a: "js_sub (Fin 120) (Fin 100) = Fin 20" by (simp add: fl_Ints)
  have b: "js_div (Fin 20) (Fin 100) = Fin (7205759403792794 / 2 ^ 55)"
    using fl_near[where x = "1 / 5" and q = "- 55" and n = 7205759403792794] by simp
  have c: "js_mul (Fin (7205759403792794 / 2 ^ 55)) (Fin 1000) = Fin 200"
    using fl_near[where x = "7205759403792794 / 2 ^ 55 * 1000" and q = "- 45"
        and n = 7036874417766400] by simp
  have d: "Math_round (Fin 200) = Fin 200" using Math_round_int[of 200] by simp
  have e: "js_div (Fin 200) (Fin 10) = Fin 20" by (simp add: fl_Ints)
  have "ga4_pct (Num (Fin 120)) (Num (Fin 100)) =
      Num (js_div (Math_round (js_mul (js_div (js_sub (Fin 120) (Fin 100)) (Fin 100)) (Fin 1000)))
        (Fin 10))"
    by (simp add: ga4_pct_def del: js_sub.simps js_div.simps js_mul.simps Math_round.simps)
  then show ?thesis by (simp only: a b c d e)
qed

lemma pct_example_2: "ga4_pct (Num (Fin 80)) (Num (Fin 100)) = Num (Fin (- 20))"
proof -
  have a: "js_sub (Fin 80) (Fin 100) = Fin (- 20)" by (simp add: fl_Ints)
  have b: "js_div (Fin (- 20)) (Fin 100) = Fin (- (7205759403792794 / 2 ^ 55))"
    using fl_near[where x = "- (1 / 5)" and q = "- 55" and n = 7205759403792794] by simp
  have c: "js_mul (Fin (- (7205759403792794 / 2 ^ 55))) (Fin 1000) = Fin (- 200)"
    using fl_near[where x = "- (7205759403792794 / 2 ^ 55 * 1000)" and q = "- 45"
        and n = 7036874417766400] by simp
  have d: "Math_round (Fin (- 200)) = Fin (- 200)" using Math_round_int[of "- 200"] by simp
  have e: "js_div (Fin (- 200)) (Fin 10) = Fin (- 20)" by (simp add: fl_Ints)
  have "ga4_pct (Num (Fin 80)) (Num (Fin 100)) =
      Num (js_div (Math_round (js_mul (js_div (js_sub (Fin 80) (Fin 100)) (Fin 100)) (Fin 1000)))
        (Fin 10))"
    by (simp add: ga4_pct_def del: js_sub.simps js_div.simps js_mul.simps Math_round.simps)
  then show ?thesis by (simp only: a b c d e)
qed

lemma pct_example_3: "ga4_pct (Num (Fin 601)) (Num (Fin 400)) = Num (fl (251 / 5))"
proof -
  have a: "js_sub (Fin 601) (Fin 400) = Fin 201" by (simp add: fl_Ints)
  have b: "js_div (Fin 201) (Fin 400) = Fin (4526117625507348 / 2 ^ 53)"
    using fl_near[where x = "201 / 400" and q = "- 53" and n = 4526117625507348] by simp
  have c: "js_mul (Fin (4526117625507348 / 2 ^ 53)) (Fin 1000) = Fin (8840073487319039 / 2 ^ 44)"
    using fl_near[where x = "4526117625507348 / 2 ^ 53 * 1000" and q = "- 44"
        and n = 8840073487319039] by simp
  have d: "Math_round (Fin (8840073487319039 / 2 ^ 44)) = Fin 502"
    using Math_round_eval[of 502 "8840073487319039 / 2 ^ 44"] by simp
  have e: "js_div (Fin 502) (Fin 10) = fl (251 / 5)" by simp
  have "ga4_pct (Num (Fin 601)) (Num (Fin 400)) =
      Num (js_div (Math_round (js_mul (js_div (js_sub (Fin 601) (Fin 400)) (Fin 400)) (Fin 1000)))
        (Fin 10))"
    by (simp add: ga4_pct_def del: js_sub.simps js_div.simps js_mul.simps Math_round.simps)
  then show ?thesis by (simp only: a b c d e)
qed

lemma pct_infinite:
  "ga4_pct (Num (Fin (2 ^ 1023))) (Num (Fin (- (2 ^ 1023)))) = Num NInf"
proof -
  have "overflow \<le> \<bar>2 ^ 1023 - - (2 ^ 1023) :: rat\<bar>" by (simp add: overflow_def)
  from fl_overflow[OF this] have a: "js_sub (Fin (2 ^ 1023)) (Fin (- (2 ^ 1023))) = PInf"
    by (simp add: signed_inf_def)
  have "ga4_pct (Num (Fin (2 ^ 1023))) (Num (Fin (- (2 ^ 1023)))) =
      Num (js_div (Math_round (js_mul (js_div (js_sub (Fin (2 ^ 1023)) (Fin (- (2 ^ 1023))))
        (Fin (- (2 ^ 1023)))) (Fin 1000))) (Fin 10))"
    by (simp add: ga4_pct_def del: js_sub.simps js_div.simps js_mul.simps Math_round.simps)
  then show ?thesis unfolding a by (simp add: signed_inf_def)
qed

text \<open>
  C2: for a previous value greater than zero the helper returns
  \<open>Math.round(((current - previous) / previous) * 1000) / 10\<close>, each operation being the
  binary64 one and \<open>Math.round\<close> taking a tie towards \<open>+Infinity\<close>; a current value of
  \<open>null\<close> counts as 0 and \<open>undefined\<close> gives \<open>NaN\<close>. For a previous value of 0, \<open>null\<close>
  or \<open>undefined\<close> it returns \<open>null\<close>. It is a total function (nothing throws), and the
  divisor is never zero when the division is reached: on finite inputs the result is
  \<open>null\<close>, an infinity (when an intermediate result overflows) or the binary64 value
  nearest to \<open>k / 10\<close> for an integer \<open>k\<close>, never \<open>NaN\<close>, with \<open>k = \<lfloor>y + 1/2\<rfloor>\<close> for
  the binary64 result \<open>y\<close> of the product. The five copies are the same
  function. \<open>pct(120, 100) = 20\<close>, \<open>pct(80, 100) = -20\<close>, and \<open>pct(601, 400) = 50.2\<close>: the
  quotient \<open>0.5025\<close> is not a binary64 value, and the nearest one times 1000 lies below
  \<open>502.5\<close>.
\<close>

theorem pct_delta:
  "(\<forall>c p. metric_gt p (Num (Fin 0)) \<longrightarrow>
       ga4_pct c p = Num (js_div (Math_round (js_mul
             (js_div (js_sub (to_number c) (to_number p)) (to_number p)) (Fin 1000))) (Fin 10)))
   \<and> (\<forall>p. 0 < p \<longrightarrow> ga4_pct Null (Num (Fin p)) = ga4_pct (Num (Fin 0)) (Num (Fin p))
                    \<and> ga4_pct Undefined (Num (Fin p)) = Num NaN)
   \<and> (\<forall>c. ga4_pct c (Num (Fin 0)) = Null \<and> ga4_pct c Null = Null \<and> ga4_pct c Undefined = Null)
   \<and> (\<forall>c p. ga4_pct c p \<noteq> Null \<longrightarrow> to_number p \<noteq> Fin 0)
   \<and> (\<forall>c p. ga4_pct (Num (Fin c)) (Num (Fin p)) = Null
            \<or> ga4_pct (Num (Fin c)) (Num (Fin p)) = Num PInf
            \<or> ga4_pct (Num (Fin c)) (Num (Fin p)) = Num NInf
            \<or> (\<exists>k. ga4_pct (Num (Fin c)) (Num (Fin p)) = Num (fl (rat_of_int k / 10))))
   \<and> (\<forall>c p y. p \<noteq> 0
          \<and> js_mul (js_div (js_sub (Fin c) (Fin p)) (Fin p)) (Fin 1000) = Fin y \<longrightarrow>
        ga4_pct (Num (Fin c)) (Num (Fin p)) = Num (fl (rat_of_int \<lfloor>y + 1 / 2\<rfloor> / 10)))
   \<and> youtube_pct = ga4_pct \<and> meta_pct = ga4_pct \<and> unbounce_pct = ga4_pct \<and> vimeo_pct = ga4_pct
   \<and> ga4_pct (Num (Fin 120)) (Num (Fin 100)) = Num (Fin 20)
   \<and> ga4_pct (Num (Fin 80)) (Num (Fin 100)) = Num (Fin (- 20))
   \<and> ga4_pct (Num (Fin 601)) (Num (Fin 400)) = Num (fl (251 / 5))"
proof -
  have coerce: "\<forall>p. 0 < p \<longrightarrow> ga4_pct Null (Num (Fin p)) = ga4_pct (Num (Fin 0)) (Num (Fin p))
                    \<and> ga4_pct Undefined (Num (Fin p)) = Num NaN"
    by (simp add: ga4_pct_def)
  have nulls: "\<forall>c. ga4_pct c (Num (Fin 0)) = Null \<and> ga4_pct c Null = Null \<and> ga4_pct c Undefined = Null"
    by (simp add: ga4_pct_def)
  have closed: "\<forall>c p y. p \<noteq> 0
          \<and> js_mul (js_div (js_sub (Fin c) (Fin p)) (Fin p)) (Fin 1000) = Fin y \<longrightarrow>
        ga4_pct (Num (Fin c)) (Num (Fin p)) = Num (fl (rat_of_int \<lfloor>y + 1 / 2\<rfloor> / 10))"
  proof (intro allI impI)
    fix c p y :: rat
    assume h: "p \<noteq> 0 \<and> js_mul (js_div (js_sub (Fin c) (Fin p)) (Fin p)) (Fin 1000) = Fin y"
    have d: "js_div (Fin (rat_of_int \<lfloor>y + 1 / 2\<rfloor>)) (Fin 10)
        = fl (rat_of_int \<lfloor>y + 1 / 2\<rfloor> / 10)"
      by simp
    have "ga4_pct (Num (Fin c)) (Num (Fin p)) =
        Num (js_div (Math_round (js_mul (js_div (js_sub (Fin c) (Fin p)) (Fin p)) (Fin 1000)))
          (Fin 10))"
      using h by (simp add: ga4_pct_def del: js_sub.simps js_div.simps js_mul.simps)
    also have "\<dots> = Num (js_div (Fin (rat_of_int \<lfloor>y + 1 / 2\<rfloor>)) (Fin 10))"
      using h by (simp del: js_sub.simps js_div.simps js_mul.simps)
    finally show "ga4_pct (Num (Fin c)) (Num (Fin p))
        = Num (fl (rat_of_int \<lfloor>y + 1 / 2\<rfloor> / 10))"
      unfolding d .
  qed
  show ?thesis
    using coerce nulls pct_positive pct_divisor_nonzero pct_shape closed pct_copies
      pct_example_1 pct_example_2 pct_example_3
    by blast
qed

theorem pct_delta_witness:
  "metric_gt (Num (Fin 400)) (Num (Fin 0))
   \<and> ga4_pct (Num (Fin 601)) (Num (Fin 400)) =
       Num (js_div (Math_round (js_mul
             (js_div (js_sub (Fin 601) (Fin 400)) (Fin 400)) (Fin 1000))) (Fin 10))
   \<and> ga4_pct (Num (Fin 601)) (Num (Fin 400)) \<noteq> Null
   \<and> to_number (Num (Fin 400)) \<noteq> Fin 0
   \<and> ga4_pct Undefined (Num (Fin 400)) = Num NaN"
proof -
  have g: "metric_gt (Num (Fin 400)) (Num (Fin 0))"
    by (simp add: metric_gt_def js_gt_def)
  have v: "ga4_pct (Num (Fin 601)) (Num (Fin 400)) =
       Num (js_div (Math_round (js_mul
             (js_div (js_sub (to_number (Num (Fin 601))) (to_number (Num (Fin 400))))
                (to_number (Num (Fin 400)))) (Fin 1000))) (Fin 10))"
    by (rule pct_delta[THEN conjunct1, rule_format, OF g])
  then have n: "ga4_pct (Num (Fin 601)) (Num (Fin 400)) \<noteq> Null" by simp
  have d: "to_number (Num (Fin 400)) \<noteq> Fin 0"
    by (rule pct_delta[THEN conjunct2, THEN conjunct2, THEN conjunct2, THEN conjunct1,
          rule_format, OF n])
  have "(0::rat) < 400" by simp
  from pct_delta[THEN conjunct2, THEN conjunct1, rule_format, OF this]
  have u: "ga4_pct Undefined (Num (Fin 400)) = Num NaN" by simp
  show ?thesis using g v n d u by (simp del: js_sub.simps js_div.simps js_mul.simps Math_round.simps)
qed

lemma overflow_big: "(10000000000000000 :: rat) < overflow"
  by (simp add: overflow_def)

lemma min_normal_small: "(2::rat) powi (- 1022) \<le> 1 / 200" "(2::rat) powi (- 1075) \<le> 1 / 200"
  by simp_all

lemma round_core_idem:
  fixes F x :: rat
  assumes F: "F = 10 \<or> F = 100" and x: "\<bar>x\<bar> \<le> 10000000000000"
  shows "js_div (Math_round (js_mul (js_div (Math_round (js_mul (Fin x) (Fin F))) (Fin F)) (Fin F))) (Fin F)
         = js_div (Math_round (js_mul (Fin x) (Fin F))) (Fin F)"
proof -
  have Fpos: "0 < F" "F \<le> 100" "10 \<le> F" using F by auto
  have xF: "\<bar>x * F\<bar> \<le> 1000000000000000"
  proof -
    have "\<bar>x * F\<bar> = \<bar>x\<bar> * F" using Fpos by (simp add: abs_mult)
    also have "\<dots> \<le> 10000000000000 * 100" using x Fpos by (intro mult_mono) simp_all
    finally show ?thesis by simp
  qed
  have "\<bar>x * F\<bar> * 2 < overflow" using xF overflow_big by linarith
  from fl_error[OF this] obtain y where y: "fl (x * F) = Fin y"
    and ye: "\<bar>y - x * F\<bar> \<le> \<bar>x * F\<bar> / 2 ^ 53 + 2 powi (- 1075)" by blast
  have "\<bar>x * F\<bar> / 2 ^ 53 \<le> 1 / 4" using xF by simp
  with ye min_normal_small(2) have yb: "\<bar>y\<bar> \<le> 1000000000000000 + 1" using xF by linarith
  define k where "k = \<lfloor>y + 1 / 2\<rfloor>"
  define a where "a = \<bar>rat_of_int k\<bar>"
  have kb: "a \<le> 1000000000000000 + 2"
  proof -
    have "rat_of_int k \<le> y + 1 / 2" "y + 1 / 2 < rat_of_int k + 1" unfolding k_def by linarith+
    with yb show ?thesis unfolding a_def by linarith
  qed
  have first: "js_div (Math_round (js_mul (Fin x) (Fin F))) (Fin F) = fl (of_int k / F)"
    using Fpos y by (simp add: k_def)
  show ?thesis
  proof (cases "k = 0")
    case True
    have "\<lfloor>1 / 2 :: rat\<rfloor> = 0" by linarith
    then show ?thesis unfolding first using True Fpos by (simp add: fl_zero)
  next
    case False
    then have "1 \<le> \<bar>k\<bar>" by simp
    then have "rat_of_int 1 \<le> rat_of_int \<bar>k\<bar>" by (simp only: of_int_le_iff)
    then have k1: "1 \<le> a" unfolding a_def by simp
    define b where "b = a / F"
    have akF: "\<bar>of_int k / F\<bar> = b" using Fpos unfolding a_def b_def by simp
    have aF1: "1 / 100 \<le> b"
    proof -
      have "1 / 100 \<le> 1 / F" using Fpos by (intro divide_left_mono) simp_all
      also have "\<dots> \<le> a / F" using k1 Fpos by (intro divide_right_mono) simp_all
      finally show ?thesis unfolding b_def .
    qed
    have aF2: "b \<le> a"
    proof -
      have "a / F \<le> a / 1" using Fpos k1 by (intro divide_left_mono) simp_all
      then show ?thesis unfolding b_def by simp
    qed
    have lo1: "2 powi (- 1022) \<le> \<bar>of_int k / F\<bar>"
      using aF1 min_normal_small(1) unfolding akF by linarith
    have hi1: "\<bar>of_int k / F\<bar> * 2 < overflow"
      using aF2 kb overflow_big unfolding akF by linarith
    from fl_error[OF hi1] lo1 obtain z where z: "fl (of_int k / F) = Fin z"
      and ze: "\<bar>z - of_int k / F\<bar> \<le> \<bar>of_int k / F\<bar> / 2 ^ 53" by blast
    have zF: "\<bar>z * F - of_int k\<bar> \<le> a / 2 ^ 53"
    proof -
      have "z * F - of_int k = (z - of_int k / F) * F" using Fpos by (simp add: field_simps)
      then have "\<bar>z * F - of_int k\<bar> = \<bar>z - of_int k / F\<bar> * F" using Fpos by (simp add: abs_mult)
      also have "\<dots> \<le> b / 2 ^ 53 * F"
        using ze Fpos unfolding akF by (intro mult_right_mono) simp_all
      also have "\<dots> = a / 2 ^ 53" using Fpos unfolding b_def by simp
      finally show ?thesis .
    qed
    have small: "a / 2 ^ 53 \<le> 1 / 8" using kb by simp
    have tri1: "\<bar>z * F\<bar> \<le> a + \<bar>z * F - of_int k\<bar>" unfolding a_def by linarith
    have tri2: "a \<le> \<bar>z * F\<bar> + \<bar>z * F - of_int k\<bar>" unfolding a_def by linarith
    have zlo: "1 / 2 \<le> \<bar>z * F\<bar>" using zF small k1 tri2 by linarith
    have zhi: "\<bar>z * F\<bar> \<le> 2 * a" using zF small k1 tri1 by linarith
    have lo2: "2 powi (- 1022) \<le> \<bar>z * F\<bar>" using zlo min_normal_small(1) by linarith
    have hi2: "\<bar>z * F\<bar> * 2 < overflow" using zhi kb overflow_big by linarith
    from fl_error[OF hi2] lo2 obtain y' where y': "fl (z * F) = Fin y'"
      and y'e: "\<bar>y' - z * F\<bar> \<le> \<bar>z * F\<bar> / 2 ^ 53" by blast
    have "\<bar>z * F\<bar> / 2 ^ 53 \<le> 2 * a / 2 ^ 53" using zhi by (simp add: divide_right_mono)
    also have "\<dots> \<le> 1 / 4" using kb by simp
    finally have "\<bar>y' - z * F\<bar> \<le> 1 / 4" using y'e by linarith
    with zF small have "\<bar>y' - of_int k\<bar> \<le> 3 / 8" by linarith
    then have "\<lfloor>y' + 1 / 2\<rfloor> = k" by linarith
    then have "js_div (Math_round (js_mul (Fin z) (Fin F))) (Fin F) = fl (of_int k / F)"
      using Fpos y' by simp
    then show ?thesis unfolding first z .
  qed
qed

lemma Math_pow10_1: "Math_pow10 1 = Fin 10"
  by (simp add: Math_pow10_def fl_Ints)

lemma Math_pow10_2: "Math_pow10 2 = Fin 100"
  by (simp add: Math_pow10_def fl_Ints)

lemma round_copies:
  "unbounce_round v (Some n) = meta_round v (Some n)"
  "vimeo_round = unbounce_round" "kit_round = unbounce_round"
  by (simp_all add: fun_eq_iff unbounce_round_def meta_round_def vimeo_round_def kit_round_def)

lemma round_unfold:
  "meta_round v (Some 1) = js_div (Math_round (js_mul v (Fin 10))) (Fin 10)"
  "meta_round v (Some 2) = js_div (Math_round (js_mul v (Fin 100))) (Fin 100)"
  "meta_round v None = js_div (Math_round (js_mul v (Fin 100))) (Fin 100)"
  "unbounce_round v (Some 1) = js_div (Math_round (js_mul v (Fin 10))) (Fin 10)"
  "unbounce_round v (Some 2) = js_div (Math_round (js_mul v (Fin 100))) (Fin 100)"
  "unbounce_round v None = js_div (Math_round (js_mul v (Fin 10))) (Fin 10)"
  by (simp_all add: meta_round_def unbounce_round_def Math_pow10_1 Math_pow10_2 Let_def
      del: js_mul.simps js_div.simps)

lemma Math_pow10_extremes: "Math_pow10 309 = PInf" "Math_pow10 (- 324) = Fin 0"
proof -
  have "overflow \<le> \<bar>10 powi 309 :: rat\<bar>" by (simp add: overflow_def)
  from fl_overflow[OF this] show "Math_pow10 309 = PInf"
    by (simp add: Math_pow10_def signed_inf_def)
  have "\<bar>10 powi (- 324) :: rat\<bar> * 2 ^ 1075 < 1" by simp
  from fl_underflow[OF this] show "Math_pow10 (- 324) = Fin 0"
    by (simp add: Math_pow10_def)
qed

lemma floor_half: "\<lfloor>1 / 2 :: rat\<rfloor> = 0"
  by linarith

lemma round_extreme_counts:
  "meta_round (Fin 5) (Some 309) = NaN" "meta_round (Fin 5) (Some (- 324)) = NaN"
  by (simp_all add: meta_round_def Math_pow10_extremes signed_inf_def fl_zero floor_half)

lemma round_literal_1005:
  "fl (201 / 200) = Fin (1131529406376837 / 1125899906842624)"
  "meta_round (Fin (1131529406376837 / 1125899906842624)) (Some 2) = Fin 1"
proof -
  show "fl (201 / 200) = Fin (1131529406376837 / 1125899906842624)"
    using fl_near[where x = "201 / 200" and q = "- 52" and n = 4526117625507348] by simp
  have a: "js_mul (Fin (1131529406376837 / 1125899906842624)) (Fin 100)
      = Fin (7072058789855231 / 70368744177664)"
    using fl_near[where x = "1131529406376837 / 1125899906842624 * 100" and q = "- 46"
        and n = 7072058789855231] by simp
  have b: "Math_round (Fin (7072058789855231 / 70368744177664)) = Fin 100"
    using Math_round_eval[of 100 "7072058789855231 / 70368744177664"] by simp
  have c: "js_div (Fin 100) (Fin 100) = Fin 1" by (simp add: fl_Ints)
  show "meta_round (Fin (1131529406376837 / 1125899906842624)) (Some 2) = Fin 1"
    by (simp only: round_unfold a b c)
qed

lemma half_away_eq:
  assumes "0 \<le> x \<or> frac x \<noteq> 1 / 2"
  shows "round_half_away x = \<lfloor>x + 1 / 2\<rfloor>"
proof (cases "0 \<le> x")
  case True
  then show ?thesis by (simp add: round_half_away_def)
next
  case False
  with assms have nf: "frac x \<noteq> 1 / 2" by simp
  define k where "k = \<lfloor>x + 1 / 2\<rfloor>"
  have lo: "of_int k \<le> x + 1 / 2" and hi: "x + 1 / 2 < of_int k + 1"
    unfolding k_def by linarith+
  have ne: "x + 1 / 2 \<noteq> of_int k"
  proof
    assume e: "x + 1 / 2 = of_int k"
    then have x: "x = of_int (k - 1) + 1 / 2" by simp
    have "\<lfloor>x\<rfloor> = k - 1"
      by (rule floor_unique) (simp_all add: x)
    then have "frac x = 1 / 2" by (simp add: frac_def x)
    with nf show False ..
  qed
  have "\<lfloor>- x + 1 / 2\<rfloor> = - k"
    by (rule floor_unique) (use lo hi ne in auto)
  then show ?thesis using False by (simp add: round_half_away_def k_def)
qed

lemma half_away_tie:
  assumes "x < 0" "frac x = 1 / 2"
  shows "\<lfloor>x + 1 / 2\<rfloor> = round_half_away x + 1"
proof -
  define k where "k = \<lfloor>x\<rfloor>"
  have x: "x = of_int k + 1 / 2" using assms(2) by (simp add: frac_def k_def)
  have a: "\<lfloor>x + 1 / 2\<rfloor> = k + 1" unfolding x by linarith
  have "- x + 1 / 2 = of_int (- k)" unfolding x by simp
  then have "\<lfloor>- x + 1 / 2\<rfloor> = - k" by (metis floor_of_int)
  then have "round_half_away x = k" using assms(1) by (simp add: round_half_away_def)
  with a show ?thesis by simp
qed

lemma round_scaled:
  assumes n: "n = 1 \<or> n = 2" and y: "js_mul (Fin v) (Fin (10 ^ n)) = Fin y"
  shows "meta_round (Fin v) (Some (int n)) = fl (of_int \<lfloor>y + 1 / 2\<rfloor> / 10 ^ n)"
  using n
proof
  assume "n = 1"
  then show ?thesis using y by (simp add: round_unfold del: js_mul.simps)
next
  assume "n = 2"
  then show ?thesis using y by (simp add: round_unfold del: js_mul.simps)
qed

lemma round_overflow:
  assumes n: "n = 1 \<or> n = 2" and y: "js_mul (Fin v) (Fin (10 ^ n)) = w" "w = PInf \<or> w = NInf"
  shows "meta_round (Fin v) (Some (int n)) = w"
  using n
proof
  assume "n = 1"
  then show ?thesis using y by (auto simp add: round_unfold signed_inf_def simp del: js_mul.simps)
next
  assume "n = 2"
  then show ?thesis using y by (auto simp add: round_unfold signed_inf_def simp del: js_mul.simps)
qed

text \<open>
  C5, as amended: for a finite value \<open>v\<close> and a decimal count \<open>n\<close> of 1 or 2 the helper
  returns \<open>Math.round(v * 10^n) / 10^n\<close> in binary64 arithmetic: with \<open>y\<close> the binary64
  product \<open>v * 10^n\<close>, it is the binary64 value nearest to \<open>\<lfloor>y + 1/2\<rfloor> / 10^n\<close>, the
  nearest integer of \<open>y\<close> with a tie going towards \<open>+Infinity\<close>. That is
  round-half-away-from-zero on \<open>y\<close> whenever \<open>y \<ge> 0\<close> or \<open>y\<close> is not exactly halfway
  between two integers; for a negative \<open>y\<close> exactly halfway it is one more (\<open>-2.5\<close> gives
  \<open>-2\<close>). When the product overflows, the helper returns that infinity. The helpers of
  meta.js, unbounce.js, vimeo.js and kit.js compute the same function of an explicit decimal
  count.
\<close>

theorem round_convention:
  "(\<forall>v n y. (n = 1 \<or> n = 2) \<and> js_mul (Fin v) (Fin (10 ^ n)) = Fin y \<longrightarrow>
        meta_round (Fin v) (Some (int n)) = fl (of_int \<lfloor>y + 1 / 2\<rfloor> / 10 ^ n)
        \<and> (0 \<le> y \<or> frac y \<noteq> 1 / 2 \<longrightarrow>
              meta_round (Fin v) (Some (int n)) = fl (of_int (round_half_away y) / 10 ^ n))
        \<and> (y < 0 \<and> frac y = 1 / 2 \<longrightarrow>
              meta_round (Fin v) (Some (int n)) = fl (of_int (round_half_away y + 1) / 10 ^ n)))
   \<and> (\<forall>v n w. (n = 1 \<or> n = 2) \<and> js_mul (Fin v) (Fin (10 ^ n)) = w \<and> (w = PInf \<or> w = NInf) \<longrightarrow>
        meta_round (Fin v) (Some (int n)) = w)
   \<and> (\<forall>v n. unbounce_round v (Some n) = meta_round v (Some n))
   \<and> vimeo_round = unbounce_round \<and> kit_round = unbounce_round"
proof -
  have a: "\<forall>v n y. (n = 1 \<or> n = 2) \<and> js_mul (Fin v) (Fin (10 ^ n)) = Fin y \<longrightarrow>
        meta_round (Fin v) (Some (int n)) = fl (of_int \<lfloor>y + 1 / 2\<rfloor> / 10 ^ n)
        \<and> (0 \<le> y \<or> frac y \<noteq> 1 / 2 \<longrightarrow>
              meta_round (Fin v) (Some (int n)) = fl (of_int (round_half_away y) / 10 ^ n))
        \<and> (y < 0 \<and> frac y = 1 / 2 \<longrightarrow>
              meta_round (Fin v) (Some (int n)) = fl (of_int (round_half_away y + 1) / 10 ^ n))"
  proof (intro allI impI)
    fix v :: rat and n :: nat and y :: rat
    assume h: "(n = 1 \<or> n = 2) \<and> js_mul (Fin v) (Fin (10 ^ n)) = Fin y"
    then have r: "meta_round (Fin v) (Some (int n)) = fl (of_int \<lfloor>y + 1 / 2\<rfloor> / 10 ^ n)"
      using round_scaled[of n v y] by simp
    show "meta_round (Fin v) (Some (int n)) = fl (of_int \<lfloor>y + 1 / 2\<rfloor> / 10 ^ n)
        \<and> (0 \<le> y \<or> frac y \<noteq> 1 / 2 \<longrightarrow>
              meta_round (Fin v) (Some (int n)) = fl (of_int (round_half_away y) / 10 ^ n))
        \<and> (y < 0 \<and> frac y = 1 / 2 \<longrightarrow>
              meta_round (Fin v) (Some (int n)) = fl (of_int (round_half_away y + 1) / 10 ^ n))"
      using r half_away_eq[of y] half_away_tie[of y] by simp
  qed
  have b: "\<forall>v n w. (n = 1 \<or> n = 2) \<and> js_mul (Fin v) (Fin (10 ^ n)) = w \<and> (w = PInf \<or> w = NInf) \<longrightarrow>
        meta_round (Fin v) (Some (int n)) = w"
    using round_overflow by blast
  show ?thesis using a b round_copies by blast
qed

text \<open>
  The witness is the binary64 value of the literal \<open>0.35\<close>, which lies below \<open>0.35\<close>: its
  product with 10 is rounded to \<open>3.5\<close>, a tie, and the helper returns \<open>0.4\<close>.
\<close>

theorem round_convention_witness:
  "js_mul (Fin (6305039478318694 / 2 ^ 54)) (Fin (10 ^ 1)) = Fin (7 / 2)
   \<and> meta_round (Fin (6305039478318694 / 2 ^ 54)) (Some 1) = fl (2 / 5)"
proof -
  have m: "js_mul (Fin (6305039478318694 / 2 ^ 54)) (Fin (10 ^ 1)) = Fin (7 / 2)"
    using fl_tie[where x = "6305039478318694 / 2 ^ 54 * 10" and q = "- 51"
        and k = 7881299347898367] by simp
  have h: "((1::nat) = 1 \<or> (1::nat) = 2)
      \<and> js_mul (Fin (6305039478318694 / 2 ^ 54)) (Fin (10 ^ 1)) = Fin (7 / 2)"
    using m by simp
  have f: "\<lfloor>7 / 2 + 1 / 2 :: rat\<rfloor> = 4" by linarith
  have "meta_round (Fin (6305039478318694 / 2 ^ 54)) (Some (int 1))
      = fl (of_int \<lfloor>7 / 2 + 1 / 2 :: rat\<rfloor> / 10 ^ 1)"
    by (rule round_convention[THEN conjunct1, rule_format, OF h, THEN conjunct1])
  then have "meta_round (Fin (6305039478318694 / 2 ^ 54)) (Some 1) = fl (2 / 5)"
    unfolding f by simp
  with m show ?thesis by simp
qed

text \<open>
  C5 as stated fails on a negative tie: \<open>round(-0.25, 1)\<close> scales to \<open>-2.5\<close>, which
  \<open>Math.round\<close> takes to \<open>-2\<close>, so the helper returns \<open>-0.2\<close>; half away from zero gives
  \<open>-0.3\<close>.
\<close>

theorem round_convention_counterexample:
  "meta_round (Fin (- 1 / 4)) (Some 1) = Fin (- (7205759403792794 / 2 ^ 55))
   \<and> spec_round (- 1 / 4) 1 = - 3 / 10
   \<and> fl (- 3 / 10) = Fin (- (5404319552844595 / 2 ^ 54))
   \<and> meta_round (Fin (- 1 / 4)) (Some 1) \<noteq> fl (spec_round (- 1 / 4) 1)"
proof -
  have a: "js_mul (Fin (- 1 / 4)) (Fin 10) = Fin (- (5 / 2))"
    using fl_near[where x = "- 1 / 4 * 10" and q = "- 51" and n = 5629499534213120] by simp
  have b: "Math_round (Fin (- (5 / 2))) = Fin (- 2)"
    using Math_round_eval[of "- 2" "- (5 / 2)"] by simp
  have c: "js_div (Fin (- 2)) (Fin 10) = Fin (- (7205759403792794 / 2 ^ 55))"
    using fl_near[where x = "- 2 / 10" and q = "- 55" and n = 7205759403792794] by simp
  have r: "meta_round (Fin (- 1 / 4)) (Some 1) = Fin (- (7205759403792794 / 2 ^ 55))"
    by (simp only: round_unfold a b c)
  have "\<lfloor>5 / 2 + 1 / 2 :: rat\<rfloor> = 3" by linarith
  then have s: "spec_round (- 1 / 4) 1 = - 3 / 10"
    by (simp add: spec_round_def round_half_away_def)
  have t: "fl (- 3 / 10) = Fin (- (5404319552844595 / 2 ^ 54))"
    using fl_near[where x = "- 3 / 10" and q = "- 54" and n = 5404319552844595] by simp
  show ?thesis unfolding r s t by simp
qed


lemma round_core_special:
  assumes "F = 10 \<or> F = 100" "x = NaN \<or> x = PInf \<or> x = NInf"
  shows "js_div (Math_round (js_mul (js_div (Math_round (js_mul x (Fin F))) (Fin F)) (Fin F))) (Fin F)
         = js_div (Math_round (js_mul x (Fin F))) (Fin F)"
  using assms by (auto simp add: signed_inf_def)

lemma round_core_all:
  assumes F: "F = 10 \<or> F = 100"
    and x: "x = NaN \<or> x = PInf \<or> x = NInf \<or> (\<exists>v. x = Fin v \<and> \<bar>v\<bar> \<le> 10000000000000)"
  shows "js_div (Math_round (js_mul (js_div (Math_round (js_mul x (Fin F))) (Fin F)) (Fin F))) (Fin F)
         = js_div (Math_round (js_mul x (Fin F))) (Fin F)"
proof (cases "\<exists>v. x = Fin v")
  case True
  then obtain v where v: "x = Fin v" by blast
  with x have "\<bar>v\<bar> \<le> 10000000000000" by auto
  from round_core_idem[OF F this] show ?thesis unfolding v .
next
  case False
  with x have "x = NaN \<or> x = PInf \<or> x = NInf" by auto
  with F show ?thesis by (rule round_core_special)
qed

text \<open>
  C9, as amended: \<open>round(round(x, n), n) = round(x, n)\<close> for every number \<open>x\<close> of
  magnitude up to \<open>10^13\<close>, for \<open>NaN\<close> and for the infinities, with a decimal count
  \<open>n\<close> of 1 or 2, given or defaulted, in each of the four copies.
\<close>

theorem round_idempotent:
  "(x = NaN \<or> x = PInf \<or> x = NInf \<or> (\<exists>v. x = Fin v \<and> \<bar>v\<bar> \<le> 10000000000000))
   \<and> (n = None \<or> n = Some 1 \<or> n = Some 2) \<longrightarrow>
     meta_round (meta_round x n) n = meta_round x n
     \<and> unbounce_round (unbounce_round x n) n = unbounce_round x n
     \<and> vimeo_round (vimeo_round x n) n = vimeo_round x n
     \<and> kit_round (kit_round x n) n = kit_round x n"
proof
  assume h: "(x = NaN \<or> x = PInf \<or> x = NInf \<or> (\<exists>v. x = Fin v \<and> \<bar>v\<bar> \<le> 10000000000000))
   \<and> (n = None \<or> n = Some 1 \<or> n = Some 2)"
  then have x: "x = NaN \<or> x = PInf \<or> x = NInf \<or> (\<exists>v. x = Fin v \<and> \<bar>v\<bar> \<le> 10000000000000)"
    and n: "n = None \<or> n = Some 1 \<or> n = Some 2" by simp_all
  note c10 = round_core_all[OF _ x, of 10, simplified]
  note c100 = round_core_all[OF _ x, of 100, simplified]
  have m: "meta_round (meta_round x n) n = meta_round x n"
    using n c10 c100 by (auto simp only: round_unfold)
  have u: "unbounce_round (unbounce_round x n) n = unbounce_round x n"
    using n c10 c100 by (auto simp only: round_unfold)
  show "meta_round (meta_round x n) n = meta_round x n
     \<and> unbounce_round (unbounce_round x n) n = unbounce_round x n
     \<and> vimeo_round (vimeo_round x n) n = vimeo_round x n
     \<and> kit_round (kit_round x n) n = kit_round x n"
    using m u by (simp add: round_copies)
qed

theorem round_idempotent_witness:
  "unbounce_round (unbounce_round (Fin (5429683087074132 / 2 ^ 42)) (Some 2)) (Some 2)
     = unbounce_round (Fin (5429683087074132 / 2 ^ 42)) (Some 2)"
proof -
  have "(Fin (5429683087074132 / 2 ^ 42) = NaN \<or> Fin (5429683087074132 / 2 ^ 42) = PInf
        \<or> Fin (5429683087074132 / 2 ^ 42) = NInf
        \<or> (\<exists>v. Fin (5429683087074132 / 2 ^ 42) = Fin v \<and> \<bar>v\<bar> \<le> 10000000000000))
     \<and> (Some (2::int) = None \<or> Some (2::int) = Some 1 \<or> Some (2::int) = Some 2)"
  proof -
    have "\<exists>v. Fin (5429683087074132 / 2 ^ 42) = Fin v \<and> \<bar>v\<bar> \<le> 10000000000000"
      by (rule exI[of _ "5429683087074132 / 2 ^ 42"]) simp
    then show ?thesis by simp
  qed
  from round_idempotent[rule_format, OF this] show ?thesis by simp
qed

text \<open>
  C9 as stated fails for a large value: for \<open>x = 2^45 + 1/8\<close> the product \<open>x * 100\<close> is a
  tie and \<open>round(x, 2)\<close> is \<open>35184372088832.13\<close> (in binary64 a little above it); its
  product with 100 is rounded to the tie \<open>3518437208883213.5\<close>, and the second application
  returns \<open>35184372088832.14\<close>.
\<close>

theorem round_idempotent_counterexample:
  "unbounce_round (Fin (2 ^ 45 + 1 / 8)) (Some 2) = Fin (4503599627370513 / 2 ^ 7)
   \<and> unbounce_round (unbounce_round (Fin (2 ^ 45 + 1 / 8)) (Some 2)) (Some 2)
        = Fin (4503599627370514 / 2 ^ 7)
   \<and> unbounce_round (unbounce_round (Fin (2 ^ 45 + 1 / 8)) (Some 2)) (Some 2)
        \<noteq> unbounce_round (Fin (2 ^ 45 + 1 / 8)) (Some 2)"
proof -
  have a: "js_mul (Fin (2 ^ 45 + 1 / 8)) (Fin 100) = Fin (7036874417766425 / 2)"
    using fl_near[where x = "(2 ^ 45 + 1 / 8) * 100" and q = "- 1" and n = 7036874417766425]
    by simp
  have b: "Math_round (Fin (7036874417766425 / 2)) = Fin 3518437208883213"
    using Math_round_eval[of 3518437208883213 "7036874417766425 / 2"] by simp
  have c: "js_div (Fin 3518437208883213) (Fin 100) = Fin (4503599627370513 / 2 ^ 7)"
    using fl_near[where x = "3518437208883213 / 100" and q = "- 7" and n = 4503599627370513]
    by simp
  have d: "js_mul (Fin (4503599627370513 / 2 ^ 7)) (Fin 100) = Fin (7036874417766427 / 2)"
    using fl_near[where x = "4503599627370513 / 2 ^ 7 * 100" and q = "- 1"
        and n = 7036874417766427] by simp
  have e: "Math_round (Fin (7036874417766427 / 2)) = Fin 3518437208883214"
    using Math_round_eval[of 3518437208883214 "7036874417766427 / 2"] by simp
  have f: "js_div (Fin 3518437208883214) (Fin 100) = Fin (4503599627370514 / 2 ^ 7)"
    using fl_near[where x = "3518437208883214 / 100" and q = "- 7" and n = 4503599627370514]
    by simp
  have r1: "unbounce_round (Fin (2 ^ 45 + 1 / 8)) (Some 2) = Fin (4503599627370513 / 2 ^ 7)"
    by (simp only: round_unfold a b c)
  have r2: "unbounce_round (unbounce_round (Fin (2 ^ 45 + 1 / 8)) (Some 2)) (Some 2)
        = Fin (4503599627370514 / 2 ^ 7)"
    unfolding r1 by (simp only: round_unfold d e f)
  have ne: "unbounce_round (unbounce_round (Fin (2 ^ 45 + 1 / 8)) (Some 2)) (Some 2)
        \<noteq> unbounce_round (Fin (2 ^ 45 + 1 / 8)) (Some 2)"
    by (subst r2, subst r1) simp
  show ?thesis by (intro conjI r1 r2 ne)
qed

section \<open>Properties of \<open>parseAnalytics\<close>\<close>

lemma vimeo_round_1:
  "vimeo_round v (Some 1) = js_div (Math_round (js_mul v (Fin 10))) (Fin 10)"
  by (simp add: vimeo_round_def Math_pow10_1 Let_def del: js_mul.simps js_div.simps)

lemma rate_closed_form:
  assumes "js_mul (js_mul (js_div (Fin p) (Fin i)) (Fin 100)) (Fin 10) = Fin y"
  shows "vimeo_round (js_mul (js_div (Fin p) (Fin i)) (Fin 100)) (Some 1)
           = fl (of_int \<lfloor>y + 1 / 2\<rfloor> / 10)"
  unfolding vimeo_round_1 assms by simp

text \<open>
  C10, as amended: for every response \<open>res\<close> that is not \<open>null\<close>, \<open>parseAnalytics\<close>
  returns a record (it does not throw). With \<open>row = res.data?.[0] ?? res\<close>: \<open>playRate\<close> is
  \<open>null\<close> when \<open>row.impressions\<close> is absent, \<open>null\<close>, zero or negative (whenever
  \<open>row.impressions > 0\<close> is false), and otherwise it is
  \<open>round((row.plays / row.impressions) * 100, 1)\<close> in binary64 arithmetic, that is the
  binary64 value nearest to \<open>\<lfloor>y + 1/2\<rfloor> / 10\<close> for the binary64 result \<open>y\<close> of
  \<open>plays / impressions * 100 * 10\<close>; \<open>finishRate\<close> is \<open>null\<close> when \<open>row.plays\<close> is absent,
  \<open>null\<close>, zero or negative, and otherwise it is \<open>round((row.finishes / row.plays) * 100, 1)\<close>.
  Whenever a rate is not \<open>null\<close> its divisor is not zero.
\<close>

theorem parseAnalytics_guarded:
  "\<exists>a. parseAnalytics (Some res) = Inr a
     \<and> (row_impressions (first_row res) = Undefined \<or> row_impressions (first_row res) = Null
          \<or> (\<exists>i. row_impressions (first_row res) = Num (Fin i) \<and> i \<le> 0)
        \<longrightarrow> playRate a = Null)
     \<and> (\<not> metric_gt (row_impressions (first_row res)) (Num (Fin 0)) \<longrightarrow> playRate a = Null)
     \<and> (\<not> metric_gt (row_plays (first_row res)) (Num (Fin 0)) \<longrightarrow> finishRate a = Null)
     \<and> (metric_gt (row_impressions (first_row res)) (Num (Fin 0)) \<longrightarrow>
          playRate a = Num (vimeo_round
            (js_mul (js_div (to_number (row_plays (first_row res)))
                            (to_number (row_impressions (first_row res)))) (Fin 100)) (Some 1)))
     \<and> (\<forall>i p y. row_impressions (first_row res) = Num (Fin i) \<and> 0 < i
               \<and> row_plays (first_row res) = Num (Fin p)
               \<and> js_mul (js_mul (js_div (Fin p) (Fin i)) (Fin 100)) (Fin 10) = Fin y \<longrightarrow>
          playRate a = Num (fl (of_int \<lfloor>y + 1 / 2\<rfloor> / 10)))
     \<and> (row_plays (first_row res) = Undefined \<or> row_plays (first_row res) = Null
          \<or> (\<exists>p. row_plays (first_row res) = Num (Fin p) \<and> p \<le> 0)
        \<longrightarrow> finishRate a = Null)
     \<and> (metric_gt (row_plays (first_row res)) (Num (Fin 0)) \<longrightarrow>
          finishRate a = Num (vimeo_round
            (js_mul (js_div (to_number (row_finishes (first_row res)))
                            (to_number (row_plays (first_row res)))) (Fin 100)) (Some 1)))
     \<and> (\<forall>p f y. row_plays (first_row res) = Num (Fin p) \<and> 0 < p
               \<and> row_finishes (first_row res) = Num (Fin f)
               \<and> js_mul (js_mul (js_div (Fin f) (Fin p)) (Fin 100)) (Fin 10) = Fin y \<longrightarrow>
          finishRate a = Num (fl (of_int \<lfloor>y + 1 / 2\<rfloor> / 10)))
     \<and> (playRate a \<noteq> Null \<longrightarrow> to_number (row_impressions (first_row res)) \<noteq> Fin 0)
     \<and> (finishRate a \<noteq> Null \<longrightarrow> to_number (row_plays (first_row res)) \<noteq> Fin 0)"
  by (auto simp add: parseAnalytics_def Let_def gt_zero_iff rate_closed_form
      simp del: js_mul.simps js_div.simps)

text \<open>
  The witness is a row with 23 plays, 80 impressions and 5 finishes: the play rate is
  \<open>28.7\<close> (the binary64 product \<open>0.2875 * 100\<close> lies below \<open>28.75\<close>) and the finish rate
  \<open>21.7\<close>.
\<close>

theorem parseAnalytics_guarded_witness:
  "\<exists>a. parseAnalytics (Some \<lparr> row_plays = Num (Fin 23), row_finishes = Num (Fin 5),
            row_impressions = Num (Fin 80), row_watch_time = Num (Fin 600), res_data = None \<rparr>) = Inr a
       \<and> playRate a = Num (fl (287 / 10)) \<and> finishRate a = Num (fl (217 / 10))"
proof -
  define r where "r = \<lparr> row_plays = Num (Fin 23), row_finishes = Num (Fin 5),
            row_impressions = Num (Fin 80), row_watch_time = Num (Fin 600), res_data = None \<rparr>"
  have row: "row_impressions (first_row r) = Num (Fin 80)" "row_plays (first_row r) = Num (Fin 23)"
    "row_finishes (first_row r) = Num (Fin 5)"
    by (simp_all add: r_def first_row_def vrow.truncate_def)
  have p1: "js_div (Fin 23) (Fin 80) = Fin (5179139571476070 / 2 ^ 54)"
    using fl_near[where x = "23 / 80" and q = "- 54" and n = 5179139571476070] by simp
  have p2: "js_mul (Fin (5179139571476070 / 2 ^ 54)) (Fin 100) = Fin (8092405580431359 / 2 ^ 48)"
    using fl_near[where x = "5179139571476070 / 2 ^ 54 * 100" and q = "- 48"
        and n = 8092405580431359] by simp
  have p3: "js_mul (Fin (8092405580431359 / 2 ^ 48)) (Fin 10) = Fin (5057753487769599 / 2 ^ 44)"
    using fl_near[where x = "8092405580431359 / 2 ^ 48 * 10" and q = "- 44"
        and n = 5057753487769599] by simp
  have py: "js_mul (js_mul (js_div (Fin 23) (Fin 80)) (Fin 100)) (Fin 10)
      = Fin (5057753487769599 / 2 ^ 44)"
    by (simp only: p1 p2 p3)
  have pf: "\<lfloor>5057753487769599 / 2 ^ 44 + 1 / 2 :: rat\<rfloor> = 287" by (simp; linarith)
  have f1: "js_div (Fin 5) (Fin 23) = Fin (7832347178035645 / 2 ^ 55)"
    using fl_near[where x = "5 / 23" and q = "- 55" and n = 7832347178035645] by simp
  have f2: "js_mul (Fin (7832347178035645 / 2 ^ 55)) (Fin 100) = Fin (6119021232840348 / 2 ^ 48)"
    using fl_near[where x = "7832347178035645 / 2 ^ 55 * 100" and q = "- 48"
        and n = 6119021232840348] by simp
  have f3: "js_mul (Fin (6119021232840348 / 2 ^ 48)) (Fin 10) = Fin (7648776541050435 / 2 ^ 45)"
    using fl_near[where x = "6119021232840348 / 2 ^ 48 * 10" and q = "- 45"
        and n = 7648776541050435] by simp
  have fy: "js_mul (js_mul (js_div (Fin 5) (Fin 23)) (Fin 100)) (Fin 10)
      = Fin (7648776541050435 / 2 ^ 45)"
    by (simp only: f1 f2 f3)
  have ff: "\<lfloor>7648776541050435 / 2 ^ 45 + 1 / 2 :: rat\<rfloor> = 217" by (simp; linarith)
  from parseAnalytics_guarded[of r] obtain a where a: "parseAnalytics (Some r) = Inr a"
    and pr: "\<forall>i p y. row_impressions (first_row r) = Num (Fin i) \<and> 0 < i
               \<and> row_plays (first_row r) = Num (Fin p)
               \<and> js_mul (js_mul (js_div (Fin p) (Fin i)) (Fin 100)) (Fin 10) = Fin y \<longrightarrow>
          playRate a = Num (fl (of_int \<lfloor>y + 1 / 2\<rfloor> / 10))"
    and fr: "\<forall>p f y. row_plays (first_row r) = Num (Fin p) \<and> 0 < p
               \<and> row_finishes (first_row r) = Num (Fin f)
               \<and> js_mul (js_mul (js_div (Fin f) (Fin p)) (Fin 100)) (Fin 10) = Fin y \<longrightarrow>
          finishRate a = Num (fl (of_int \<lfloor>y + 1 / 2\<rfloor> / 10))"
    by blast
  have "playRate a = Num (fl (of_int \<lfloor>5057753487769599 / 2 ^ 44 + 1 / 2 :: rat\<rfloor> / 10))"
    by (rule pr[rule_format, of 80 23]) (simp add: row py del: js_mul.simps js_div.simps)
  then have 1: "playRate a = Num (fl (287 / 10))" unfolding pf by simp
  have "finishRate a = Num (fl (of_int \<lfloor>7648776541050435 / 2 ^ 45 + 1 / 2 :: rat\<rfloor> / 10))"
    by (rule fr[rule_format, of 23 5]) (simp add: row fy del: js_mul.simps js_div.simps)
  then have 2: "finishRate a = Num (fl (217 / 10))" unfolding ff by simp
  show ?thesis using a 1 2 unfolding r_def by blast
qed

text \<open>
  C10 as stated fails for a response body that is \<open>null\<close>: \<open>vimeoGet\<close> returns what
  \<open>res.json()\<close> gives, \<open>res.data\<close> is read without a guard, and \<open>parseAnalytics(null)\<close>
  throws a TypeError. \<open>fetchVimeoData\<close> calls \<open>parseAnalytics\<close> inside the per-video
  \<open>try\<close>, which turns the error into the video's \<open>error\<close> field.
\<close>

theorem parseAnalytics_guarded_counterexample:
  "parseAnalytics None = Inl (TypeError ''Cannot read properties of null (reading 'data')'')"
  by (simp add: parseAnalytics_def)

section \<open>Properties of the selections\<close>

lemma gt_fin_iff:
  "0 \<le> k \<Longrightarrow>
   metric_gt m (Num (Fin k)) \<longleftrightarrow> m = Num PInf \<or> (\<exists>x. m = Num (Fin x) \<and> k < x)"
  by (cases m rule: to_number.cases) (auto simp add: metric_gt_def js_gt_def elim: js_lt.elims)

lemma lt_fin_fin: "metric_lt (Num (Fin r)) (Num (Fin a)) \<longleftrightarrow> r < a"
  by (simp add: metric_lt_def)

lemma avgConvRate_skip:
  "\<not> truthy (thisWeek_conversionRate p) \<Longrightarrow> avgConvRate (p # ps) = avgConvRate ps"
  by (simp add: avgConvRate_def publishedPages_def)

lemma avgFinishRate_skip:
  "\<not> truthy (thisWeek_finishRate v) \<Longrightarrow> avgFinishRate (v # vs) = avgFinishRate vs"
  by (simp add: avgFinishRate_def validVideos_def)

text \<open>
  C4, as amended: Unbounce's \<open>problemPages\<close> holds exactly the published pages with more
  than 50 visitors and a conversion rate below 0.5 times the average, and Vimeo's
  \<open>lowFinishRateVideos\<close> exactly the valid videos with more than 10 plays and a finish
  rate below 0.7 times the average, where the average is that of the non-zero rates of the
  published pages (of the valid videos), a rate of 0, \<open>null\<close> or \<open>undefined\<close> being left
  out, and average and product are the binary64 ones. A page or video at or below the
  volume floor is not flagged, and one whose rate is at or above that product is not
  flagged. Meta's \<open>underperforming\<close> holds the campaigns that satisfy either of two tests: a
  cost per lead above 1.5 times the account's cost per lead (both non-zero), with no volume
  floor, or a click-through rate below 0.5 together with a spend above 50.
\<close>

theorem selection_rules:
  "(p \<in> set (problemPages ps) \<longleftrightarrow>
      p \<in> set (publishedPages ps)
      \<and> metric_gt (thisWeek_visitors p) (Num (Fin 50))
      \<and> metric_lt (thisWeek_conversionRate p) (Num (js_mul (avgConvRate ps) (Fin (1 / 2)))))
   \<and> (\<forall>n. thisWeek_visitors p = Num (Fin n) \<and> n \<le> 50 \<longrightarrow> p \<notin> set (problemPages ps))
   \<and> (\<forall>r t. thisWeek_conversionRate p = Num (Fin r)
          \<and> js_mul (avgConvRate ps) (Fin (1 / 2)) = Fin t \<and> t \<le> r
         \<longrightarrow> p \<notin> set (problemPages ps))
   \<and> avgConvRate ps
        = unbounce_avg (filter truthy (map thisWeek_conversionRate (publishedPages ps)))
   \<and> (\<not> truthy (thisWeek_conversionRate p) \<longrightarrow> avgConvRate (p # ps) = avgConvRate ps)
   \<and> (v \<in> set (lowFinishRate vs) \<longleftrightarrow>
      v \<in> set (validVideos vs)
      \<and> metric_gt (thisWeek_plays v) (Num (Fin 10))
      \<and> metric_lt (thisWeek_finishRate v) (Num (js_mul (avgFinishRate vs) (fl (7 / 10)))))
   \<and> (\<forall>n. thisWeek_plays v = Num (Fin n) \<and> n \<le> 10 \<longrightarrow> v \<notin> set (lowFinishRate vs))
   \<and> (\<forall>r t. thisWeek_finishRate v = Num (Fin r)
          \<and> js_mul (avgFinishRate vs) (fl (7 / 10)) = Fin t \<and> t \<le> r
         \<longrightarrow> v \<notin> set (lowFinishRate vs))
   \<and> avgFinishRate vs
        = vimeo_avg (filter truthy (map thisWeek_finishRate (validVideos vs)))
   \<and> (\<not> truthy (thisWeek_finishRate v) \<longrightarrow> avgFinishRate (v # vs) = avgFinishRate vs)
   \<and> (c \<in> set (underperforming avgCPL cs) \<longleftrightarrow>
      c \<in> set cs
      \<and> ((truthy avgCPL \<and> truthy (costPerLead c)
           \<and> metric_gt (costPerLead c) (Num (js_mul (to_number avgCPL) (Fin (3 / 2)))))
          \<or> (metric_lt (ctr c) (Num (Fin (1 / 2))) \<and> metric_gt (spend c) (Num (Fin 50)))))
   \<and> (\<forall>a l t. c \<in> set cs \<and> avgCPL = Num (Fin a) \<and> a \<noteq> 0 \<and> costPerLead c = Num (Fin l)
          \<and> l \<noteq> 0 \<and> js_mul (Fin a) (Fin (3 / 2)) = Fin t \<and> t < l
         \<longrightarrow> c \<in> set (underperforming avgCPL cs))"
proof -
  have u: "p \<in> set (problemPages ps) \<longleftrightarrow>
      p \<in> set (publishedPages ps)
      \<and> metric_gt (thisWeek_visitors p) (Num (Fin 50))
      \<and> metric_lt (thisWeek_conversionRate p) (Num (js_mul (avgConvRate ps) (Fin (1 / 2))))"
    by (simp add: problemPages_def)
  have u1: "\<forall>n. thisWeek_visitors p = Num (Fin n) \<and> n \<le> 50 \<longrightarrow> p \<notin> set (problemPages ps)"
    by (auto simp add: u gt_fin_iff)
  have u2: "\<forall>r t. thisWeek_conversionRate p = Num (Fin r)
          \<and> js_mul (avgConvRate ps) (Fin (1 / 2)) = Fin t \<and> t \<le> r
         \<longrightarrow> p \<notin> set (problemPages ps)"
    by (auto simp add: u lt_fin_fin)
  have u3: "avgConvRate ps
        = unbounce_avg (filter truthy (map thisWeek_conversionRate (publishedPages ps)))"
    by (simp add: avgConvRate_def)
  have w: "v \<in> set (lowFinishRate vs) \<longleftrightarrow>
      v \<in> set (validVideos vs)
      \<and> metric_gt (thisWeek_plays v) (Num (Fin 10))
      \<and> metric_lt (thisWeek_finishRate v) (Num (js_mul (avgFinishRate vs) (fl (7 / 10))))"
    by (simp add: lowFinishRate_def)
  have w1: "\<forall>n. thisWeek_plays v = Num (Fin n) \<and> n \<le> 10 \<longrightarrow> v \<notin> set (lowFinishRate vs)"
    by (auto simp add: w gt_fin_iff)
  have w2: "\<forall>r t. thisWeek_finishRate v = Num (Fin r)
          \<and> js_mul (avgFinishRate vs) (fl (7 / 10)) = Fin t \<and> t \<le> r
         \<longrightarrow> v \<notin> set (lowFinishRate vs)"
    by (auto simp add: w lt_fin_fin)
  have w3: "avgFinishRate vs
        = vimeo_avg (filter truthy (map thisWeek_finishRate (validVideos vs)))"
    by (simp add: avgFinishRate_def)
  have m: "c \<in> set (underperforming avgCPL cs) \<longleftrightarrow>
      c \<in> set cs
      \<and> ((truthy avgCPL \<and> truthy (costPerLead c)
           \<and> metric_gt (costPerLead c) (Num (js_mul (to_number avgCPL) (Fin (3 / 2)))))
          \<or> (metric_lt (ctr c) (Num (Fin (1 / 2))) \<and> metric_gt (spend c) (Num (Fin 50))))"
    by (simp add: underperforming_def)
  have m1: "\<forall>a l t. c \<in> set cs \<and> avgCPL = Num (Fin a) \<and> a \<noteq> 0 \<and> costPerLead c = Num (Fin l)
          \<and> l \<noteq> 0 \<and> js_mul (Fin a) (Fin (3 / 2)) = Fin t \<and> t < l
         \<longrightarrow> c \<in> set (underperforming avgCPL cs)"
    by (auto simp add: underperforming_def metric_gt_def js_gt_def simp del: js_mul.simps)
  show ?thesis
    using u u1 u2 u3 avgConvRate_skip[of p ps] w w1 w2 w3 avgFinishRate_skip[of v vs] m m1
    by blast
qed

text \<open>
  The witness: five published pages with the rates 10, 1, 4, 1 and 0, whose average over
  the non-zero rates is 4. The pages \<open>D\<close> (80 visitors, rate 1) and \<open>E\<close> (500 visitors,
  rate 0) are flagged; \<open>B\<close> has a rate of 1 but only 30 visitors, and \<open>C\<close> has 100
  visitors but a rate of 4. Three videos with the finish rates \<open>5.6\<close>, \<open>16.1\<close> and \<open>2.3\<close>:
  their binary64 average is just above 8 and 0.7 times it just above \<open>5.6\<close>, so the first
  video is flagged; the second has the rate \<open>16.1\<close>, the third only 8 plays. A campaign with
  a cost per lead of \<open>1.05\<close> in an account with \<open>0.7\<close>: the binary64 product \<open>0.7 * 1.5\<close>
  lies below \<open>1.05\<close>, so the campaign is flagged.
\<close>

theorem selection_rules_witness:
  "(let A = \<lparr> pageId = ''a'', pageName = ''Home'', url = ''/a'', state = ''published'',
        p_thisWeek = Some \<lparr> visitors = Num (Fin 200), conversions = Num (Fin 0),
                             conversionRate = Num (Fin 10) \<rparr>,
        p_lastWeek = None, conversionDelta = Null, visitorsDelta = Null, p_error = None \<rparr>;
        B = \<lparr> pageId = ''b'', pageName = ''Webinar'', url = ''/b'', state = ''published'',
        p_thisWeek = Some \<lparr> visitors = Num (Fin 30), conversions = Num (Fin 0),
                             conversionRate = Num (Fin 1) \<rparr>,
        p_lastWeek = None, conversionDelta = Null, visitorsDelta = Null, p_error = None \<rparr>;
        C = \<lparr> pageId = ''c'', pageName = ''Guide'', url = ''/c'', state = ''published'',
        p_thisWeek = Some \<lparr> visitors = Num (Fin 100), conversions = Num (Fin 0),
                             conversionRate = Num (Fin 4) \<rparr>,
        p_lastWeek = None, conversionDelta = Null, visitorsDelta = Null, p_error = None \<rparr>;
        D = \<lparr> pageId = ''d'', pageName = ''Pricing'', url = ''/d'', state = ''published'',
        p_thisWeek = Some \<lparr> visitors = Num (Fin 80), conversions = Num (Fin 0),
                             conversionRate = Num (Fin 1) \<rparr>,
        p_lastWeek = None, conversionDelta = Null, visitorsDelta = Null, p_error = None \<rparr>;
        E = \<lparr> pageId = ''e'', pageName = ''Quiz'', url = ''/e'', state = ''published'',
        p_thisWeek = Some \<lparr> visitors = Num (Fin 500), conversions = Num (Fin 0),
                             conversionRate = Num (Fin 0) \<rparr>,
        p_lastWeek = None, conversionDelta = Null, visitorsDelta = Null, p_error = None \<rparr>;
        V21 = \<lparr> v_id = ''21'', v_uri = ''/videos/21'', v_title = ''Intro'', v_duration = Num (Fin 120),
        v_totalPlays = Num (Fin 900), v_createdAt = ''2026-01-05'',
        thisWeek = Some \<lparr> plays = Num (Fin 50), finishes = Num (Fin 1), impressions = Num (Fin 400),
                           watchMinutes = Num (Fin 30), playRate = Null,
                           finishRate = Num (Fin (3152519739159347 / 562949953421312)) \<rparr>,
        lastWeek = None, playsDelta = Null, finishRateDelta = Null, engagement = JNull,
        v_error = None \<rparr>;
        V22 = \<lparr> v_id = ''22'', v_uri = ''/videos/22'', v_title = ''Demo'', v_duration = Num (Fin 120),
        v_totalPlays = Num (Fin 900), v_createdAt = ''2026-01-05'',
        thisWeek = Some \<lparr> plays = Num (Fin 40), finishes = Num (Fin 1), impressions = Num (Fin 400),
                           watchMinutes = Num (Fin 30), playRate = Null,
                           finishRate = Num (Fin (2265873562520781 / 140737488355328)) \<rparr>,
        lastWeek = None, playsDelta = Null, finishRateDelta = Null, engagement = JNull,
        v_error = None \<rparr>;
        V23 = \<lparr> v_id = ''23'', v_uri = ''/videos/23'', v_title = ''Offer'', v_duration = Num (Fin 120),
        v_totalPlays = Num (Fin 900), v_createdAt = ''2026-01-05'',
        thisWeek = Some \<lparr> plays = Num (Fin 8), finishes = Num (Fin 1), impressions = Num (Fin 400),
                           watchMinutes = Num (Fin 30), playRate = Null,
                           finishRate = Num (Fin (2589569785738035 / 1125899906842624)) \<rparr>,
        lastWeek = None, playsDelta = Null, finishRateDelta = Null, engagement = JNull,
        v_error = None \<rparr>;
        Edge = \<lparr> campaignName = ''Edge'', spend = Num (Fin 10), c_impressions = Num (Fin 400),
        reach = Num (Fin 300), clicks = Num (Fin 8), ctr = Num (Fin 2), cpm = Num (Fin 25),
        cpc = Num (Fin (5 / 4)), leads = Num (Fin 4),
        costPerLead = Num (Fin (4728779608739021 / 4503599627370496)), linkClicks = Num (Fin 8) \<rparr>
    in avgConvRate [A, B, C, D, E] = Fin 4
       \<and> D \<in> set (problemPages [A, B, C, D, E])
       \<and> E \<in> set (problemPages [A, B, C, D, E])
       \<and> B \<notin> set (problemPages [A, B, C, D, E])
       \<and> C \<notin> set (problemPages [A, B, C, D, E])
       \<and> fl (28 / 5) = Fin (3152519739159347 / 562949953421312)
       \<and> avgFinishRate [V21, V22, V23] = Fin (4503599627370497 / 562949953421312)
       \<and> V21 \<in> set (lowFinishRate [V21, V22, V23])
       \<and> V22 \<notin> set (lowFinishRate [V21, V22, V23])
       \<and> V23 \<notin> set (lowFinishRate [V21, V22, V23])
       \<and> Edge \<in> set (underperforming (Num (Fin (3152519739159347 / 4503599627370496))) [Edge]))"
proof -
  let ?A = "\<lparr> pageId = ''a'', pageName = ''Home'', url = ''/a'', state = ''published'',
        p_thisWeek = Some \<lparr> visitors = Num (Fin 200), conversions = Num (Fin 0),
                             conversionRate = Num (Fin 10) \<rparr>,
        p_lastWeek = None, conversionDelta = Null, visitorsDelta = Null, p_error = None \<rparr>"
  let ?B = "\<lparr> pageId = ''b'', pageName = ''Webinar'', url = ''/b'', state = ''published'',
        p_thisWeek = Some \<lparr> visitors = Num (Fin 30), conversions = Num (Fin 0),
                             conversionRate = Num (Fin 1) \<rparr>,
        p_lastWeek = None, conversionDelta = Null, visitorsDelta = Null, p_error = None \<rparr>"
  let ?C = "\<lparr> pageId = ''c'', pageName = ''Guide'', url = ''/c'', state = ''published'',
        p_thisWeek = Some \<lparr> visitors = Num (Fin 100), conversions = Num (Fin 0),
                             conversionRate = Num (Fin 4) \<rparr>,
        p_lastWeek = None, conversionDelta = Null, visitorsDelta = Null, p_error = None \<rparr>"
  let ?D = "\<lparr> pageId = ''d'', pageName = ''Pricing'', url = ''/d'', state = ''published'',
        p_thisWeek = Some \<lparr> visitors = Num (Fin 80), conversions = Num (Fin 0),
                             conversionRate = Num (Fin 1) \<rparr>,
        p_lastWeek = None, conversionDelta = Null, visitorsDelta = Null, p_error = None \<rparr>"
  let ?E = "\<lparr> pageId = ''e'', pageName = ''Quiz'', url = ''/e'', state = ''published'',
        p_thisWeek = Some \<lparr> visitors = Num (Fin 500), conversions = Num (Fin 0),
                             conversionRate = Num (Fin 0) \<rparr>,
        p_lastWeek = None, conversionDelta = Null, visitorsDelta = Null, p_error = None \<rparr>"
  let ?ps = "[?A, ?B, ?C, ?D, ?E]"
  let ?V21 = "\<lparr> v_id = ''21'', v_uri = ''/videos/21'', v_title = ''Intro'', v_duration = Num (Fin 120),
        v_totalPlays = Num (Fin 900), v_createdAt = ''2026-01-05'',
        thisWeek = Some \<lparr> plays = Num (Fin 50), finishes = Num (Fin 1), impressions = Num (Fin 400),
                           watchMinutes = Num (Fin 30), playRate = Null,
                           finishRate = Num (Fin (3152519739159347 / 562949953421312)) \<rparr>,
        lastWeek = None, playsDelta = Null, finishRateDelta = Null, engagement = JNull,
        v_error = None \<rparr>"
  let ?V22 = "\<lparr> v_id = ''22'', v_uri = ''/videos/22'', v_title = ''Demo'', v_duration = Num (Fin 120),
        v_totalPlays = Num (Fin 900), v_createdAt = ''2026-01-05'',
        thisWeek = Some \<lparr> plays = Num (Fin 40), finishes = Num (Fin 1), impressions = Num (Fin 400),
                           watchMinutes = Num (Fin 30), playRate = Null,
                           finishRate = Num (Fin (2265873562520781 / 140737488355328)) \<rparr>,
        lastWeek = None, playsDelta = Null, finishRateDelta = Null, engagement = JNull,
        v_error = None \<rparr>"
  let ?V23 = "\<lparr> v_id = ''23'', v_uri = ''/videos/23'', v_title = ''Offer'', v_duration = Num (Fin 120),
        v_totalPlays = Num (Fin 900), v_createdAt = ''2026-01-05'',
        thisWeek = Some \<lparr> plays = Num (Fin 8), finishes = Num (Fin 1), impressions = Num (Fin 400),
                           watchMinutes = Num (Fin 30), playRate = Null,
                           finishRate = Num (Fin (2589569785738035 / 1125899906842624)) \<rparr>,
        lastWeek = None, playsDelta = Null, finishRateDelta = Null, engagement = JNull,
        v_error = None \<rparr>"
  let ?vs = "[?V21, ?V22, ?V23]"
  let ?Edge = "\<lparr> campaignName = ''Edge'', spend = Num (Fin 10), c_impressions = Num (Fin 400),
        reach = Num (Fin 300), clicks = Num (Fin 8), ctr = Num (Fin 2), cpm = Num (Fin 25),
        cpc = Num (Fin (5 / 4)), leads = Num (Fin 4),
        costPerLead = Num (Fin (4728779608739021 / 4503599627370496)), linkClicks = Num (Fin 8) \<rparr>"
  let ?cpl = "Num (Fin (3152519739159347 / 4503599627370496))"
  have pub: "publishedPages ?ps = ?ps" by (simp add: publishedPages_def truthy_str_def)
  have avg: "avgConvRate ?ps = Fin 4"
    by (simp add: selection_rules[where ps = ?ps, THEN conjunct2, THEN conjunct2,
          THEN conjunct2, THEN conjunct1] pub unbounce_avg_def thisWeek_conversionRate_def fl_Ints)
  have half: "js_mul (avgConvRate ?ps) (Fin (1 / 2)) = Fin 2" by (simp add: avg fl_Ints)
  have d: "?D \<in> set (problemPages ?ps)"
    unfolding selection_rules[where p = ?D and ps = ?ps, THEN conjunct1] half pub
    by (simp add: thisWeek_visitors_def thisWeek_conversionRate_def metric_gt_def metric_lt_def js_gt_def)
  have e: "?E \<in> set (problemPages ?ps)"
    unfolding selection_rules[where p = ?E and ps = ?ps, THEN conjunct1] half pub
    by (simp add: thisWeek_visitors_def thisWeek_conversionRate_def metric_gt_def metric_lt_def js_gt_def)
  have b: "?B \<notin> set (problemPages ?ps)"
    by (rule selection_rules[where p = ?B and ps = ?ps, THEN conjunct2, THEN conjunct1,
          rule_format, of 30]) (simp add: thisWeek_visitors_def)
  have c: "?C \<notin> set (problemPages ?ps)"
    by (rule selection_rules[where p = ?C and ps = ?ps, THEN conjunct2, THEN conjunct2,
          THEN conjunct1, rule_format, of 4 2])
       (simp add: thisWeek_conversionRate_def half del: js_mul.simps)
  have l56: "fl (28 / 5) = Fin (3152519739159347 / 562949953421312)"
    using fl_near[where x = "28 / 5" and q = "- 50" and n = 6305039478318694] by simp
  have s1: "js_add (Fin 0) (Fin (3152519739159347 / 562949953421312)) = Fin (3152519739159347 / 562949953421312)"
    using fl_near[where x = "3152519739159347 / 562949953421312" and q = "- 50" and n = 6305039478318694] by simp
  have s2: "js_add (Fin (3152519739159347 / 562949953421312)) (Fin (2265873562520781 / 140737488355328)) = Fin (1527001748655309 / 70368744177664)"
    using fl_tie[where x = "12216013989242471 / 562949953421312" and q = "- 48" and k = 6108006994621235] by simp
  have s3: "js_add (Fin (1527001748655309 / 70368744177664)) (Fin (2589569785738035 / 1125899906842624)) = Fin (6755399441055745 / 281474976710656)"
    using fl_near[where x = "27021597764222979 / 1125899906842624" and q = "- 48" and n = 6755399441055745] by simp
  have s4: "js_div (Fin (6755399441055745 / 281474976710656)) (Fin 3) = Fin (4503599627370497 / 562949953421312)"
    using fl_near[where x = "6755399441055745 / 844424930131968" and q = "- 49" and n = 4503599627370497] by simp
  have l07: "fl (7 / 10) = Fin (3152519739159347 / 4503599627370496)"
    using fl_near[where x = "7 / 10" and q = "- 53" and n = 6305039478318694] by simp
  have s5: "js_mul (Fin (4503599627370497 / 562949953421312)) (Fin (3152519739159347 / 4503599627370496)) = Fin (6305039478318695 / 1125899906842624)"
    using fl_near[where x = "14197686722556171548562889585459 / 2535301200456458802993406410752" and q = "- 50" and n = 6305039478318695] by simp
  have valid: "validVideos ?vs = ?vs" by (simp add: validVideos_def truthy_str_def)
  have rates: "map thisWeek_finishRate ?vs =
      [Num (Fin (3152519739159347 / 562949953421312)), Num (Fin (2265873562520781 / 140737488355328)),
       Num (Fin (2589569785738035 / 1125899906842624))]"
    by (simp add: thisWeek_finishRate_def)
  have vavg: "avgFinishRate ?vs = Fin (4503599627370497 / 562949953421312)"
    unfolding selection_rules[where vs = ?vs, THEN conjunct2, THEN conjunct2, THEN conjunct2,
          THEN conjunct2, THEN conjunct2, THEN conjunct2, THEN conjunct2, THEN conjunct2,
          THEN conjunct1] valid rates
    by (simp add: vimeo_avg_def isNaN_def s1 s2 s3 s4 del: js_add.simps js_div.simps)
  have th: "js_mul (avgFinishRate ?vs) (fl (7 / 10)) = Fin (6305039478318695 / 1125899906842624)"
    unfolding vavg l07 by (rule s5)
  have v21: "?V21 \<in> set (lowFinishRate ?vs)"
    unfolding selection_rules[where v = ?V21 and vs = ?vs, THEN conjunct2, THEN conjunct2,
          THEN conjunct2, THEN conjunct2, THEN conjunct2, THEN conjunct1] th valid
    by (simp add: thisWeek_plays_def thisWeek_finishRate_def metric_gt_def metric_lt_def js_gt_def)
  have v22: "?V22 \<notin> set (lowFinishRate ?vs)"
    by (rule selection_rules[where v = ?V22 and vs = ?vs, THEN conjunct2, THEN conjunct2,
          THEN conjunct2, THEN conjunct2, THEN conjunct2, THEN conjunct2, THEN conjunct2,
          THEN conjunct1, rule_format,
          of "2265873562520781 / 140737488355328" "6305039478318695 / 1125899906842624"])
       (simp add: thisWeek_finishRate_def th del: js_mul.simps)
  have v23: "?V23 \<notin> set (lowFinishRate ?vs)"
    by (rule selection_rules[where v = ?V23 and vs = ?vs, THEN conjunct2, THEN conjunct2,
          THEN conjunct2, THEN conjunct2, THEN conjunct2, THEN conjunct2, THEN conjunct1,
          rule_format, of 8])
       (simp add: thisWeek_plays_def)
  have m1: "js_mul (Fin (3152519739159347 / 4503599627370496)) (Fin (3 / 2)) = Fin (1182194902184755 / 1125899906842624)"
    using fl_tie[where x = "9457559217478041 / 9007199254740992" and q = "- 52" and k = 4728779608739020] by simp
  have edge: "?Edge \<in> set (underperforming ?cpl [?Edge])"
    by (rule selection_rules[where c = ?Edge and cs = "[?Edge]" and avgCPL = ?cpl,
          THEN conjunct2, THEN conjunct2, THEN conjunct2, THEN conjunct2, THEN conjunct2,
          THEN conjunct2, THEN conjunct2, THEN conjunct2, THEN conjunct2, THEN conjunct2,
          THEN conjunct2, rule_format,
          of "3152519739159347 / 4503599627370496" "4728779608739021 / 4503599627370496"
             "1182194902184755 / 1125899906842624"])
       (simp add: m1 del: js_mul.simps)
  show ?thesis
    unfolding Let_def by (intro conjI avg d e b c l56 vavg v21 v22 v23 edge)
qed

text \<open>
  C4 as stated fails for Meta: a campaign with a spend of 10 (not above the floor of 50) and a
  click-through rate of 2 (not below 0.5) is flagged, because its cost per lead of 100 is above
  1.5 times the account's 10.
\<close>

theorem selection_rules_counterexample:
  "underperforming (Num (Fin 10))
     [\<lparr> campaignName = ''Retargeting'', spend = Num (Fin 10), c_impressions = Num (Fin 400),
        reach = Num (Fin 300), clicks = Num (Fin 8), ctr = Num (Fin 2), cpm = Num (Fin 25),
        cpc = Num (Fin (5 / 4)), leads = Num (Fin 0), costPerLead = Num (Fin 100),
        linkClicks = Num (Fin 8) \<rparr>]
   = [\<lparr> campaignName = ''Retargeting'', spend = Num (Fin 10), c_impressions = Num (Fin 400),
        reach = Num (Fin 300), clicks = Num (Fin 8), ctr = Num (Fin 2), cpm = Num (Fin 25),
        cpc = Num (Fin (5 / 4)), leads = Num (Fin 0), costPerLead = Num (Fin 100),
        linkClicks = Num (Fin 8) \<rparr>]
   \<and> \<not> metric_gt (Num (Fin 10)) (Num (Fin 50))
   \<and> \<not> metric_lt (Num (Fin 2)) (Num (Fin (1 / 2)))"
  by (simp add: underperforming_def metric_gt_def metric_lt_def js_gt_def fl_Ints)


section \<open>Properties of the weekly script\<close>

lemma narrative_requests_le: "length (fst (narrative create JSON_parse p)) \<le> 2"
  by (auto simp add: narrative_def Let_def split: prod.splits sum.splits)

lemma main_requests:
  "requests (main f buildPrompt create JSON_parse now_w now_g fs)
     = fst (narrative create JSON_parse (buildPrompt (combined f)))"
  by (auto simp add: main_def Let_def split: prod.splits sum.splits option.splits)

lemma main_failed:
  "snd (narrative create JSON_parse (buildPrompt (combined f))) = Inl e \<Longrightarrow>
   failure (main f buildPrompt create JSON_parse now_w now_g fs) = Some e
   \<and> written (main f buildPrompt create JSON_parse now_w now_g fs) = None"
  by (auto simp add: main_def Let_def split: prod.splits sum.splits option.splits)

lemma main_parsed:
  "snd (narrative create JSON_parse (buildPrompt (combined f))) = Inr doc \<Longrightarrow>
   stamped doc (combined f) now_w now_g = Inr a \<Longrightarrow>
   failure (main f buildPrompt create JSON_parse now_w now_g None) = summary a
   \<and> written (main f buildPrompt create JSON_parse now_w now_g None) = Some (serialized a)"
  by (auto simp add: main_def Let_def split: prod.splits sum.splits option.splits)

lemma narrative_first_fails:
  "create [(User, p)] = Inr (Some t # rest) \<Longrightarrow> JSON_parse (cleaned t) = Inl m \<Longrightarrow>
   narrative create JSON_parse p =
     ([[(User, p)], [(User, p), (Assistant, t), (User, correction)]],
      case create [(User, p), (Assistant, t), (User, correction)] of
        Inl err' \<Rightarrow> Inl err'
      | Inr content \<Rightarrow>
          (case content of
             [] \<Rightarrow> Inl (TypeError ''Cannot read properties of undefined (reading 'text')'')
           | None # _ \<Rightarrow> Inl (TypeError ''Cannot read properties of undefined (reading 'trim')'')
           | Some text # _ \<Rightarrow>
               (case JSON_parse (trim text) of Inl m \<Rightarrow> Inl (SyntaxError m) | Inr v \<Rightarrow> Inr v)))"
  by (simp add: narrative_def first_attempt_def Let_def)

lemma narrative_api_error:
  "create [(User, p)] = Inl e \<Longrightarrow> \<not> is_SyntaxError e \<Longrightarrow>
   narrative create JSON_parse p = ([[(User, p)]], Inl e)"
  by (simp add: narrative_def first_attempt_def)

lemma written_from_parse:
  "written (main f buildPrompt create JSON_parse now_w now_g fs) = Some w \<Longrightarrow>
   \<exists>text doc a. (JSON_parse (cleaned text) = Inr doc \<or> JSON_parse (trim text) = Inr doc)
      \<and> stamped doc (combined f) now_w now_g = Inr a \<and> w = serialized a"
  by (auto simp add: main_def narrative_def first_attempt_def Let_def
      split: prod.splits sum.splits option.splits list.splits if_splits)

text \<open>
  C1: whatever the seven fetchers settle to (any of them fulfilled or rejected), the combined
  snapshot is an object with exactly the keys \<open>ga4\<close>, \<open>gsc\<close>, \<open>youtube\<close>, \<open>kit\<close>,
  \<open>meta\<close>, \<open>unbounce\<close>, \<open>vimeo\<close>; each key holds the fetcher's value if it fulfilled and
  \<open>{error: message}\<close> with the rejection's message if it rejected; and the run goes on to the
  narrative step: its first request carries the prompt built from that snapshot.
\<close>

theorem aggregator_total:
  "(\<exists>ps. combined f = JObj ps
      \<and> map fst ps = [''ga4'', ''gsc'', ''youtube'', ''kit'', ''meta'', ''unbounce'', ''vimeo'']
      \<and> get_prop ps ''ga4'' =
          (case ga4_fetch f of Inr v \<Rightarrow> v | Inl e \<Rightarrow> JObj [(''error'', JStr (message e))])
      \<and> get_prop ps ''gsc'' =
          (case gsc_fetch f of Inr v \<Rightarrow> v | Inl e \<Rightarrow> JObj [(''error'', JStr (message e))])
      \<and> get_prop ps ''youtube'' =
          (case youtube_fetch f of Inr v \<Rightarrow> v | Inl e \<Rightarrow> JObj [(''error'', JStr (message e))])
      \<and> get_prop ps ''kit'' =
          (case kit_fetch f of Inr v \<Rightarrow> v | Inl e \<Rightarrow> JObj [(''error'', JStr (message e))])
      \<and> get_prop ps ''meta'' =
          (case meta_fetch f of Inr v \<Rightarrow> v | Inl e \<Rightarrow> JObj [(''error'', JStr (message e))])
      \<and> get_prop ps ''unbounce'' =
          (case unbounce_fetch f of Inr v \<Rightarrow> v | Inl e \<Rightarrow> JObj [(''error'', JStr (message e))])
      \<and> get_prop ps ''vimeo'' =
          (case vimeo_fetch f of Inr v \<Rightarrow> v | Inl e \<Rightarrow> JObj [(''error'', JStr (message e))]))
   \<and> (\<exists>rest. requests (main f buildPrompt create JSON_parse now_weekOf now_generatedAt fs_fault)
          = [(User, buildPrompt (combined f))] # rest)"
proof -
  have a: "\<exists>rest. fst (narrative create JSON_parse p) = [(User, p)] # rest" for p
    by (auto simp add: narrative_def Let_def split: prod.splits sum.splits)
  have c: "\<exists>rest. requests (main f buildPrompt create JSON_parse now_weekOf now_generatedAt fs_fault)
          = [(User, buildPrompt (combined f))] # rest"
    using a by (simp add: main_requests)
  show ?thesis
    by (rule conjI[OF _ c])
       (auto simp add: combined_def Promise_allSettled_def value_or_error_def get_prop_def
          split: sum.splits)
qed

lemma stamped_obj:
  "stamped (JObj ps) data now_w now_g =
     Inr (JObj (set_prop (set_prop (set_prop ps ''weekOf''
        (if js_truthy (get_prop ps ''weekOf'') then get_prop ps ''weekOf''
         else JStr (split_T_first (toISOString now_w))))
        ''generatedAt'' (JStr (toISOString now_g))) ''rawData'' data))"
  by (simp add: stamped_def)

lemma get_set_prop: "get_prop (set_prop ps k v) k' = (if k' = k then v else get_prop ps k')"
  by (induction ps) (auto simp add: get_prop_def)

lemma summary_stamped:
  "summary (JObj (set_prop (set_prop (set_prop ps ''weekOf'' a) ''generatedAt'' b) ''rawData'' c))
     = summary (JObj ps)"
  by (simp add: summary_def summary_values_def member_def get_set_prop)

lemma main_object:
  assumes "snd (narrative create JSON_parse (buildPrompt (combined f))) = Inr (JObj ps)"
  shows "written (main f buildPrompt create JSON_parse now_w now_g None)
           = Some (serialized (JObj (set_prop (set_prop (set_prop ps ''weekOf''
                (if js_truthy (get_prop ps ''weekOf'') then get_prop ps ''weekOf''
                 else JStr (split_T_first (toISOString now_w))))
                ''generatedAt'' (JStr (toISOString now_g))) ''rawData'' (combined f))))"
    and "failure (main f buildPrompt create JSON_parse now_w now_g None) = summary (JObj ps)"
  using main_parsed[where buildPrompt = buildPrompt and f = f, OF assms stamped_obj]
  by (simp_all add: summary_stamped)

lemma main_unstamped:
  "snd (narrative create JSON_parse (buildPrompt (combined f))) = Inr doc \<Longrightarrow>
   stamped doc (combined f) now_w now_g = Inl e \<Longrightarrow>
   failure (main f buildPrompt create JSON_parse now_w now_g fs) = Some e
   \<and> written (main f buildPrompt create JSON_parse now_w now_g fs) = None"
  by (auto simp add: main_def Let_def split: prod.splits sum.splits option.splits)

text \<open>
  C3, as amended: if the first reply does not parse (after the fences are stripped), the
  run issues exactly one more request, the original user message followed by the reply as
  the assistant and the correction message. If the retry's reply parses to a JSON object,
  that object, stamped, is what the run writes when the file system does not fail, and the
  run then ends without error and with exit code 0 unless a value printed in the summary
  cannot be converted to a string. If the retry's reply parses to a value that cannot be
  stamped (\<open>null\<close>, a boolean, a number, a string), \<open>main\<close> rejects with the TypeError,
  the process exits with code 1 and nothing is written. If the retry's reply does not parse
  either, \<open>main\<close> rejects with that SyntaxError, the process exits with code 1 and nothing
  is written. No run issues more than two requests. An error of the first request that is
  not a SyntaxError is rethrown without a retry. Whatever is written comes from a reply that
  parsed.
\<close>

theorem retry_once:
  fixes f buildPrompt create JSON_parse now_w now_g fs
  defines "p \<equiv> buildPrompt (combined f)"
  defines "r \<equiv> main f buildPrompt create JSON_parse now_w now_g fs"
  shows
  "(\<forall>t rest m. create [(User, p)] = Inr (Some t # rest) \<and> JSON_parse (cleaned t) = Inl m \<longrightarrow>
      requests r = [[(User, p)], [(User, p)] @ [(Assistant, t), (User, correction)]])
   \<and> (\<forall>t rest m t' rest' ps.
        create [(User, p)] = Inr (Some t # rest) \<and> JSON_parse (cleaned t) = Inl m
        \<and> create ([(User, p)] @ [(Assistant, t), (User, correction)]) = Inr (Some t' # rest')
        \<and> JSON_parse (trim t') = Inr (JObj ps) \<and> fs = None \<longrightarrow>
      written r = Some (serialized (JObj (set_prop (set_prop (set_prop ps ''weekOf''
                (if js_truthy (get_prop ps ''weekOf'') then get_prop ps ''weekOf''
                 else JStr (split_T_first (toISOString now_w))))
                ''generatedAt'' (JStr (toISOString now_g))) ''rawData'' (combined f))))
      \<and> failure r = summary (JObj ps)
      \<and> (summary (JObj ps) = None \<longrightarrow> exit_code r = 0))
   \<and> (\<forall>t rest m t' rest' doc e.
        create [(User, p)] = Inr (Some t # rest) \<and> JSON_parse (cleaned t) = Inl m
        \<and> create ([(User, p)] @ [(Assistant, t), (User, correction)]) = Inr (Some t' # rest')
        \<and> JSON_parse (trim t') = Inr doc \<and> stamped doc (combined f) now_w now_g = Inl e \<longrightarrow>
      failure r = Some e \<and> exit_code r = 1 \<and> written r = None)
   \<and> (\<forall>t rest m t' rest' m'.
        create [(User, p)] = Inr (Some t # rest) \<and> JSON_parse (cleaned t) = Inl m
        \<and> create ([(User, p)] @ [(Assistant, t), (User, correction)]) = Inr (Some t' # rest')
        \<and> JSON_parse (trim t') = Inl m' \<longrightarrow>
      failure r = Some (SyntaxError m') \<and> exit_code r = 1 \<and> written r = None
      \<and> length (requests r) = 2)
   \<and> length (requests r) \<le> 2
   \<and> (\<forall>e. create [(User, p)] = Inl e \<and> \<not> is_SyntaxError e \<longrightarrow>
        requests r = [[(User, p)]] \<and> failure r = Some e \<and> exit_code r = 1 \<and> written r = None)
   \<and> (\<forall>w. written r = Some w \<longrightarrow>
        (\<exists>text doc a. (JSON_parse (cleaned text) = Inr doc \<or> JSON_parse (trim text) = Inr doc)
           \<and> stamped doc (combined f) now_w now_g = Inr a \<and> w = serialized a))"
proof (intro conjI allI impI)
  fix t rest m
  assume "create [(User, p)] = Inr (Some t # rest) \<and> JSON_parse (cleaned t) = Inl m"
  then show "requests r = [[(User, p)], [(User, p)] @ [(Assistant, t), (User, correction)]]"
    unfolding r_def p_def by (simp add: main_requests narrative_first_fails)
next
  fix t rest m t' rest' ps
  assume h: "create [(User, p)] = Inr (Some t # rest) \<and> JSON_parse (cleaned t) = Inl m
        \<and> create ([(User, p)] @ [(Assistant, t), (User, correction)]) = Inr (Some t' # rest')
        \<and> JSON_parse (trim t') = Inr (JObj ps) \<and> fs = None"
  then have d: "snd (narrative create JSON_parse (buildPrompt (combined f))) = Inr (JObj ps)"
    unfolding p_def by (simp add: narrative_first_fails)
  from h have fs: "fs = None" by simp
  show w: "written r = Some (serialized (JObj (set_prop (set_prop (set_prop ps ''weekOf''
                (if js_truthy (get_prop ps ''weekOf'') then get_prop ps ''weekOf''
                 else JStr (split_T_first (toISOString now_w))))
                ''generatedAt'' (JStr (toISOString now_g))) ''rawData'' (combined f))))"
    unfolding r_def fs by (rule main_object(1)[where buildPrompt = buildPrompt and f = f, OF d])
  show s: "failure r = summary (JObj ps)"
    unfolding r_def fs by (rule main_object(2)[where buildPrompt = buildPrompt and f = f, OF d])
  assume "summary (JObj ps) = None"
  with s show "exit_code r = 0" by (simp add: exit_code_def)
next
  fix t rest m t' rest' doc e
  assume h: "create [(User, p)] = Inr (Some t # rest) \<and> JSON_parse (cleaned t) = Inl m
        \<and> create ([(User, p)] @ [(Assistant, t), (User, correction)]) = Inr (Some t' # rest')
        \<and> JSON_parse (trim t') = Inr doc \<and> stamped doc (combined f) now_w now_g = Inl e"
  then have d: "snd (narrative create JSON_parse (buildPrompt (combined f))) = Inr doc"
    unfolding p_def by (simp add: narrative_first_fails)
  from h have s: "stamped doc (combined f) now_w now_g = Inl e" by simp
  have "failure r = Some e \<and> written r = None"
    unfolding r_def by (rule main_unstamped[where buildPrompt = buildPrompt and f = f, OF d s])
  then show "failure r = Some e" "exit_code r = 1" "written r = None"
    by (simp_all add: exit_code_def)
next
  fix t rest m t' rest' m'
  assume h: "create [(User, p)] = Inr (Some t # rest) \<and> JSON_parse (cleaned t) = Inl m
        \<and> create ([(User, p)] @ [(Assistant, t), (User, correction)]) = Inr (Some t' # rest')
        \<and> JSON_parse (trim t') = Inl m'"
  then have n: "narrative create JSON_parse p =
      ([[(User, p)], [(User, p), (Assistant, t), (User, correction)]], Inl (SyntaxError m'))"
    by (simp add: narrative_first_fails)
  then have "failure r = Some (SyntaxError m') \<and> written r = None"
    unfolding r_def p_def using main_failed[of create JSON_parse buildPrompt f] by simp
  then show "failure r = Some (SyntaxError m')" "exit_code r = 1" "written r = None"
    by (simp_all add: exit_code_def)
  show "length (requests r) = 2"
    using n unfolding r_def p_def by (simp add: main_requests)
next
  show "length (requests r) \<le> 2"
    unfolding r_def by (simp add: main_requests narrative_requests_le)
next
  fix e
  assume h: "create [(User, p)] = Inl e \<and> \<not> is_SyntaxError e"
  then have n: "narrative create JSON_parse p = ([[(User, p)]], Inl e)"
    by (simp add: narrative_api_error)
  then have "failure r = Some e \<and> written r = None"
    unfolding r_def p_def using main_failed[of create JSON_parse buildPrompt f] by simp
  then show "failure r = Some e" "exit_code r = 1" "written r = None"
    by (simp_all add: exit_code_def)
  show "requests r = [[(User, p)]]"
    using n unfolding r_def p_def by (simp add: main_requests)
next
  fix w
  assume "written r = Some w"
  then show "\<exists>text doc a. (JSON_parse (cleaned text) = Inr doc \<or> JSON_parse (trim text) = Inr doc)
           \<and> stamped doc (combined f) now_w now_g = Inr a \<and> w = serialized a"
    unfolding r_def by (rule written_from_parse)
qed

lemma units_not_json: "cleaned (units ''not json'') = units ''not json''"
  by (simp add: cleaned_def strip_open_fence_def strip_close_fence_def trim_def units_def
      is_space_def to_lower_def)

lemma units_trim_braces: "trim (units ''{}'') = units ''{}''"
  by (simp add: trim_def units_def is_space_def)

lemma units_trim_null: "trim (units ''null'') = units ''null''"
  by (simp add: trim_def units_def is_space_def)

lemma units_distinct:
  "units ''not json'' \<noteq> units ''{}''" "units ''not json'' \<noteq> units ''null''"
  by (simp_all add: units_def)

lemma cleaned_examples:
  "cleaned (units ''```json'' @ [0x000A] @ units ''{}'' @ [0x000A] @ units ''```'') = units ''{}''"
  "cleaned (units ''```JSON {}```'') = units ''{}''"
  "cleaned ([0xFEFF, 0x00A0] @ units ''{}'' @ [0x2028, 0x3000]) = units ''{}''"
  by (simp_all add: cleaned_def strip_open_fence_def strip_close_fence_def trim_def units_def
      is_space_def to_lower_def)

text \<open>
  The witness: the first reply is not JSON, the retry's reply is \<open>{}\<close>. The run issues the
  two requests, writes the stamped object and exits with code 0.
\<close>

theorem retry_once_witness:
  "(let f = \<lparr> ga4_fetch = Inr JNull, gsc_fetch = Inr JNull, youtube_fetch = Inr JNull,
          kit_fetch = Inl (Error ''KIT_API_SECRET env var is missing''), meta_fetch = Inr JNull,
          unbounce_fetch = Inr JNull, vimeo_fetch = Inr JNull \<rparr>;
        r = main f (\<lambda>data. units ''prompt'')
              (\<lambda>messages. if length messages = 1 then Inr [Some (units ''not json'')]
                           else Inr [Some (units ''{}'')])
              (\<lambda>text. if text = units ''{}'' then Inr (JObj []) else Inl ''Unexpected token'')
              \<lparr> year = 2026, month = 3, day = 9, hours = 7, minutes = 5, seconds = 1, milliseconds = 42 \<rparr>
              \<lparr> year = 2026, month = 3, day = 9, hours = 7, minutes = 5, seconds = 1, milliseconds = 57 \<rparr>
              None
    in requests r = [[(User, units ''prompt'')],
                     [(User, units ''prompt''), (Assistant, units ''not json''), (User, correction)]]
       \<and> written r = Some (JObj [(''weekOf'', JStr ''2026-03-09''),
                                   (''generatedAt'', JStr ''2026-03-09T07:05:01.057Z''),
                                   (''rawData'', combined f)])
       \<and> failure r = None \<and> exit_code r = 0)"
proof -
  let ?f = "\<lparr> ga4_fetch = Inr JNull, gsc_fetch = Inr JNull, youtube_fetch = Inr JNull,
          kit_fetch = Inl (Error ''KIT_API_SECRET env var is missing''), meta_fetch = Inr JNull,
          unbounce_fetch = Inr JNull, vimeo_fetch = Inr JNull \<rparr>"
  let ?bp = "\<lambda>data::jsval. units ''prompt''"
  let ?create = "(\<lambda>messages. if length messages = 1 then Inr [Some (units ''not json'')]
                           else Inr [Some (units ''{}'')]) :: messages \<Rightarrow> error + jstring option list"
  let ?parse = "(\<lambda>text. if text = units ''{}'' then Inr (JObj []) else Inl ''Unexpected token'')
      :: jstring \<Rightarrow> string + jsval"
  let ?d1 = "\<lparr> year = 2026, month = 3, day = 9, hours = 7, minutes = 5, seconds = 1, milliseconds = 42 \<rparr>"
  let ?d2 = "\<lparr> year = 2026, month = 3, day = 9, hours = 7, minutes = 5, seconds = 1, milliseconds = 57 \<rparr>"
  let ?r = "main ?f ?bp ?create ?parse ?d1 ?d2 None"
  note R = retry_once[where f = ?f and buildPrompt = ?bp and create = ?create
      and JSON_parse = ?parse and now_w = ?d1 and now_g = ?d2 and fs = None]
  have h1: "?create [(User, ?bp (combined ?f))] = Inr (Some (units ''not json'') # [])
      \<and> ?parse (cleaned (units ''not json'')) = Inl ''Unexpected token''"
    by (simp add: units_not_json units_distinct)
  have h2: "?create [(User, ?bp (combined ?f))] = Inr (Some (units ''not json'') # [])
      \<and> ?parse (cleaned (units ''not json'')) = Inl ''Unexpected token''
      \<and> ?create ([(User, ?bp (combined ?f))] @ [(Assistant, units ''not json''), (User, correction)])
          = Inr (Some (units ''{}'') # [])
      \<and> ?parse (trim (units ''{}'')) = Inr (JObj [])
      \<and> (None :: error option) = None"
    by (simp add: units_not_json units_trim_braces units_distinct)
  have a: "requests ?r
     = [[(User, units ''prompt'')],
        [(User, units ''prompt'')] @ [(Assistant, units ''not json''), (User, correction)]]"
    by (rule R[THEN conjunct1, rule_format, OF h1])
  note B = R[THEN conjunct2, THEN conjunct1, rule_format, OF h2]
  have iso: "toISOString ?d2 = ''2026-03-09T07:05:01.057Z''" by code_simp
  have day: "split_T_first (toISOString ?d1) = ''2026-03-09''" by code_simp
  have c: "combined ?f \<noteq> JUndefined" by (simp add: combined_def Promise_allSettled_def)
  have s: "serialized (combined ?f) = combined ?f"
    by (simp add: combined_def Promise_allSettled_def value_or_error_def)
  have st: "set_prop (set_prop (set_prop [] ''weekOf''
                (if js_truthy (get_prop [] ''weekOf'') then get_prop [] ''weekOf''
                 else JStr (split_T_first (toISOString ?d1))))
                ''generatedAt'' (JStr (toISOString ?d2))) ''rawData'' (combined ?f)
      = [(''weekOf'', JStr ''2026-03-09''),
         (''generatedAt'', JStr ''2026-03-09T07:05:01.057Z''), (''rawData'', combined ?f)]"
    unfolding iso day by (simp add: get_prop_def)
  have w: "written ?r = Some (JObj [(''weekOf'', JStr ''2026-03-09''),
                                   (''generatedAt'', JStr ''2026-03-09T07:05:01.057Z''),
                                   (''rawData'', combined ?f)])"
    using B[THEN conjunct1] c s unfolding st by simp
  have sm: "summary (JObj []) = None"
    by (simp add: summary_def summary_values_def member_def get_prop_def optional_length_def nullish_def)
  have fl: "failure ?r = None" using B[THEN conjunct2, THEN conjunct1] sm by simp
  have ex: "exit_code ?r = 0" using B[THEN conjunct2, THEN conjunct2] sm by simp
  show ?thesis unfolding Let_def using a w fl ex by simp
qed

text \<open>
  C3 as stated fails when the retry's reply parses to a value that is not an object: for the
  reply \<open>null\<close> the second parse succeeds, \<open>insights.weekOf\<close> then throws a TypeError,
  and the run ends with exit code 1 and nothing written.
\<close>

theorem retry_once_counterexample:
  "(let r = main \<lparr> ga4_fetch = Inr JNull, gsc_fetch = Inr JNull, youtube_fetch = Inr JNull,
                  kit_fetch = Inr JNull, meta_fetch = Inr JNull,
                  unbounce_fetch = Inr JNull, vimeo_fetch = Inr JNull \<rparr>
              (\<lambda>data. units ''prompt'')
              (\<lambda>messages. if length messages = 1 then Inr [Some (units ''not json'')]
                           else Inr [Some (units ''null'')])
              (\<lambda>text. if text = units ''null'' then Inr JNull else Inl ''Unexpected token'')
              \<lparr> year = 2026, month = 3, day = 9, hours = 7, minutes = 5, seconds = 1, milliseconds = 42 \<rparr>
              \<lparr> year = 2026, month = 3, day = 9, hours = 7, minutes = 5, seconds = 1, milliseconds = 57 \<rparr>
              None
    in length (requests r) = 2
       \<and> failure r = Some (TypeError ''Cannot read properties of null (reading 'weekOf')'')
       \<and> exit_code r = 1 \<and> written r = None)"
  by (simp add: main_def narrative_def first_attempt_def stamped_def exit_code_def
      units_not_json units_trim_null units_distinct Let_def)

lemma keys_set_prop: "set (map fst (set_prop ps k v)) = insert k (set (map fst ps))"
  by (induction ps) force+

lemma distinct_set_prop: "distinct (map fst ps) \<Longrightarrow> distinct (map fst (set_prop ps k v))"
proof (induction ps)
  case Nil
  then show ?case by simp
next
  case (Cons a ps)
  have "set (map fst (set_prop ps k v)) = insert k (set (map fst ps))"
    by (rule keys_set_prop)
  with Cons show ?case by (cases a) auto
qed

lemma map_of_serialized_props:
  "distinct (map fst ps) \<Longrightarrow>
   map_of (filter (\<lambda>(k, v). v \<noteq> JUndefined) (map (\<lambda>(k, v). (k, serialized v)) ps)) k =
     (case map_of ps k of
        None \<Rightarrow> None
      | Some v \<Rightarrow> if serialized v = JUndefined then None else Some (serialized v))"
proof (induction ps)
  case Nil
  then show ?case by simp
next
  case (Cons a ps)
  obtain k0 v0 where a: "a = (k0, v0)" by (cases a)
  from Cons.prems a have nk: "k0 \<notin> fst ` set ps" and d: "distinct (map fst ps)" by auto
  from nk have none: "map_of ps k0 = None" by (simp add: map_of_eq_None_iff)
  show ?case using Cons.IH[OF d] a none by auto
qed

lemma get_prop_serialized:
  "distinct (map fst ps) \<Longrightarrow>
   get_prop (filter (\<lambda>(k, v). v \<noteq> JUndefined) (map (\<lambda>(k, v). (k, serialized v)) ps)) k
     = serialized (get_prop ps k)"
  by (simp add: get_prop_def map_of_serialized_props split: option.splits)

lemma is_json_serialized: "is_json v \<Longrightarrow> serialized v = v"
proof (induction v rule: serialized.induct)
  case (7 xs)
  then have "\<forall>x \<in> set xs. serialized x = x \<and> x \<noteq> JUndefined" by auto
  then show ?case by (simp add: map_idI)
next
  case (8 ps)
  then have e: "\<forall>kv \<in> set ps. serialized (snd kv) = snd kv \<and> snd kv \<noteq> JUndefined"
    by fastforce
  then have "map (\<lambda>(k, v). (k, serialized v)) ps = ps"
    by (intro map_idI) (auto split: prod.splits)
  moreover have "filter (\<lambda>(k, v). v \<noteq> JUndefined) ps = ps"
    using e by (intro filter_True) (auto split: prod.splits)
  ultimately show ?case by simp
qed simp_all


lemma of_char_digit: "(of_char (digit n) :: nat) = 48 + n mod 10"
  unfolding digit_def by (simp add: of_char_of)

lemma of_char_T: "(of_char (CHR ''T'') :: nat) = 84"
  by simp

lemma digit_not_T: "digit n \<noteq> CHR ''T''"
proof
  assume "digit n = CHR ''T''"
  then have "(of_char (digit n) :: nat) = of_char (CHR ''T'')" by (rule arg_cong)
  then have "48 + n mod 10 = (84::nat)" unfolding of_char_digit of_char_T .
  then have "n mod 10 = 36" by linarith
  moreover have "n mod 10 < 10" by simp
  ultimately show False by linarith
qed

lemma date_part:
  "year d \<le> 9999 \<Longrightarrow>
   split_T_first (toISOString d) = pad4 (year d) @ ''-'' @ pad2 (month d) @ ''-'' @ pad2 (day d)"
  by (simp add: split_T_first_def toISOString_def pad4_def pad2_def digit_not_T)


lemma written_stamped:
  "written (main f buildPrompt create JSON_parse now_w now_g fs) = Some w \<Longrightarrow>
   \<exists>doc a. snd (narrative create JSON_parse (buildPrompt (combined f))) = Inr doc
      \<and> stamped doc (combined f) now_w now_g = Inr a \<and> w = serialized a"
  by (auto simp add: main_def Let_def split: prod.splits sum.splits option.splits)

lemma serialized_stamped_obj:
  assumes d: "distinct (map fst ps)"
    and s: "stamped (JObj ps) data now_w now_g = Inr a"
  shows "\<exists>ws. serialized a = JObj ws
     \<and> get_prop ws ''generatedAt'' = JStr (toISOString now_g)
     \<and> get_prop ws ''weekOf'' =
         (if js_truthy (get_prop ps ''weekOf'') then serialized (get_prop ps ''weekOf'')
          else JStr (split_T_first (toISOString now_w)))
     \<and> get_prop ws ''rawData'' = serialized data
     \<and> (\<forall>k. k \<noteq> ''weekOf'' \<and> k \<noteq> ''generatedAt'' \<and> k \<noteq> ''rawData'' \<longrightarrow>
           get_prop ws k = serialized (get_prop ps k))"
proof -
  define ps3 where "ps3 = set_prop (set_prop (set_prop ps ''weekOf''
        (if js_truthy (get_prop ps ''weekOf'') then get_prop ps ''weekOf''
         else JStr (split_T_first (toISOString now_w))))
        ''generatedAt'' (JStr (toISOString now_g))) ''rawData'' data"
  have a: "a = JObj ps3" using s by (simp add: stamped_obj ps3_def)
  have d3: "distinct (map fst ps3)"
    unfolding ps3_def by (intro distinct_set_prop d)
  define ws where "ws = filter (\<lambda>(k, v). v \<noteq> JUndefined) (map (\<lambda>(k, v). (k, serialized v)) ps3)"
  have w: "serialized a = JObj ws" by (simp add: a ws_def)
  have g: "get_prop ws k = serialized (get_prop ps3 k)" for k
    unfolding ws_def by (rule get_prop_serialized[OF d3])
  have g1: "get_prop ws ''generatedAt'' = JStr (toISOString now_g)"
    by (simp add: g ps3_def get_set_prop)
  have g2: "get_prop ws ''weekOf'' =
         (if js_truthy (get_prop ps ''weekOf'') then serialized (get_prop ps ''weekOf'')
          else JStr (split_T_first (toISOString now_w)))"
    by (simp add: g ps3_def get_set_prop)
  have g3: "get_prop ws ''rawData'' = serialized data"
    by (simp add: g ps3_def get_set_prop)
  have g4: "\<forall>k. k \<noteq> ''weekOf'' \<and> k \<noteq> ''generatedAt'' \<and> k \<noteq> ''rawData'' \<longrightarrow>
           get_prop ws k = serialized (get_prop ps k)"
    by (simp add: g ps3_def get_set_prop)
  show ?thesis using w g1 g2 g3 g4 by blast
qed

lemma is_json_get_prop:
  "is_json (JObj ps) \<Longrightarrow> serialized (get_prop ps k) = get_prop ps k"
proof -
  assume j: "is_json (JObj ps)"
  show ?thesis
  proof (cases "map_of ps k")
    case None
    then show ?thesis by (simp add: get_prop_def)
  next
    case (Some v)
    then have "(k, v) \<in> set ps" by (rule map_of_SomeD)
    with j have "is_json v" by auto
    then show ?thesis using Some by (simp add: get_prop_def is_json_serialized)
  qed
qed


text \<open>
  C8, as amended: when the generator's parsed document is a JSON object and the run reaches
  the write step, the written artifact is an object whose \<open>generatedAt\<close> is the ISO timestamp
  read just before the write, whose \<open>weekOf\<close> is the document's \<open>weekOf\<close> when that is
  truthy (for a string: non-empty) and otherwise the run date, whose \<open>rawData\<close> is the
  combined snapshot as \<open>JSON.stringify\<close> writes it, and whose other properties are the
  document's, unchanged. Such a document always reaches the write step when the file system
  does not fail; after the write the run ends without error unless one of the five values
  of the summary cannot be converted to a string, in which case \<open>main\<close> rejects with that
  TypeError although the artifact is written. The run date has the form \<open>YYYY-MM-DD\<close> for
  the years up to 9999.
\<close>

theorem artifact_stamped:
  fixes f buildPrompt create JSON_parse now_w now_g fs
  defines "doc \<equiv> snd (narrative create JSON_parse (buildPrompt (combined f)))"
  defines "r \<equiv> main f buildPrompt create JSON_parse now_w now_g fs"
  shows
  "(\<forall>ps w. doc = Inr (JObj ps) \<and> distinct (map fst ps) \<and> written r = Some w \<longrightarrow>
      (\<exists>ws. w = JObj ws
         \<and> get_prop ws ''generatedAt'' = JStr (toISOString now_g)
         \<and> get_prop ws ''weekOf'' =
             (if js_truthy (get_prop ps ''weekOf'') then serialized (get_prop ps ''weekOf'')
              else JStr (split_T_first (toISOString now_w)))
         \<and> get_prop ws ''rawData'' = serialized (combined f)
         \<and> (\<forall>k. k \<noteq> ''weekOf'' \<and> k \<noteq> ''generatedAt'' \<and> k \<noteq> ''rawData'' \<longrightarrow>
               get_prop ws k = serialized (get_prop ps k))
         \<and> (is_json (JObj ps) \<longrightarrow>
               (js_truthy (get_prop ps ''weekOf'') \<longrightarrow>
                  get_prop ws ''weekOf'' = get_prop ps ''weekOf'')
               \<and> (\<forall>k. k \<noteq> ''weekOf'' \<and> k \<noteq> ''generatedAt'' \<and> k \<noteq> ''rawData'' \<longrightarrow>
                     get_prop ws k = get_prop ps k))))
   \<and> (\<forall>ps. doc = Inr (JObj ps) \<and> fs = None \<longrightarrow>
        (\<exists>w. written r = Some w) \<and> failure r = summary (JObj ps))
   \<and> (\<forall>ps. doc = Inr (JObj ps) \<and> fs = None
          \<and> (\<forall>v \<in> set (summary_values (JObj ps)). \<not> ToString_throws v) \<longrightarrow>
        failure r = None \<and> exit_code r = 0)
   \<and> (year now_w \<le> 9999 \<longrightarrow>
        split_T_first (toISOString now_w)
          = pad4 (year now_w) @ ''-'' @ pad2 (month now_w) @ ''-'' @ pad2 (day now_w))"
proof (intro conjI allI impI)
  fix ps w
  assume h: "doc = Inr (JObj ps) \<and> distinct (map fst ps) \<and> written r = Some w"
  then obtain doc' a where n: "snd (narrative create JSON_parse (buildPrompt (combined f))) = Inr doc'"
    and s: "stamped doc' (combined f) now_w now_g = Inr a" and w: "w = serialized a"
    unfolding r_def using written_stamped by blast
  from n h have "doc' = JObj ps" unfolding doc_def by simp
  with s have s': "stamped (JObj ps) (combined f) now_w now_g = Inr a" by simp
  from h have d: "distinct (map fst ps)" by simp
  from serialized_stamped_obj[OF d s'] obtain ws where ws: "serialized a = JObj ws"
    and g1: "get_prop ws ''generatedAt'' = JStr (toISOString now_g)"
    and g2: "get_prop ws ''weekOf'' =
         (if js_truthy (get_prop ps ''weekOf'') then serialized (get_prop ps ''weekOf'')
          else JStr (split_T_first (toISOString now_w)))"
    and g3: "get_prop ws ''rawData'' = serialized (combined f)"
    and g4: "\<forall>k. k \<noteq> ''weekOf'' \<and> k \<noteq> ''generatedAt'' \<and> k \<noteq> ''rawData'' \<longrightarrow>
           get_prop ws k = serialized (get_prop ps k)"
    by blast
  have g5: "is_json (JObj ps) \<longrightarrow>
               (js_truthy (get_prop ps ''weekOf'') \<longrightarrow>
                  get_prop ws ''weekOf'' = get_prop ps ''weekOf'')
               \<and> (\<forall>k. k \<noteq> ''weekOf'' \<and> k \<noteq> ''generatedAt'' \<and> k \<noteq> ''rawData'' \<longrightarrow>
                     get_prop ws k = get_prop ps k)"
    using g2 g4 is_json_get_prop[of ps] by simp
  show "\<exists>ws. w = JObj ws
         \<and> get_prop ws ''generatedAt'' = JStr (toISOString now_g)
         \<and> get_prop ws ''weekOf'' =
             (if js_truthy (get_prop ps ''weekOf'') then serialized (get_prop ps ''weekOf'')
              else JStr (split_T_first (toISOString now_w)))
         \<and> get_prop ws ''rawData'' = serialized (combined f)
         \<and> (\<forall>k. k \<noteq> ''weekOf'' \<and> k \<noteq> ''generatedAt'' \<and> k \<noteq> ''rawData'' \<longrightarrow>
               get_prop ws k = serialized (get_prop ps k))
         \<and> (is_json (JObj ps) \<longrightarrow>
               (js_truthy (get_prop ps ''weekOf'') \<longrightarrow>
                  get_prop ws ''weekOf'' = get_prop ps ''weekOf'')
               \<and> (\<forall>k. k \<noteq> ''weekOf'' \<and> k \<noteq> ''generatedAt'' \<and> k \<noteq> ''rawData'' \<longrightarrow>
                     get_prop ws k = get_prop ps k))"
    using w ws g1 g2 g3 g4 g5 by blast
next
  fix ps
  assume h: "doc = Inr (JObj ps) \<and> fs = None"
  then have d: "snd (narrative create JSON_parse (buildPrompt (combined f))) = Inr (JObj ps)"
    and fs: "fs = None" unfolding doc_def by simp_all
  show "\<exists>w. written r = Some w"
    unfolding r_def fs using main_object(1)[where buildPrompt = buildPrompt and f = f, OF d] by simp
  show "failure r = summary (JObj ps)"
    unfolding r_def fs by (rule main_object(2)[where buildPrompt = buildPrompt and f = f, OF d])
next
  fix ps
  assume h: "doc = Inr (JObj ps) \<and> fs = None
          \<and> (\<forall>v \<in> set (summary_values (JObj ps)). \<not> ToString_throws v)"
  then have d: "snd (narrative create JSON_parse (buildPrompt (combined f))) = Inr (JObj ps)"
    and fs: "fs = None" unfolding doc_def by simp_all
  from h have "summary (JObj ps) = None" by (simp add: summary_def)
  then have "failure r = None"
    unfolding r_def fs using main_object(2)[where buildPrompt = buildPrompt and f = f, OF d] by simp
  then show "failure r = None" "exit_code r = 0" by (simp_all add: exit_code_def)
next
  assume "year now_w \<le> 9999"
  then show "split_T_first (toISOString now_w)
          = pad4 (year now_w) @ ''-'' @ pad2 (month now_w) @ ''-'' @ pad2 (day now_w)"
    by (rule date_part)
qed

theorem artifact_stamped_witness:
  "\<exists>ws. written (main \<lparr> ga4_fetch = Inr JNull, gsc_fetch = Inr JNull, youtube_fetch = Inr JNull,
          kit_fetch = Inl (Error ''KIT_API_SECRET env var is missing''), meta_fetch = Inr JNull,
          unbounce_fetch = Inr JNull, vimeo_fetch = Inr JNull \<rparr>
        (\<lambda>data. units ''prompt'') (\<lambda>messages. Inr [Some (units ''{...}'')])
        (\<lambda>text. Inr (JObj [(''weekOf'', JStr ''2026-03-02''), (''weeklyVerdict'', JStr ''Steady week'')]))
        \<lparr> year = 2026, month = 3, day = 9, hours = 7, minutes = 5, seconds = 1, milliseconds = 42 \<rparr>
        \<lparr> year = 2026, month = 3, day = 9, hours = 7, minutes = 5, seconds = 1, milliseconds = 57 \<rparr>
        None) = Some (JObj ws)
     \<and> get_prop ws ''generatedAt'' = JStr ''2026-03-09T07:05:01.057Z''
     \<and> get_prop ws ''weekOf'' = JStr ''2026-03-02''
     \<and> get_prop ws ''weeklyVerdict'' = JStr ''Steady week''
     \<and> failure (main \<lparr> ga4_fetch = Inr JNull, gsc_fetch = Inr JNull, youtube_fetch = Inr JNull,
          kit_fetch = Inl (Error ''KIT_API_SECRET env var is missing''), meta_fetch = Inr JNull,
          unbounce_fetch = Inr JNull, vimeo_fetch = Inr JNull \<rparr>
        (\<lambda>data. units ''prompt'') (\<lambda>messages. Inr [Some (units ''{...}'')])
        (\<lambda>text. Inr (JObj [(''weekOf'', JStr ''2026-03-02''), (''weeklyVerdict'', JStr ''Steady week'')]))
        \<lparr> year = 2026, month = 3, day = 9, hours = 7, minutes = 5, seconds = 1, milliseconds = 42 \<rparr>
        \<lparr> year = 2026, month = 3, day = 9, hours = 7, minutes = 5, seconds = 1, milliseconds = 57 \<rparr>
        None) = None"
proof -
  let ?f = "\<lparr> ga4_fetch = Inr JNull, gsc_fetch = Inr JNull, youtube_fetch = Inr JNull,
          kit_fetch = Inl (Error ''KIT_API_SECRET env var is missing''), meta_fetch = Inr JNull,
          unbounce_fetch = Inr JNull, vimeo_fetch = Inr JNull \<rparr>"
  let ?bp = "\<lambda>data::jsval. units ''prompt''"
  let ?create = "(\<lambda>messages. Inr [Some (units ''{...}'')]) :: messages \<Rightarrow> error + jstring option list"
  let ?ps = "[(''weekOf'', JStr ''2026-03-02''), (''weeklyVerdict'', JStr ''Steady week'')]"
  let ?parse = "(\<lambda>text. Inr (JObj ?ps)) :: jstring \<Rightarrow> string + jsval"
  let ?d1 = "\<lparr> year = 2026, month = 3, day = 9, hours = 7, minutes = 5, seconds = 1, milliseconds = 42 \<rparr>"
  let ?d2 = "\<lparr> year = 2026, month = 3, day = 9, hours = 7, minutes = 5, seconds = 1, milliseconds = 57 \<rparr>"
  let ?r = "main ?f ?bp ?create ?parse ?d1 ?d2 None"
  note R = artifact_stamped[where f = ?f and buildPrompt = ?bp and create = ?create
      and JSON_parse = ?parse and now_w = ?d1 and now_g = ?d2 and fs = None]
  have n: "snd (narrative ?create ?parse (?bp (combined ?f))) = Inr (JObj ?ps)"
    by (simp add: narrative_def first_attempt_def)
  have "snd (narrative ?create ?parse (?bp (combined ?f))) = Inr (JObj ?ps)
      \<and> (None :: error option) = None"
    using n by simp
  from R[THEN conjunct2, THEN conjunct1, rule_format, OF this]
  obtain w where w: "written ?r = Some w" by blast
  have h: "snd (narrative ?create ?parse (?bp (combined ?f))) = Inr (JObj ?ps)
      \<and> distinct (map fst ?ps) \<and> written ?r = Some w"
    using n w by simp
  from R[THEN conjunct1, rule_format, OF h] obtain ws where ws: "w = JObj ws"
    and g1: "get_prop ws ''generatedAt'' = JStr (toISOString ?d2)"
    and g5: "is_json (JObj ?ps) \<longrightarrow>
               (js_truthy (get_prop ?ps ''weekOf'') \<longrightarrow>
                  get_prop ws ''weekOf'' = get_prop ?ps ''weekOf'')
               \<and> (\<forall>k. k \<noteq> ''weekOf'' \<and> k \<noteq> ''generatedAt'' \<and> k \<noteq> ''rawData'' \<longrightarrow>
                     get_prop ws k = get_prop ?ps k)"
    by blast
  have iso: "toISOString ?d2 = ''2026-03-09T07:05:01.057Z''" by code_simp
  have j: "is_json (JObj ?ps)" by simp
  have "get_prop ws ''weekOf'' = JStr ''2026-03-02''"
    using g5 j by (simp add: get_prop_def)
  moreover have "get_prop ws ''weeklyVerdict'' = JStr ''Steady week''"
    using g5 j by (simp add: get_prop_def)
  moreover have "failure ?r = None"
  proof -
    have "snd (narrative ?create ?parse (?bp (combined ?f))) = Inr (JObj ?ps)
      \<and> (None :: error option) = None
      \<and> (\<forall>v \<in> set (summary_values (JObj ?ps)). \<not> ToString_throws v)"
      using n by (simp add: summary_values_def member_def get_prop_def optional_length_def
          nullish_def)
    from R[THEN conjunct2, THEN conjunct2, THEN conjunct1, rule_format, OF this]
    show ?thesis by simp
  qed
  ultimately show ?thesis using w ws g1 iso by simp
qed

text \<open>
  C8 as stated fails when the generator returns a JSON array: the three assignments succeed
  on the array, \<open>JSON.stringify\<close> writes its elements only, and the artifact \<open>[]\<close> has no
  \<open>generatedAt\<close>, \<open>weekOf\<close> or \<open>rawData\<close>.
\<close>

theorem artifact_stamped_counterexample:
  "written (main \<lparr> ga4_fetch = Inr JNull, gsc_fetch = Inr JNull, youtube_fetch = Inr JNull,
          kit_fetch = Inl (Error ''KIT_API_SECRET env var is missing''), meta_fetch = Inr JNull,
          unbounce_fetch = Inr JNull, vimeo_fetch = Inr JNull \<rparr>
      (\<lambda>data. units ''prompt'') (\<lambda>messages. Inr [Some (units ''[]'')]) (\<lambda>text. Inr (JArr []))
      \<lparr> year = 2026, month = 3, day = 9, hours = 7, minutes = 5, seconds = 1, milliseconds = 42 \<rparr>
      \<lparr> year = 2026, month = 3, day = 9, hours = 7, minutes = 5, seconds = 1, milliseconds = 57 \<rparr>
      None) = Some (JArr [])"
  by (simp add: main_def narrative_def first_attempt_def stamped_def)

text \<open>
  A document whose \<open>weeklyVerdict\<close> is an object with a property \<open>toString\<close> of its own is
  written, and the summary then throws: the artifact is on disk and the process exits with
  code 1.
\<close>

lemma written_then_failed:
  "(let r = main \<lparr> ga4_fetch = Inr JNull, gsc_fetch = Inr JNull, youtube_fetch = Inr JNull,
                  kit_fetch = Inr JNull, meta_fetch = Inr JNull,
                  unbounce_fetch = Inr JNull, vimeo_fetch = Inr JNull \<rparr>
              (\<lambda>data. units ''prompt'') (\<lambda>messages. Inr [Some (units ''{...}'')])
              (\<lambda>text. Inr (JObj [(''weeklyVerdict'',
                         JObj [(''toString'', JNum (Fin 1)), (''valueOf'', JNum (Fin 1))])]))
              \<lparr> year = 2026, month = 3, day = 9, hours = 7, minutes = 5, seconds = 1, milliseconds = 42 \<rparr>
              \<lparr> year = 2026, month = 3, day = 9, hours = 7, minutes = 5, seconds = 1, milliseconds = 57 \<rparr>
              None
    in written r \<noteq> None
       \<and> failure r = Some (TypeError ''Cannot convert object to primitive value'')
       \<and> exit_code r = 1)"
  by (simp add: main_def narrative_def first_attempt_def stamped_def exit_code_def Let_def
      summary_def summary_values_def member_def get_set_prop get_prop_def)


section \<open>Properties of the adapters\<close>

lemma combined_obj:
  "combined f =
     JObj [(''ga4'', value_or_error (case ga4_fetch f of Inl e \<Rightarrow> Rejected e | Inr v \<Rightarrow> Fulfilled v)),
           (''gsc'', value_or_error (case gsc_fetch f of Inl e \<Rightarrow> Rejected e | Inr v \<Rightarrow> Fulfilled v)),
           (''youtube'', value_or_error (case youtube_fetch f of Inl e \<Rightarrow> Rejected e | Inr v \<Rightarrow> Fulfilled v)),
           (''kit'', value_or_error (case kit_fetch f of Inl e \<Rightarrow> Rejected e | Inr v \<Rightarrow> Fulfilled v)),
           (''meta'', value_or_error (case meta_fetch f of Inl e \<Rightarrow> Rejected e | Inr v \<Rightarrow> Fulfilled v)),
           (''unbounce'', value_or_error (case unbounce_fetch f of Inl e \<Rightarrow> Rejected e | Inr v \<Rightarrow> Fulfilled v)),
           (''vimeo'', value_or_error (case vimeo_fetch f of Inl e \<Rightarrow> Rejected e | Inr v \<Rightarrow> Fulfilled v))]"
  by (simp add: combined_def Promise_allSettled_def)

lemma slots:
  "member (combined f) ''ga4'' = (case ga4_fetch f of Inl e \<Rightarrow> JObj [(''error'', JStr (message e))] | Inr v \<Rightarrow> v)"
  "member (combined f) ''gsc'' = (case gsc_fetch f of Inl e \<Rightarrow> JObj [(''error'', JStr (message e))] | Inr v \<Rightarrow> v)"
  "member (combined f) ''youtube'' = (case youtube_fetch f of Inl e \<Rightarrow> JObj [(''error'', JStr (message e))] | Inr v \<Rightarrow> v)"
  "member (combined f) ''kit'' = (case kit_fetch f of Inl e \<Rightarrow> JObj [(''error'', JStr (message e))] | Inr v \<Rightarrow> v)"
  "member (combined f) ''meta'' = (case meta_fetch f of Inl e \<Rightarrow> JObj [(''error'', JStr (message e))] | Inr v \<Rightarrow> v)"
  "member (combined f) ''unbounce'' = (case unbounce_fetch f of Inl e \<Rightarrow> JObj [(''error'', JStr (message e))] | Inr v \<Rightarrow> v)"
  "member (combined f) ''vimeo'' = (case vimeo_fetch f of Inl e \<Rightarrow> JObj [(''error'', JStr (message e))] | Inr v \<Rightarrow> v)"
  by (simp_all add: combined_obj member_def get_prop_def value_or_error_def split: sum.splits)

lemma ga4_missing:
  "absent (env ''GA4_PROPERTY_ID'') \<Longrightarrow>
   fetchGA4Data env JSON_parse reports = ([], Inl (Error ''GA4_PROPERTY_ID env var is missing''))"
  "\<not> absent (env ''GA4_PROPERTY_ID'') \<Longrightarrow> absent (env ''GOOGLE_SERVICE_ACCOUNT'') \<Longrightarrow>
   fetchGA4Data env JSON_parse reports = ([], Inl (Error ''GOOGLE_SERVICE_ACCOUNT env var is missing''))"
  by (simp_all add: fetchGA4Data_def getGoogleAuth_def Let_def)

lemma gsc_missing:
  "absent (env ''GSC_SITE_URL'') \<Longrightarrow>
   fetchGSCData env JSON_parse reports = ([], Inl (Error ''GSC_SITE_URL env var is missing''))"
  "\<not> absent (env ''GSC_SITE_URL'') \<Longrightarrow> absent (env ''GOOGLE_SERVICE_ACCOUNT'') \<Longrightarrow>
   fetchGSCData env JSON_parse reports = ([], Inl (Error ''GOOGLE_SERVICE_ACCOUNT env var is missing''))"
  by (simp_all add: fetchGSCData_def getGoogleAuth_def Let_def)

lemma youtube_missing:
  "absent (env ''GOOGLE_SERVICE_ACCOUNT'') \<Longrightarrow>
   fetchYouTubeData env JSON_parse reports' = ([], Inl (Error ''GOOGLE_SERVICE_ACCOUNT env var is missing''))"
  by (simp add: fetchYouTubeData_def getGoogleAuth_def Let_def)

lemma kit_missing:
  "absent (env ''KIT_API_SECRET'') \<Longrightarrow>
   fetchKitData env kworld isoDate fetched = ([], Inl (Error ''KIT_API_SECRET env var is missing''))"
  by (simp add: fetchKitData_def kitGet_def kit_headers_def Let_def)

lemma meta_missing:
  "absent (env ''META_AD_ACCOUNT_ID'') \<Longrightarrow>
   fetchMetaData env mworld assemble = ([], Inl (Error ''META_AD_ACCOUNT_ID env var is missing''))"
  "\<not> absent (env ''META_AD_ACCOUNT_ID'') \<Longrightarrow> absent (env ''META_ACCESS_TOKEN'') \<Longrightarrow>
   fetchMetaData env mworld assemble = ([], Inl (Error ''META_ACCESS_TOKEN env var is missing''))"
  by (simp_all add: fetchMetaData_def AD_ACCOUNT_def metaGet_def ACCESS_TOKEN_def Let_def
      Promise_all2_def)

lemma vimeo_missing:
  "absent (env ''VIMEO_ACCESS_TOKEN'') \<Longrightarrow>
   fetchVimeoData env vworld parseEngagement vwindow fetched
     = ([], Inl (Error ''VIMEO_ACCESS_TOKEN env var is missing''))"
  by (simp add: fetchVimeoData_def vimeoGet_def vimeo_headers_def Let_def)

lemma unbounce_missing:
  "absent (env ''UNBOUNCE_ACCESS_TOKEN'') \<Longrightarrow>
   absent (env ''UNBOUNCE_REFRESH_TOKEN'') \<or> absent (env ''UNBOUNCE_CLIENT_ID'')
     \<or> absent (env ''UNBOUNCE_CLIENT_SECRET'') \<Longrightarrow>
   fetchUnbounceData env uworld uwindow fetched
     = ([], Inl (Error ''UNBOUNCE_ACCESS_TOKEN env var is missing''))"
  by (auto simp add: fetchUnbounceData_def getAccessToken_def Let_def)

lemma unbounce_refresh_first:
  "absent (env ''UNBOUNCE_ACCESS_TOKEN'') \<Longrightarrow>
   \<not> absent (env ''UNBOUNCE_REFRESH_TOKEN'') \<Longrightarrow> \<not> absent (env ''UNBOUNCE_CLIENT_ID'') \<Longrightarrow>
   \<not> absent (env ''UNBOUNCE_CLIENT_SECRET'') \<Longrightarrow>
   uw_token uworld = Inr res \<Longrightarrow> \<not> res_ok res \<Longrightarrow>
   fetchUnbounceData env uworld uwindow fetched
     = ([(''/0.1/oauth/token'', [])], Inl (Error ''UNBOUNCE_ACCESS_TOKEN env var is missing''))"
  by (simp add: fetchUnbounceData_def getAccessToken_def Let_def)


text \<open>
  C6, as amended: in GA4, Search Console, YouTube, Kit, Meta and Vimeo, when a credential
  variable the adapter reads is unset (or empty), the fetch function rejects with the error
  \<open>NAME env var is missing\<close> naming that variable, and no request has been issued. In
  Unbounce the same holds for \<open>UNBOUNCE_ACCESS_TOKEN\<close> when the three refresh variables are not
  all set; when they are all set, the token request is issued first, and if it is refused the
  adapter then rejects naming \<open>UNBOUNCE_ACCESS_TOKEN\<close>. A rejected adapter leaves
  \<open>{error: message}\<close> under its own key of the combined snapshot, and every key depends on
  its own adapter only.
\<close>

theorem missing_credentials:
  "(absent (env ''GA4_PROPERTY_ID'') \<longrightarrow>
      fetchGA4Data env JSON_parse ga4_reports
        = ([], Inl (Error ''GA4_PROPERTY_ID env var is missing'')))
   \<and> (\<not> absent (env ''GA4_PROPERTY_ID'') \<and> absent (env ''GOOGLE_SERVICE_ACCOUNT'') \<longrightarrow>
      fetchGA4Data env JSON_parse ga4_reports
        = ([], Inl (Error ''GOOGLE_SERVICE_ACCOUNT env var is missing'')))
   \<and> (absent (env ''GSC_SITE_URL'') \<longrightarrow>
      fetchGSCData env JSON_parse gsc_reports
        = ([], Inl (Error ''GSC_SITE_URL env var is missing'')))
   \<and> (\<not> absent (env ''GSC_SITE_URL'') \<and> absent (env ''GOOGLE_SERVICE_ACCOUNT'') \<longrightarrow>
      fetchGSCData env JSON_parse gsc_reports
        = ([], Inl (Error ''GOOGLE_SERVICE_ACCOUNT env var is missing'')))
   \<and> (absent (env ''GOOGLE_SERVICE_ACCOUNT'') \<longrightarrow>
      fetchYouTubeData env JSON_parse youtube_reports
        = ([], Inl (Error ''GOOGLE_SERVICE_ACCOUNT env var is missing'')))
   \<and> (absent (env ''KIT_API_SECRET'') \<longrightarrow>
      fetchKitData env kworld isoDate fetched
        = ([], Inl (Error ''KIT_API_SECRET env var is missing'')))
   \<and> (absent (env ''META_AD_ACCOUNT_ID'') \<longrightarrow>
      fetchMetaData env mworld assemble
        = ([], Inl (Error ''META_AD_ACCOUNT_ID env var is missing'')))
   \<and> (\<not> absent (env ''META_AD_ACCOUNT_ID'') \<and> absent (env ''META_ACCESS_TOKEN'') \<longrightarrow>
      fetchMetaData env mworld assemble
        = ([], Inl (Error ''META_ACCESS_TOKEN env var is missing'')))
   \<and> (absent (env ''VIMEO_ACCESS_TOKEN'') \<longrightarrow>
      fetchVimeoData env vworld parseEngagement vwindow fetched
        = ([], Inl (Error ''VIMEO_ACCESS_TOKEN env var is missing'')))
   \<and> (absent (env ''UNBOUNCE_ACCESS_TOKEN'')
       \<and> (absent (env ''UNBOUNCE_REFRESH_TOKEN'') \<or> absent (env ''UNBOUNCE_CLIENT_ID'')
            \<or> absent (env ''UNBOUNCE_CLIENT_SECRET'')) \<longrightarrow>
      fetchUnbounceData env uworld uwindow fetched
        = ([], Inl (Error ''UNBOUNCE_ACCESS_TOKEN env var is missing'')))
   \<and> (\<forall>res. absent (env ''UNBOUNCE_ACCESS_TOKEN'')
       \<and> \<not> absent (env ''UNBOUNCE_REFRESH_TOKEN'') \<and> \<not> absent (env ''UNBOUNCE_CLIENT_ID'')
       \<and> \<not> absent (env ''UNBOUNCE_CLIENT_SECRET'')
       \<and> uw_token uworld = Inr res \<and> \<not> res_ok res \<longrightarrow>
      fetchUnbounceData env uworld uwindow fetched
        = ([(''/0.1/oauth/token'', [])],
           Inl (Error ''UNBOUNCE_ACCESS_TOKEN env var is missing'')))
   \<and> (\<forall>f e. ga4_fetch f = Inl e \<longrightarrow> member (combined f) ''ga4'' = JObj [(''error'', JStr (message e))])
   \<and> (\<forall>f g. ga4_fetch f = ga4_fetch g \<longrightarrow> member (combined f) ''ga4'' = member (combined g) ''ga4'')
   \<and> (\<forall>f e. gsc_fetch f = Inl e \<longrightarrow> member (combined f) ''gsc'' = JObj [(''error'', JStr (message e))])
   \<and> (\<forall>f g. gsc_fetch f = gsc_fetch g \<longrightarrow> member (combined f) ''gsc'' = member (combined g) ''gsc'')
   \<and> (\<forall>f e. youtube_fetch f = Inl e \<longrightarrow> member (combined f) ''youtube'' = JObj [(''error'', JStr (message e))])
   \<and> (\<forall>f g. youtube_fetch f = youtube_fetch g \<longrightarrow> member (combined f) ''youtube'' = member (combined g) ''youtube'')
   \<and> (\<forall>f e. kit_fetch f = Inl e \<longrightarrow> member (combined f) ''kit'' = JObj [(''error'', JStr (message e))])
   \<and> (\<forall>f g. kit_fetch f = kit_fetch g \<longrightarrow> member (combined f) ''kit'' = member (combined g) ''kit'')
   \<and> (\<forall>f e. meta_fetch f = Inl e \<longrightarrow> member (combined f) ''meta'' = JObj [(''error'', JStr (message e))])
   \<and> (\<forall>f g. meta_fetch f = meta_fetch g \<longrightarrow> member (combined f) ''meta'' = member (combined g) ''meta'')
   \<and> (\<forall>f e. unbounce_fetch f = Inl e \<longrightarrow> member (combined f) ''unbounce'' = JObj [(''error'', JStr (message e))])
   \<and> (\<forall>f g. unbounce_fetch f = unbounce_fetch g \<longrightarrow> member (combined f) ''unbounce'' = member (combined g) ''unbounce'')
   \<and> (\<forall>f e. vimeo_fetch f = Inl e \<longrightarrow> member (combined f) ''vimeo'' = JObj [(''error'', JStr (message e))])
   \<and> (\<forall>f g. vimeo_fetch f = vimeo_fetch g \<longrightarrow> member (combined f) ''vimeo'' = member (combined g) ''vimeo'')"
  by (intro conjI allI impI)
     (simp_all add: ga4_missing gsc_missing youtube_missing kit_missing meta_missing
        vimeo_missing unbounce_missing unbounce_refresh_first slots)

text \<open>
  The witness: Meta with the account id set and no access token.
\<close>

theorem missing_credentials_witness:
  "fetchMetaData [''META_AD_ACCOUNT_ID'' \<mapsto> ''act_1'']
      \<lparr> mw_thisWeek = Inl (Error ''fetch failed''), mw_lastWeek = Inl (Error ''fetch failed''),
         mw_lastWeek_first = False, mw_campaigns = Inl (Error ''fetch failed''),
         mw_ads = Inl (Error ''fetch failed'') \<rparr>
      (\<lambda>thisWeekAccount lastWeekAccount campaignsRes adsRes. Inr JNull)
     = ([], Inl (Error ''META_ACCESS_TOKEN env var is missing'') :: error + jsval)
   \<and> member (combined \<lparr> ga4_fetch = Inr JNull, gsc_fetch = Inr JNull, youtube_fetch = Inr JNull,
         kit_fetch = Inr JNull, meta_fetch = Inl (Error ''META_ACCESS_TOKEN env var is missing''),
         unbounce_fetch = Inr JNull, vimeo_fetch = Inr JNull \<rparr>) ''meta''
       = JObj [(''error'', JStr ''META_ACCESS_TOKEN env var is missing'')]"
proof (rule conjI)
  let ?env = "[''META_AD_ACCOUNT_ID'' \<mapsto> ''act_1''] :: env"
  have h: "\<not> absent (?env ''META_AD_ACCOUNT_ID'') \<and> absent (?env ''META_ACCESS_TOKEN'')"
    by (simp add: absent_def)
  show "fetchMetaData ?env
      \<lparr> mw_thisWeek = Inl (Error ''fetch failed''), mw_lastWeek = Inl (Error ''fetch failed''),
         mw_lastWeek_first = False, mw_campaigns = Inl (Error ''fetch failed''),
         mw_ads = Inl (Error ''fetch failed'') \<rparr>
      (\<lambda>thisWeekAccount lastWeekAccount campaignsRes adsRes. Inr JNull)
     = ([], Inl (Error ''META_ACCESS_TOKEN env var is missing'') :: error + jsval)"
    by (rule missing_credentials[THEN conjunct2, THEN conjunct2, THEN conjunct2,
          THEN conjunct2, THEN conjunct2, THEN conjunct2, THEN conjunct2, THEN conjunct1,
          rule_format, OF h])
next
  let ?f = "\<lparr> ga4_fetch = Inr JNull, gsc_fetch = Inr JNull, youtube_fetch = Inr JNull,
         kit_fetch = Inr JNull, meta_fetch = Inl (Error ''META_ACCESS_TOKEN env var is missing''),
         unbounce_fetch = Inr JNull, vimeo_fetch = Inr JNull \<rparr>"
  have h: "meta_fetch ?f = Inl (Error ''META_ACCESS_TOKEN env var is missing'')" by simp
  have "member (combined ?f) ''meta''
       = JObj [(''error'', JStr (message (Error ''META_ACCESS_TOKEN env var is missing'')))]"
    by (rule missing_credentials[THEN conjunct2, THEN conjunct2, THEN conjunct2,
          THEN conjunct2, THEN conjunct2, THEN conjunct2, THEN conjunct2, THEN conjunct2,
          THEN conjunct2, THEN conjunct2, THEN conjunct2,
          THEN conjunct2, THEN conjunct2, THEN conjunct2, THEN conjunct2, THEN conjunct2,
          THEN conjunct2, THEN conjunct2, THEN conjunct2, THEN conjunct1,
          rule_format, OF h])
  then show "member (combined ?f) ''meta''
       = JObj [(''error'', JStr ''META_ACCESS_TOKEN env var is missing'')]"
    by simp
qed
text \<open>
  C6 as stated fails for Unbounce: with the three refresh variables set, no stored access
  token and a refused refresh, the adapter has issued the token request when it rejects.
\<close>

theorem missing_credentials_counterexample:
  "fetchUnbounceData
      [''UNBOUNCE_REFRESH_TOKEN'' \<mapsto> ''r1'', ''UNBOUNCE_CLIENT_ID'' \<mapsto> ''c1'',
        ''UNBOUNCE_CLIENT_SECRET'' \<mapsto> ''s1'']
      \<lparr> uw_token = Inr \<lparr> res_ok = False, res_status = 401, res_text = ''invalid_grant'',
                          res_json = Inr None \<rparr>,
         uw_accounts = Inl (Error ''fetch failed''),
         uw_pages = (\<lambda>account. Inl (Error ''fetch failed'')),
         uw_thisWeek = (\<lambda>page. Inl (Error ''fetch failed'')),
         uw_lastWeek = (\<lambda>page. Inl (Error ''fetch failed'')),
         uw_lastWeek_first = (\<lambda>page. False),
         uw_variants = (\<lambda>page. Inl (Error ''fetch failed'')) \<rparr>
      \<lparr> thisWeekStart = ''2026-03-02'', thisWeekEnd = ''2026-03-08'',
         lastWeekStart = ''2026-02-23'', lastWeekEnd = ''2026-03-01'' \<rparr>
      ''2026-03-09T07:05:01.042Z''
    = ([(''/0.1/oauth/token'', [])], Inl (Error ''UNBOUNCE_ACCESS_TOKEN env var is missing''))"
  by (simp add: fetchUnbounceData_def getAccessToken_def absent_def)


lemma set_insert_by: "set (insert_by cmp x ys) = insert x (set ys)"
  by (induction ys) auto

lemma set_sort_by: "set (sort_by cmp xs) = set xs"
  by (induction xs) (simp_all add: sort_by_def set_insert_by)

















lemma vimeo_report:
  assumes l: "snd (vimeoGet env (vw_videos world) ''/me/videos''
             [(''fields'', ''uri,name,duration,created_time,pictures,stats''),
              (''per_page'', ''25''), (''sort'', ''date''), (''direction'', ''desc'')]) = Inr (Some (Some data))"
    and t: "to_videos data = Inr vs" and n: "vs \<noteq> []"
  shows "\<exists>r. snd (fetchVimeoData env world pe window fetched) = Inr (Report r)
     \<and> r_errors r =
         (if filter (\<lambda>v. truthy_str (v_error v)) (snd (videosWithStats env world pe window vs)) = []
          then None
          else Some (map (\<lambda>v. (v_title v, v_error v))
                 (filter (\<lambda>v. truthy_str (v_error v))
                    (snd (videosWithStats env world pe window vs)))))
     \<and> set (r_videos r) = set (validVideos (snd (videosWithStats env world pe window vs)))
     \<and> r_lowFinishRateVideos r = lowFinishRate (snd (videosWithStats env world pe window vs))"
  using l t n
  by (cases "vimeoGet env (vw_videos world) ''/me/videos''
             [(''fields'', ''uri,name,duration,created_time,pictures,stats''),
              (''per_page'', ''25''), (''sort'', ''date''), (''direction'', ''desc'')]")
     (simp add: fetchVimeoData_def Let_def case_prod_beta set_sort_by)










end
